theory Spec2Isabelle
  imports Main "HOL-Library.Word" "HOL-Library.Finite_Map"
begin

section \<open>Account storage of Mission Control: a shallow embedding of mcd-storage\<close>

text \<open>
  The development follows \<^verbatim>\<open>src/src/mcd-debug.c\<close> from its second document on
  (the account manager as presented to plugins, \<^verbatim>\<open>McdStorage\<close>). Each definition keeps
  the name of the C function it embeds. C strings are \<open>string\<close> (byte lists), a
  nullable pointer is an \<open>option\<close>, a \<^verbatim>\<open>GHashTable\<close> keyed by strings is a
  finite map (\<open>fmlookup\<close> looks up, \<open>fmupd\<close> inserts or replaces, \<open>fmdrop\<close>
  removes; the iteration order of a hash table is unspecified, so what the source
  collects while iterating is a finite set), and a \<^verbatim>\<open>GList\<close> is a list.
\<close>

subsection \<open>Values: GVariant, GType, GValue, GError\<close>

text \<open>
  A \<^verbatim>\<open>GVariant\<close> is a closed sum over the classes \<^verbatim>\<open>mcd_keyfile_set_variant\<close>
  switches on. \<open>VOther t bytes\<close> is a variant of any other type \<open>t\<close> with its
  serialised form, so that structural equality is \<^verbatim>\<open>g_variant_equal\<close> (same type,
  same serialised data). A double is carried as its 64 bits.
\<close>

type_synonym gdouble = "64 word"

datatype GVariant =
    VString string
  | VObjectPath string
  | VSignature string
  | VUInt16 "16 word"
  | VUInt32 "32 word"
  | VInt16 "16 word"
  | VInt32 "32 word"
  | VBoolean bool
  | VByte "8 word"
  | VUInt64 "64 word"
  | VInt64 "64 word"
  | VDouble gdouble
  | VStrv "string list"
  | VObjv "string list"
  | VPresence "32 word" string string
  | VOther string "8 word list"

datatype GVariantType =
    G_VARIANT_TYPE_STRING
  | G_VARIANT_TYPE_OBJECT_PATH
  | G_VARIANT_TYPE_SIGNATURE
  | G_VARIANT_TYPE_UINT16
  | G_VARIANT_TYPE_UINT32
  | G_VARIANT_TYPE_INT16
  | G_VARIANT_TYPE_INT32
  | G_VARIANT_TYPE_BOOLEAN
  | G_VARIANT_TYPE_BYTE
  | G_VARIANT_TYPE_UINT64
  | G_VARIANT_TYPE_INT64
  | G_VARIANT_TYPE_DOUBLE
  | G_VARIANT_TYPE_STRING_ARRAY
  | G_VARIANT_TYPE_OBJECT_PATH_ARRAY
  | G_VARIANT_TYPE_USS
  | G_VARIANT_TYPE_OTHER string

fun g_variant_get_type :: "GVariant \<Rightarrow> GVariantType" where
  "g_variant_get_type (VString _) = G_VARIANT_TYPE_STRING"
| "g_variant_get_type (VObjectPath _) = G_VARIANT_TYPE_OBJECT_PATH"
| "g_variant_get_type (VSignature _) = G_VARIANT_TYPE_SIGNATURE"
| "g_variant_get_type (VUInt16 _) = G_VARIANT_TYPE_UINT16"
| "g_variant_get_type (VUInt32 _) = G_VARIANT_TYPE_UINT32"
| "g_variant_get_type (VInt16 _) = G_VARIANT_TYPE_INT16"
| "g_variant_get_type (VInt32 _) = G_VARIANT_TYPE_INT32"
| "g_variant_get_type (VBoolean _) = G_VARIANT_TYPE_BOOLEAN"
| "g_variant_get_type (VByte _) = G_VARIANT_TYPE_BYTE"
| "g_variant_get_type (VUInt64 _) = G_VARIANT_TYPE_UINT64"
| "g_variant_get_type (VInt64 _) = G_VARIANT_TYPE_INT64"
| "g_variant_get_type (VDouble _) = G_VARIANT_TYPE_DOUBLE"
| "g_variant_get_type (VStrv _) = G_VARIANT_TYPE_STRING_ARRAY"
| "g_variant_get_type (VObjv _) = G_VARIANT_TYPE_OBJECT_PATH_ARRAY"
| "g_variant_get_type (VPresence _ _ _) = G_VARIANT_TYPE_USS"
| "g_variant_get_type (VOther t _) = G_VARIANT_TYPE_OTHER t"

text \<open>
  The \<^verbatim>\<open>GType\<close>s that \<^verbatim>\<open>mcd_keyfile_get_value\<close> distinguishes, and a
  \<^verbatim>\<open>GValue\<close>: its type and its contents, the contents written as the
  \<^verbatim>\<open>GVariant\<close> that \<^verbatim>\<open>dbus_g_value_build_g_variant\<close> builds from them (\<open>None\<close>
  for a value that is initialised but holds nothing a variant can be built from).
\<close>

datatype GType =
    G_TYPE_STRING
  | G_TYPE_INT
  | G_TYPE_INT64
  | G_TYPE_UINT
  | G_TYPE_UCHAR
  | G_TYPE_UINT64
  | G_TYPE_BOOLEAN
  | G_TYPE_DOUBLE
  | G_TYPE_STRV
  | DBUS_TYPE_G_OBJECT_PATH
  | DBUS_TYPE_G_SIGNATURE
  | TP_ARRAY_TYPE_OBJECT_PATH_LIST
  | TP_STRUCT_TYPE_SIMPLE_PRESENCE
  | G_TYPE_OTHER string

datatype GValue = GValue (G_VALUE_TYPE: GType) (g_value_contents: "GVariant option")

definition dbus_g_value_build_g_variant :: "GValue \<Rightarrow> GVariant option" where
  "dbus_g_value_build_g_variant v = g_value_contents v"

text \<open>
  \<^verbatim>\<open>dbus_g_value_parse_g_variant\<close> (dbus-glib): 16-bit integers are widened into
  \<^verbatim>\<open>G_TYPE_INT\<close> and \<^verbatim>\<open>G_TYPE_UINT\<close>; every other class keeps its contents.
\<close>

fun dbus_g_value_parse_g_variant :: "GVariant \<Rightarrow> GValue" where
  "dbus_g_value_parse_g_variant (VString s) = GValue G_TYPE_STRING (Some (VString s))"
| "dbus_g_value_parse_g_variant (VObjectPath s) = GValue DBUS_TYPE_G_OBJECT_PATH (Some (VObjectPath s))"
| "dbus_g_value_parse_g_variant (VSignature s) = GValue DBUS_TYPE_G_SIGNATURE (Some (VSignature s))"
| "dbus_g_value_parse_g_variant (VUInt16 w) = GValue G_TYPE_UINT (Some (VUInt32 (ucast w)))"
| "dbus_g_value_parse_g_variant (VUInt32 w) = GValue G_TYPE_UINT (Some (VUInt32 w))"
| "dbus_g_value_parse_g_variant (VInt16 w) = GValue G_TYPE_INT (Some (VInt32 (scast w)))"
| "dbus_g_value_parse_g_variant (VInt32 w) = GValue G_TYPE_INT (Some (VInt32 w))"
| "dbus_g_value_parse_g_variant (VBoolean b) = GValue G_TYPE_BOOLEAN (Some (VBoolean b))"
| "dbus_g_value_parse_g_variant (VByte w) = GValue G_TYPE_UCHAR (Some (VByte w))"
| "dbus_g_value_parse_g_variant (VUInt64 w) = GValue G_TYPE_UINT64 (Some (VUInt64 w))"
| "dbus_g_value_parse_g_variant (VInt64 w) = GValue G_TYPE_INT64 (Some (VInt64 w))"
| "dbus_g_value_parse_g_variant (VDouble d) = GValue G_TYPE_DOUBLE (Some (VDouble d))"
| "dbus_g_value_parse_g_variant (VStrv xs) = GValue G_TYPE_STRV (Some (VStrv xs))"
| "dbus_g_value_parse_g_variant (VObjv xs) = GValue TP_ARRAY_TYPE_OBJECT_PATH_LIST (Some (VObjv xs))"
| "dbus_g_value_parse_g_variant (VPresence u s m) =
     GValue TP_STRUCT_TYPE_SIMPLE_PRESENCE (Some (VPresence u s m))"
| "dbus_g_value_parse_g_variant (VOther t bs) = GValue (G_TYPE_OTHER t) (Some (VOther t bs))"

text \<open>
  A \<^verbatim>\<open>GError\<close> is its code and its message. The messages of the errors this file
  raises are the texts of the source; an error raised inside GLib carries GLib's code and
  an empty message.
\<close>

datatype GErrorCode =
    TP_ERROR_NOT_AVAILABLE
  | TP_ERROR_NOT_IMPLEMENTED
  | TP_ERROR_INVALID_ARGUMENT
  | DBUS_GERROR_SERVICE_UNKNOWN
  | MCD_ACCOUNT_ERROR_GET_PARAMETER
  | G_KEY_FILE_ERROR_UNKNOWN_ENCODING
  | G_KEY_FILE_ERROR_KEY_NOT_FOUND
  | G_KEY_FILE_ERROR_GROUP_NOT_FOUND
  | G_KEY_FILE_ERROR_INVALID_VALUE
  | G_IO_ERROR_CANCELLED
  | OTHER_ERROR string

datatype GError = GError (error_code: GErrorCode) (error_message: string)

subsection \<open>The storage plugins and their registry\<close>

text \<open>
  What a plugin pushes into the cache while \<^verbatim>\<open>mcp_account_storage_get\<close> runs: calls
  of the manager's write-back functions \<^verbatim>\<open>set_value\<close>, \<^verbatim>\<open>mcpa_set_attribute\<close>
  and \<^verbatim>\<open>mcpa_set_parameter\<close>, each with the account, the key and a nullable value.
\<close>

datatype McpCallback =
    Mcp_set_value string string "string option"
  | Mcp_set_attribute string string "GVariant option"
  | Mcp_set_parameter string string "GVariant option"

text \<open>
  A storage plugin (\<^verbatim>\<open>McpAccountStorage\<close>) is its vtable: each field is named after
  the \<^verbatim>\<open>mcp_account_storage_*\<close> call the source makes. A plugin's own state is not
  part of this file, so a call's answer is a function of its arguments; \<open>create\<close> also
  sees the account names in use (through \<^verbatim>\<open>unique_name\<close>), and returns the new
  name or the error it set.
\<close>

record McpAccountStorage =
  mcp_account_storage_name :: string
  mcp_account_storage_priority :: int
  mcp_account_storage_provider :: string
  mcp_account_storage_list :: "string list"
  mcp_account_storage_get :: "string \<Rightarrow> McpCallback list"
  mcp_account_storage_create :: "string fset \<Rightarrow> string \<Rightarrow> string \<Rightarrow> string \<Rightarrow> GError + string"
  mcp_account_storage_set_attribute :: "string \<Rightarrow> string \<Rightarrow> GVariant \<Rightarrow> bool"
  mcp_account_storage_set_parameter :: "string \<Rightarrow> string \<Rightarrow> GVariant \<Rightarrow> bool"
  mcp_account_storage_set :: "string \<Rightarrow> string \<Rightarrow> string \<Rightarrow> bool"

text \<open>
  \<^verbatim>\<open>account_storage_cmp\<close>: descending order of priority (\<open>-1\<close>, \<open>1\<close> or \<open>0\<close>).
\<close>

definition account_storage_cmp :: "McpAccountStorage \<Rightarrow> McpAccountStorage \<Rightarrow> int" where
  "account_storage_cmp a b =
     (let pa = mcp_account_storage_priority a; pb = mcp_account_storage_priority b
      in if pa > pb then -1 else if pa < pb then 1 else 0)"

text \<open>
  \<^verbatim>\<open>g_list_insert_sorted\<close> (GLib): walk the list while the comparison of the new
  element with the current one is positive, and link the new element in front of the
  first element for which it is not (or after the last element).
\<close>

fun g_list_insert_sorted :: "'a list \<Rightarrow> 'a \<Rightarrow> ('a \<Rightarrow> 'a \<Rightarrow> int) \<Rightarrow> 'a list" where
  "g_list_insert_sorted [] data func = [data]"
| "g_list_insert_sorted (x # xs) data func =
     (if func data x > 0 then x # g_list_insert_sorted xs data func else data # x # xs)"

definition add_storage_plugin :: "McpAccountStorage \<Rightarrow> McpAccountStorage list \<Rightarrow> McpAccountStorage list" where
  "add_storage_plugin plugin stores = g_list_insert_sorted stores plugin account_storage_cmp"

text \<open>
  \<^verbatim>\<open>sort_and_cache_plugins\<close>: the compiled-in default plugin is added first, then
  every loaded plugin in the order \<^verbatim>\<open>mcp_list_objects\<close> gives them.
\<close>

definition register_plugins :: "McpAccountStorage list \<Rightarrow> McpAccountStorage list" where
  "register_plugins plugins = foldl (\<lambda>stores p. add_storage_plugin p stores) [] plugins"

definition sort_and_cache_plugins :: "McpAccountStorage \<Rightarrow> McpAccountStorage list \<Rightarrow> McpAccountStorage list" where
  "sort_and_cache_plugins mcd_account_manager_default loaded =
     register_plugins (mcd_account_manager_default # loaded)"

subsection \<open>GLib and libc: decimal text\<close>

text \<open>
  \<^verbatim>\<open>printf\<close> with \<^verbatim>\<open>%u\<close> (and \<^verbatim>\<open>G_GUINT64_FORMAT\<close>) prints an unsigned number in
  decimal without sign; \<^verbatim>\<open>%d\<close> (and \<^verbatim>\<open>G_GINT64_FORMAT\<close>) prints a minus sign before
  the magnitude of a negative number.
\<close>

definition digit_char :: "nat \<Rightarrow> char" where
  "digit_char d = char_of (48 + d)"

function printf_u :: "nat \<Rightarrow> string" where
  "printf_u n = (if n < 10 then [digit_char n] else printf_u (n div 10) @ [digit_char (n mod 10)])"
  by pat_completeness auto
termination
  by (relation "measure id") auto

declare printf_u.simps [simp del]

definition printf_d :: "int \<Rightarrow> string" where
  "printf_d i = (if i < 0 then CHR ''-'' # printf_u (nat (- i)) else printf_u (nat i))"

text \<open>
  \<^verbatim>\<open>g_parse_long_long\<close> in base 10 (behind \<^verbatim>\<open>g_ascii_strtoull\<close> and
  \<^verbatim>\<open>g_ascii_strtoll\<close>): skip white space, read one sign, read digits. The result is
  the magnitude (unbounded here; the callers saturate), the sign, and the rest of the
  text (\<^verbatim>\<open>*endptr\<close>). Without a digit nothing is converted: the value is 0 and the
  rest is the whole text.
\<close>

definition ISSPACE :: "char \<Rightarrow> bool" where
  "ISSPACE c = (c = CHR '' '' \<or> c = CHR 0x0C \<or> c = CHR 0x0A \<or> c = CHR 0x0D \<or> c = CHR 0x09 \<or> c = CHR 0x0B)"

definition g_ascii_isspace :: "char \<Rightarrow> bool" where
  "g_ascii_isspace c = (c = CHR '' '' \<or> c = CHR 0x0C \<or> c = CHR 0x0A \<or> c = CHR 0x0D \<or> c = CHR 0x09)"

definition is_digit :: "char \<Rightarrow> bool" where
  "is_digit c = (48 \<le> (of_char c :: nat) \<and> (of_char c :: nat) \<le> 57)"

definition digits_value :: "string \<Rightarrow> nat" where
  "digits_value ds = foldl (\<lambda>a c. 10 * a + ((of_char c :: nat) - 48)) 0 ds"

definition g_parse_long_long :: "string \<Rightarrow> nat \<times> bool \<times> string" where
  "g_parse_long_long nptr =
     (let s = dropWhile ISSPACE nptr;
          negative = (case s of [] \<Rightarrow> False | c # _ \<Rightarrow> c = CHR ''-'');
          s1 = (case s of [] \<Rightarrow> [] | c # r \<Rightarrow> if c = CHR ''-'' \<or> c = CHR ''+'' then r else s);
          ds = takeWhile is_digit s1
      in if ds = [] then (0, False, nptr)
         else (digits_value ds, negative, dropWhile is_digit s1))"

text \<open>
  The three results are the number, whether \<^verbatim>\<open>errno\<close> was set to \<^verbatim>\<open>ERANGE\<close>, and
  \<^verbatim>\<open>*endptr\<close>. \<^verbatim>\<open>g_ascii_strtoull\<close> negates modulo \<open>2^64\<close> after a minus sign.
  \<^verbatim>\<open>strtol\<close> is that of a platform whose \<^verbatim>\<open>long\<close> has 64 bits.
\<close>

definition g_ascii_strtoull :: "string \<Rightarrow> 64 word \<times> bool \<times> string" where
  "g_ascii_strtoull nptr =
     (case g_parse_long_long nptr of (n, negative, endptr) \<Rightarrow>
        if n > 2 ^ 64 - 1 then (if negative then - (- 1) else - 1, True, endptr)
        else (if negative then - word_of_nat n else word_of_nat n, False, endptr))"

definition g_ascii_strtoll :: "string \<Rightarrow> 64 word \<times> bool \<times> string" where
  "g_ascii_strtoll nptr =
     (case g_parse_long_long nptr of (n, negative, endptr) \<Rightarrow>
        if negative \<and> n > 2 ^ 63 then (word_of_int (- (2 ^ 63)), True, endptr)
        else if \<not> negative \<and> n > 2 ^ 63 - 1 then (word_of_int (2 ^ 63 - 1), True, endptr)
        else if negative then (- word_of_nat n, False, endptr)
        else (word_of_nat n, False, endptr))"

definition strtol :: "string \<Rightarrow> 64 word \<times> bool \<times> string" where
  "strtol nptr = g_ascii_strtoll nptr"

subsection \<open>GLib: UTF-8 validation and object paths\<close>

text \<open>
  \<^verbatim>\<open>g_utf8_validate\<close> on a NUL-terminated string: the bytes are a sequence of
  well-formed UTF-8 encodings of Unicode scalar values (no overlong form, no surrogate,
  nothing above U+10FFFF). A C string holds no NUL byte, so a NUL in the list is refused.
\<close>

definition utf8_cont :: "char \<Rightarrow> bool" where
  "utf8_cont c = (128 \<le> (of_char c :: nat) \<and> (of_char c :: nat) \<le> 191)"

definition utf8_second :: "nat \<Rightarrow> char \<Rightarrow> bool" where
  "utf8_second b c =
     (let x = (of_char c :: nat) in
      if b = 224 then 160 \<le> x \<and> x \<le> 191
      else if b = 237 then 128 \<le> x \<and> x \<le> 159
      else if b = 240 then 144 \<le> x \<and> x \<le> 191
      else if b = 244 then 128 \<le> x \<and> x \<le> 143
      else 128 \<le> x \<and> x \<le> 191)"

fun g_utf8_validate :: "string \<Rightarrow> bool" where
  "g_utf8_validate [] = True"
| "g_utf8_validate [c] = (0 < (of_char c :: nat) \<and> (of_char c :: nat) < 128)"
| "g_utf8_validate [c, c1] =
     (let b = (of_char c :: nat) in
      if 0 < b \<and> b < 128 then g_utf8_validate [c1]
      else 194 \<le> b \<and> b \<le> 223 \<and> utf8_cont c1)"
| "g_utf8_validate [c, c1, c2] =
     (let b = (of_char c :: nat) in
      if 0 < b \<and> b < 128 then g_utf8_validate [c1, c2]
      else if 194 \<le> b \<and> b \<le> 223 then utf8_cont c1 \<and> g_utf8_validate [c2]
      else 224 \<le> b \<and> b \<le> 239 \<and> utf8_second b c1 \<and> utf8_cont c2)"
| "g_utf8_validate (c # c1 # c2 # c3 # cs) =
     (let b = (of_char c :: nat) in
      if 0 < b \<and> b < 128 then g_utf8_validate (c1 # c2 # c3 # cs)
      else if 194 \<le> b \<and> b \<le> 223 then utf8_cont c1 \<and> g_utf8_validate (c2 # c3 # cs)
      else if 224 \<le> b \<and> b \<le> 239 then utf8_second b c1 \<and> utf8_cont c2 \<and> g_utf8_validate (c3 # cs)
      else 240 \<le> b \<and> b \<le> 244 \<and> utf8_second b c1 \<and> utf8_cont c2 \<and> utf8_cont c3 \<and> g_utf8_validate cs)"

text \<open>
  \<^verbatim>\<open>g_variant_is_object_path\<close> and \<^verbatim>\<open>tp_dbus_check_valid_object_path\<close>: a slash,
  then either nothing or elements of \<^verbatim>\<open>[A-Za-z0-9_]\<close>, each non-empty, separated by
  single slashes, with no slash at the end.
\<close>

definition object_path_char :: "char \<Rightarrow> bool" where
  "object_path_char c =
     (let x = (of_char c :: nat) in
      (48 \<le> x \<and> x \<le> 57) \<or> (65 \<le> x \<and> x \<le> 90) \<or> (97 \<le> x \<and> x \<le> 122) \<or> x = 95)"

fun object_path_elements :: "string \<Rightarrow> bool" where
  "object_path_elements [] = False"
| "object_path_elements [c] = object_path_char c"
| "object_path_elements (c # d # ds) =
     (object_path_char c \<and>
      (if d = CHR ''/'' then object_path_elements ds else object_path_elements (d # ds)))"

definition g_variant_is_object_path :: "string \<Rightarrow> bool" where
  "g_variant_is_object_path s =
     (case s of [] \<Rightarrow> False | c # cs \<Rightarrow> c = CHR ''/'' \<and> (cs = [] \<or> object_path_elements cs))"

definition tp_dbus_check_valid_object_path :: "string \<Rightarrow> bool" where
  "tp_dbus_check_valid_object_path s = g_variant_is_object_path s"

subsection \<open>GLib: key files\<close>

text \<open>
  A \<^verbatim>\<open>GKeyFile\<close> maps a group name to the keys of the group and their raw values.
  \<^verbatim>\<open>g_key_file_new\<close> gives an empty one whose list separator is the semicolon.
\<close>

type_synonym GKeyFile = "(string, (string, string) fmap) fmap"

definition g_key_file_new :: GKeyFile where
  "g_key_file_new = fmempty"

definition list_separator :: char where
  "list_separator = CHR '';''"

definition g_key_file_set_value :: "GKeyFile \<Rightarrow> string \<Rightarrow> string \<Rightarrow> string \<Rightarrow> GKeyFile" where
  "g_key_file_set_value keyfile group_name key v =
     fmupd group_name
       (fmupd key v (case fmlookup keyfile group_name of None \<Rightarrow> fmempty | Some g \<Rightarrow> g)) keyfile"

definition g_key_file_get_value :: "GKeyFile \<Rightarrow> string \<Rightarrow> string \<Rightarrow> GError + string" where
  "g_key_file_get_value keyfile group_name key =
     (case fmlookup keyfile group_name of
        None \<Rightarrow> Inl (GError G_KEY_FILE_ERROR_GROUP_NOT_FOUND [])
      | Some g \<Rightarrow>
          (case fmlookup g key of
             None \<Rightarrow> Inl (GError G_KEY_FILE_ERROR_KEY_NOT_FOUND [])
           | Some v \<Rightarrow> Inr v))"

definition g_key_file_remove_key :: "GKeyFile \<Rightarrow> string \<Rightarrow> string \<Rightarrow> GKeyFile" where
  "g_key_file_remove_key keyfile group_name key =
     (case fmlookup keyfile group_name of
        None \<Rightarrow> keyfile
      | Some g \<Rightarrow> fmupd group_name (fmdrop key g) keyfile)"

text \<open>
  \<^verbatim>\<open>g_key_file_parse_string_as_value\<close>: the escaping of one string. The first flag is
  \<^verbatim>\<open>escape_separator\<close>, the second the loop's \<^verbatim>\<open>parsing_leading_space\<close>. A space or
  a tab is escaped only while leading; a newline, a carriage return and a backslash
  always; the list separator when asked to.
\<close>

fun g_key_file_parse_string_as_value :: "bool \<Rightarrow> bool \<Rightarrow> string \<Rightarrow> string" where
  "g_key_file_parse_string_as_value escape_separator leading [] = []"
| "g_key_file_parse_string_as_value escape_separator leading (c # cs) =
     (if c = CHR '' '' then
        (if leading then [CHR 0x5C, CHR ''s''] else [c])
          @ g_key_file_parse_string_as_value escape_separator leading cs
      else if c = CHR 0x09 then
        (if leading then [CHR 0x5C, CHR ''t''] else [c])
          @ g_key_file_parse_string_as_value escape_separator leading cs
      else if c = CHR 0x0A then
        [CHR 0x5C, CHR ''n''] @ g_key_file_parse_string_as_value escape_separator leading cs
      else if c = CHR 0x0D then
        [CHR 0x5C, CHR ''r''] @ g_key_file_parse_string_as_value escape_separator leading cs
      else if c = CHR 0x5C then
        [CHR 0x5C, CHR 0x5C] @ g_key_file_parse_string_as_value escape_separator False cs
      else if escape_separator \<and> c = list_separator then
        [CHR 0x5C, list_separator] @ g_key_file_parse_string_as_value escape_separator True cs
      else c # g_key_file_parse_string_as_value escape_separator False cs)"

text \<open>
  \<^verbatim>\<open>g_key_file_parse_value_as_string\<close>: the inverse loop. \<open>pieces\<close> says whether the
  caller wants the list elements; \<open>sv\<close> is the text written so far (\<^verbatim>\<open>string_value\<close>),
  \<open>cur\<close> the part of it since the last unescaped separator (from \<^verbatim>\<open>q0\<close> to \<^verbatim>\<open>q\<close>),
  \<open>ps\<close> the elements cut so far, \<open>err\<close> the first error set.
\<close>

fun g_key_file_parse_value_as_string ::
  "bool \<Rightarrow> string \<Rightarrow> string \<Rightarrow> string \<Rightarrow> string list \<Rightarrow> GError option
     \<Rightarrow> string \<times> string list \<times> GError option" where
  "g_key_file_parse_value_as_string pieces [] sv cur ps err =
     (sv, (if pieces \<and> cur \<noteq> [] then ps @ [cur] else ps), err)"
| "g_key_file_parse_value_as_string pieces [c] sv cur ps err =
     (if c = CHR 0x5C then
        (sv, (if pieces \<and> cur \<noteq> [] then ps @ [cur] else ps),
         (case err of None \<Rightarrow> Some (GError G_KEY_FILE_ERROR_INVALID_VALUE []) | Some e \<Rightarrow> Some e))
      else if pieces \<and> c = list_separator then
        g_key_file_parse_value_as_string pieces [] (sv @ [c]) [] (ps @ [cur]) err
      else g_key_file_parse_value_as_string pieces [] (sv @ [c]) (cur @ [c]) ps err)"
| "g_key_file_parse_value_as_string pieces (c # d # ds) sv cur ps err =
     (if c = CHR 0x5C then
        (if d = CHR ''s'' then
           g_key_file_parse_value_as_string pieces ds (sv @ [CHR '' '']) (cur @ [CHR '' '']) ps err
         else if d = CHR ''n'' then
           g_key_file_parse_value_as_string pieces ds (sv @ [CHR 0x0A]) (cur @ [CHR 0x0A]) ps err
         else if d = CHR ''t'' then
           g_key_file_parse_value_as_string pieces ds (sv @ [CHR 0x09]) (cur @ [CHR 0x09]) ps err
         else if d = CHR ''r'' then
           g_key_file_parse_value_as_string pieces ds (sv @ [CHR 0x0D]) (cur @ [CHR 0x0D]) ps err
         else if d = CHR 0x5C then
           g_key_file_parse_value_as_string pieces ds (sv @ [CHR 0x5C]) (cur @ [CHR 0x5C]) ps err
         else if pieces \<and> d = list_separator then
           g_key_file_parse_value_as_string pieces ds (sv @ [d]) (cur @ [d]) ps err
         else
           g_key_file_parse_value_as_string pieces ds (sv @ [CHR 0x5C, d]) (cur @ [CHR 0x5C, d]) ps
             (case err of None \<Rightarrow> Some (GError G_KEY_FILE_ERROR_INVALID_VALUE []) | Some e \<Rightarrow> Some e))
      else if pieces \<and> c = list_separator then
        g_key_file_parse_value_as_string pieces (d # ds) (sv @ [c]) [] (ps @ [cur]) err
      else g_key_file_parse_value_as_string pieces (d # ds) (sv @ [c]) (cur @ [c]) ps err)"

definition g_key_file_set_string :: "GKeyFile \<Rightarrow> string \<Rightarrow> string \<Rightarrow> string \<Rightarrow> GKeyFile" where
  "g_key_file_set_string keyfile group_name key string =
     g_key_file_set_value keyfile group_name key (g_key_file_parse_string_as_value False True string)"

definition g_key_file_get_string :: "GKeyFile \<Rightarrow> string \<Rightarrow> string \<Rightarrow> GError + string" where
  "g_key_file_get_string keyfile group_name key =
     (case g_key_file_get_value keyfile group_name key of
        Inl e \<Rightarrow> Inl e
      | Inr v \<Rightarrow>
          if \<not> g_utf8_validate v then Inl (GError G_KEY_FILE_ERROR_UNKNOWN_ENCODING [])
          else (case g_key_file_parse_value_as_string False v [] [] [] None of
                  (sv, _, None) \<Rightarrow> Inr sv
                | (_, _, Some e) \<Rightarrow> Inl e))"

definition g_key_file_set_string_list :: "GKeyFile \<Rightarrow> string \<Rightarrow> string \<Rightarrow> string list \<Rightarrow> GKeyFile" where
  "g_key_file_set_string_list keyfile group_name key strings =
     g_key_file_set_value keyfile group_name key
       (concat (map (\<lambda>x. g_key_file_parse_string_as_value True True x @ [list_separator]) strings))"

definition g_key_file_get_string_list :: "GKeyFile \<Rightarrow> string \<Rightarrow> string \<Rightarrow> GError + string list" where
  "g_key_file_get_string_list keyfile group_name key =
     (case g_key_file_get_value keyfile group_name key of
        Inl e \<Rightarrow> Inl e
      | Inr v \<Rightarrow>
          if \<not> g_utf8_validate v then Inl (GError G_KEY_FILE_ERROR_UNKNOWN_ENCODING [])
          else (case g_key_file_parse_value_as_string True v [] [] [] None of
                  (_, ps, None) \<Rightarrow> Inr ps
                | (_, _, Some e) \<Rightarrow> Inl e))"

definition g_key_file_set_boolean :: "GKeyFile \<Rightarrow> string \<Rightarrow> string \<Rightarrow> bool \<Rightarrow> GKeyFile" where
  "g_key_file_set_boolean keyfile group_name key b =
     g_key_file_set_value keyfile group_name key (if b then ''true'' else ''false'')"

text \<open>
  \<^verbatim>\<open>g_key_file_parse_value_as_boolean\<close> compares the value, up to its last character
  that is not white space, with \<^verbatim>\<open>true\<close>, \<^verbatim>\<open>1\<close>, \<^verbatim>\<open>false\<close> and \<^verbatim>\<open>0\<close>.
\<close>

definition g_key_file_get_boolean :: "GKeyFile \<Rightarrow> string \<Rightarrow> string \<Rightarrow> GError + bool" where
  "g_key_file_get_boolean keyfile group_name key =
     (case g_key_file_get_value keyfile group_name key of
        Inl e \<Rightarrow> Inl e
      | Inr v \<Rightarrow>
          (let t = rev (dropWhile g_ascii_isspace (rev v)) in
           if t = ''true'' \<or> t = ''1'' then Inr True
           else if t = ''false'' \<or> t = ''0'' then Inr False
           else Inl (GError G_KEY_FILE_ERROR_INVALID_VALUE [])))"

text \<open>
  \<^verbatim>\<open>g_key_file_get_integer\<close>: \<^verbatim>\<open>strtol\<close> must read something and stop at the end or
  at white space, and the \<^verbatim>\<open>long\<close> must fit a \<^verbatim>\<open>gint\<close>.
\<close>

definition g_key_file_get_integer :: "GKeyFile \<Rightarrow> string \<Rightarrow> string \<Rightarrow> GError + 32 word" where
  "g_key_file_get_integer keyfile group_name key =
     (case g_key_file_get_value keyfile group_name key of
        Inl e \<Rightarrow> Inl e
      | Inr v \<Rightarrow>
          (case strtol v of (long_value, erange, eof_int) \<Rightarrow>
             if v = [] \<or> (eof_int \<noteq> [] \<and> \<not> g_ascii_isspace (hd eof_int))
             then Inl (GError G_KEY_FILE_ERROR_INVALID_VALUE [])
             else if sint (ucast long_value :: 32 word) \<noteq> sint long_value \<or> erange
             then Inl (GError G_KEY_FILE_ERROR_INVALID_VALUE [])
             else Inr (ucast long_value)))"

text \<open>
  \<^verbatim>\<open>g_key_file_get_int64\<close> and \<^verbatim>\<open>g_key_file_get_uint64\<close> ask that the text is not empty
  and is read to its end; they do not look at \<^verbatim>\<open>errno\<close>.
\<close>

definition g_key_file_get_int64 :: "GKeyFile \<Rightarrow> string \<Rightarrow> string \<Rightarrow> GError + 64 word" where
  "g_key_file_get_int64 keyfile group_name key =
     (case g_key_file_get_value keyfile group_name key of
        Inl e \<Rightarrow> Inl e
      | Inr s \<Rightarrow>
          (case g_ascii_strtoll s of (v, _, endptr) \<Rightarrow>
             if s = [] \<or> endptr \<noteq> [] then Inl (GError G_KEY_FILE_ERROR_INVALID_VALUE [])
             else Inr v))"

definition g_key_file_get_uint64 :: "GKeyFile \<Rightarrow> string \<Rightarrow> string \<Rightarrow> GError + 64 word" where
  "g_key_file_get_uint64 keyfile group_name key =
     (case g_key_file_get_value keyfile group_name key of
        Inl e \<Rightarrow> Inl e
      | Inr s \<Rightarrow>
          (case g_ascii_strtoull s of (v, _, endptr) \<Rightarrow>
             if s = [] \<or> endptr \<noteq> [] then Inl (GError G_KEY_FILE_ERROR_INVALID_VALUE [])
             else Inr v))"

text \<open>
  What the platform gives and this file does not compute: the table
  \<^verbatim>\<open>known_attributes\<close> of (type, name) pairs, whose names are macros of
  \<^verbatim>\<open>mcd-account-config.h\<close>, and the printing and reading of doubles
  (\<^verbatim>\<open>g_ascii_dtostr\<close>; \<^verbatim>\<open>g_ascii_strtod\<close> with its \<^verbatim>\<open>*endptr\<close>).
\<close>

record platform =
  known_attributes :: "(string \<times> string) list"
  g_ascii_dtostr :: "gdouble \<Rightarrow> string"
  g_ascii_strtod :: "string \<Rightarrow> gdouble \<times> string"

definition g_key_file_set_double :: "platform \<Rightarrow> GKeyFile \<Rightarrow> string \<Rightarrow> string \<Rightarrow> gdouble \<Rightarrow> GKeyFile" where
  "g_key_file_set_double P keyfile group_name key d =
     g_key_file_set_value keyfile group_name key (g_ascii_dtostr P d)"

definition g_key_file_get_double :: "platform \<Rightarrow> GKeyFile \<Rightarrow> string \<Rightarrow> string \<Rightarrow> GError + gdouble" where
  "g_key_file_get_double P keyfile group_name key =
     (case g_key_file_get_value keyfile group_name key of
        Inl e \<Rightarrow> Inl e
      | Inr v \<Rightarrow>
          (case g_ascii_strtod P v of (d, end_of_valid_d) \<Rightarrow>
             if end_of_valid_d \<noteq> [] \<or> end_of_valid_d = v
             then Inl (GError G_KEY_FILE_ERROR_INVALID_VALUE [])
             else Inr d))"

subsection \<open>The codec: typed values and their key-file form\<close>

definition tp_strdiff :: "string option \<Rightarrow> string option \<Rightarrow> bool" where
  "tp_strdiff a b = (a \<noteq> b)"

fun g_variant_type_peek_string :: "GVariantType \<Rightarrow> string" where
  "g_variant_type_peek_string G_VARIANT_TYPE_STRING = ''s''"
| "g_variant_type_peek_string G_VARIANT_TYPE_OBJECT_PATH = ''o''"
| "g_variant_type_peek_string G_VARIANT_TYPE_SIGNATURE = ''g''"
| "g_variant_type_peek_string G_VARIANT_TYPE_UINT16 = ''q''"
| "g_variant_type_peek_string G_VARIANT_TYPE_UINT32 = ''u''"
| "g_variant_type_peek_string G_VARIANT_TYPE_INT16 = ''n''"
| "g_variant_type_peek_string G_VARIANT_TYPE_INT32 = ''i''"
| "g_variant_type_peek_string G_VARIANT_TYPE_BOOLEAN = ''b''"
| "g_variant_type_peek_string G_VARIANT_TYPE_BYTE = ''y''"
| "g_variant_type_peek_string G_VARIANT_TYPE_UINT64 = ''t''"
| "g_variant_type_peek_string G_VARIANT_TYPE_INT64 = ''x''"
| "g_variant_type_peek_string G_VARIANT_TYPE_DOUBLE = ''d''"
| "g_variant_type_peek_string G_VARIANT_TYPE_STRING_ARRAY = ''as''"
| "g_variant_type_peek_string G_VARIANT_TYPE_OBJECT_PATH_ARRAY = ''ao''"
| "g_variant_type_peek_string G_VARIANT_TYPE_USS = ''(uss)''"
| "g_variant_type_peek_string (G_VARIANT_TYPE_OTHER t) = t"

text \<open>
  \<^verbatim>\<open>mcd_keyfile_set_variant\<close>: the result is whether the raw value of the key changed,
  and the key file. A variant of a class it does not expect leaves the key file as it
  was and gives \<^verbatim>\<open>FALSE\<close>. Numbers are printed into \<^verbatim>\<open>buf\<close> and stored with
  \<^verbatim>\<open>g_key_file_set_string\<close>; the presence type is printed into a buffer of 11 bytes.
\<close>

definition mcd_keyfile_set_variant ::
  "platform \<Rightarrow> GKeyFile \<Rightarrow> string \<Rightarrow> string \<Rightarrow> GVariant option \<Rightarrow> bool \<times> GKeyFile" where
  "mcd_keyfile_set_variant P keyfile name key v =
     (case v of
        None \<Rightarrow>
          (case g_key_file_get_value keyfile name key of
             Inl _ \<Rightarrow> (False, g_key_file_remove_key keyfile name key)
           | Inr _ \<Rightarrow> (True, g_key_file_remove_key keyfile name key))
      | Some variant \<Rightarrow>
          (let old = (case g_key_file_get_value keyfile name key of Inl _ \<Rightarrow> None | Inr x \<Rightarrow> Some x);
               stored =
                 (case variant of
                    VString x \<Rightarrow> Some (g_key_file_set_string keyfile name key x)
                  | VObjectPath x \<Rightarrow> Some (g_key_file_set_string keyfile name key x)
                  | VSignature x \<Rightarrow> Some (g_key_file_set_string keyfile name key x)
                  | VUInt16 w \<Rightarrow> Some (g_key_file_set_string keyfile name key (printf_u (unat w)))
                  | VUInt32 w \<Rightarrow> Some (g_key_file_set_string keyfile name key (printf_u (unat w)))
                  | VInt16 w \<Rightarrow> Some (g_key_file_set_string keyfile name key (printf_d (sint w)))
                  | VInt32 w \<Rightarrow> Some (g_key_file_set_string keyfile name key (printf_d (sint w)))
                  | VBoolean b \<Rightarrow> Some (g_key_file_set_boolean keyfile name key b)
                  | VByte w \<Rightarrow> Some (g_key_file_set_string keyfile name key (printf_u (unat w)))
                  | VUInt64 w \<Rightarrow> Some (g_key_file_set_string keyfile name key (printf_u (unat w)))
                  | VInt64 w \<Rightarrow> Some (g_key_file_set_string keyfile name key (printf_d (sint w)))
                  | VDouble d \<Rightarrow> Some (g_key_file_set_double P keyfile name key d)
                  | VStrv strings \<Rightarrow> Some (g_key_file_set_string_list keyfile name key strings)
                  | VObjv strings \<Rightarrow> Some (g_key_file_set_string_list keyfile name key strings)
                  | VPresence u status message \<Rightarrow>
                      Some (g_key_file_set_string_list keyfile name key
                              [take 10 (printf_u (unat u)), status, message])
                  | VOther _ _ \<Rightarrow> None)
           in case stored of
                None \<Rightarrow> (False, keyfile)
              | Some keyfile' \<Rightarrow>
                  (tp_strdiff old
                     (case g_key_file_get_value keyfile' name key of Inl _ \<Rightarrow> None | Inr x \<Rightarrow> Some x),
                   keyfile')))"

definition mcd_keyfile_escape_variant :: "platform \<Rightarrow> GVariant \<Rightarrow> string option" where
  "mcd_keyfile_escape_variant P variant =
     (case g_key_file_get_value
             (snd (mcd_keyfile_set_variant P g_key_file_new ''g'' ''k'' (Some variant))) ''g'' ''k'' of
        Inl _ \<Rightarrow> None
      | Inr ret \<Rightarrow> Some ret)"

definition mcd_keyfile_escape_value :: "platform \<Rightarrow> GValue \<Rightarrow> string option" where
  "mcd_keyfile_escape_value P v =
     (case dbus_g_value_build_g_variant v of
        None \<Rightarrow> None
      | Some variant \<Rightarrow> mcd_keyfile_escape_variant P variant)"

text \<open>
  \<^verbatim>\<open>mcd_keyfile_get_variant\<close>: the decoding is directed by the wanted type. The switch
  on the first character of the type string and the comparisons after it become one
  case distinction; 16-bit integers, signatures and every other type have no branch.
\<close>

definition unknown_type_message :: "string \<Rightarrow> string \<Rightarrow> string \<Rightarrow> string" where
  "unknown_type_message key group_name type_name =
     ''cannot get key '' @ key @ '' from group '' @ group_name @ '': unknown type '' @ type_name"

definition mcd_keyfile_get_variant ::
  "platform \<Rightarrow> GKeyFile \<Rightarrow> string \<Rightarrow> string \<Rightarrow> GVariantType \<Rightarrow> GError + GVariant" where
  "mcd_keyfile_get_variant P keyfile group_name key type =
     (case type of
        G_VARIANT_TYPE_STRING \<Rightarrow>
          (case g_key_file_get_string keyfile group_name key of
             Inl e \<Rightarrow> Inl e | Inr v_string \<Rightarrow> Inr (VString v_string))
      | G_VARIANT_TYPE_INT32 \<Rightarrow>
          (case g_key_file_get_integer keyfile group_name key of
             Inl e \<Rightarrow> Inl e | Inr v_int \<Rightarrow> Inr (VInt32 v_int))
      | G_VARIANT_TYPE_INT64 \<Rightarrow>
          (case g_key_file_get_int64 keyfile group_name key of
             Inl e \<Rightarrow> Inl e | Inr v_int \<Rightarrow> Inr (VInt64 v_int))
      | G_VARIANT_TYPE_UINT32 \<Rightarrow>
          (case g_key_file_get_uint64 keyfile group_name key of
             Inl e \<Rightarrow> Inl e
           | Inr v_uint \<Rightarrow>
               if v_uint > 0xFFFFFFFF
               then Inl (GError MCD_ACCOUNT_ERROR_GET_PARAMETER
                          (''Parameter '' @ [CHR 0x27] @ key @ [CHR 0x27] @
                           '' out of range for an unsigned 32-bit integer: '' @ printf_u (unat v_uint)))
               else Inr (VUInt32 (ucast v_uint)))
      | G_VARIANT_TYPE_BYTE \<Rightarrow>
          (case g_key_file_get_integer keyfile group_name key of
             Inl e \<Rightarrow> Inl e
           | Inr v_int \<Rightarrow>
               if sint v_int < 0 \<or> sint v_int > 0xFF
               then Inl (GError MCD_ACCOUNT_ERROR_GET_PARAMETER
                          (''Parameter '' @ [CHR 0x27] @ key @ [CHR 0x27] @
                           '' out of range for an unsigned byte: '' @ printf_d (sint v_int)))
               else Inr (VByte (ucast v_int)))
      | G_VARIANT_TYPE_UINT64 \<Rightarrow>
          (case g_key_file_get_uint64 keyfile group_name key of
             Inl e \<Rightarrow> Inl e | Inr v_uint \<Rightarrow> Inr (VUInt64 v_uint))
      | G_VARIANT_TYPE_BOOLEAN \<Rightarrow>
          (case g_key_file_get_boolean keyfile group_name key of
             Inl e \<Rightarrow> Inl e | Inr v_bool \<Rightarrow> Inr (VBoolean v_bool))
      | G_VARIANT_TYPE_DOUBLE \<Rightarrow>
          (case g_key_file_get_double P keyfile group_name key of
             Inl e \<Rightarrow> Inl e | Inr v_double \<Rightarrow> Inr (VDouble v_double))
      | G_VARIANT_TYPE_STRING_ARRAY \<Rightarrow>
          (case g_key_file_get_string_list keyfile group_name key of
             Inl e \<Rightarrow> Inl e | Inr v \<Rightarrow> Inr (VStrv v))
      | G_VARIANT_TYPE_OBJECT_PATH \<Rightarrow>
          (case g_key_file_get_string keyfile group_name key of
             Inl e \<Rightarrow> Inl e
           | Inr v_string \<Rightarrow>
               if \<not> tp_dbus_check_valid_object_path v_string
               then Inl (GError MCD_ACCOUNT_ERROR_GET_PARAMETER (''Invalid object path '' @ v_string))
               else Inr (VObjectPath v_string))
      | G_VARIANT_TYPE_OBJECT_PATH_ARRAY \<Rightarrow>
          (case g_key_file_get_string_list keyfile group_name key of
             Inl e \<Rightarrow> Inl e
           | Inr v \<Rightarrow>
               (case filter (\<lambda>x. \<not> g_variant_is_object_path x) v of
                  [] \<Rightarrow> Inr (VObjv v)
                | bad # _ \<Rightarrow>
                    Inl (GError MCD_ACCOUNT_ERROR_GET_PARAMETER
                          (''Invalid object path '' @ bad @ '' stored in keyfile''))))
      | G_VARIANT_TYPE_USS \<Rightarrow>
          (case g_key_file_get_string_list keyfile group_name key of
             Inl e \<Rightarrow> Inl e
           | Inr v \<Rightarrow>
               (case v of
                  [v0, v1, v2] \<Rightarrow>
                    (case g_ascii_strtoull v0 of (u, erange, endptr) \<Rightarrow>
                       if erange \<or> endptr \<noteq> [] \<or> u > 0xFFFFFFFF
                       then Inl (GError TP_ERROR_NOT_AVAILABLE
                                  (''Invalid presence type stored in keyfile: '' @ v0))
                       else Inr (VPresence (ucast u) v1 v2))
                | _ \<Rightarrow>
                    Inl (GError TP_ERROR_NOT_AVAILABLE
                          ''Invalid simple-presence structure stored in keyfile'')))
      | _ \<Rightarrow>
          Inl (GError MCD_ACCOUNT_ERROR_GET_PARAMETER
                (unknown_type_message key group_name (g_variant_type_peek_string type))))"

text \<open>
  \<^verbatim>\<open>mcd_keyfile_get_value\<close>: the wanted \<^verbatim>\<open>GType\<close> chooses the variant type. The three
  results of this and of the following readers are the \<^verbatim>\<open>gboolean\<close> returned, the
  error set (if any) and \<^verbatim>\<open>*value\<close> afterwards.
\<close>

fun g_type_name :: "GType \<Rightarrow> string" where
  "g_type_name G_TYPE_STRING = ''gchararray''"
| "g_type_name G_TYPE_INT = ''gint''"
| "g_type_name G_TYPE_INT64 = ''gint64''"
| "g_type_name G_TYPE_UINT = ''guint''"
| "g_type_name G_TYPE_UCHAR = ''guchar''"
| "g_type_name G_TYPE_UINT64 = ''guint64''"
| "g_type_name G_TYPE_BOOLEAN = ''gboolean''"
| "g_type_name G_TYPE_DOUBLE = ''gdouble''"
| "g_type_name G_TYPE_STRV = ''GStrv''"
| "g_type_name DBUS_TYPE_G_OBJECT_PATH = ''DBusGObjectPath''"
| "g_type_name DBUS_TYPE_G_SIGNATURE = ''DBusGSignature''"
| "g_type_name TP_ARRAY_TYPE_OBJECT_PATH_LIST = ''GPtrArray_DBusGObjectPath_''"
| "g_type_name TP_STRUCT_TYPE_SIMPLE_PRESENCE = ''GValueArray_guint+gchararray+gchararray_''"
| "g_type_name (G_TYPE_OTHER t) = t"

fun variant_type_for :: "GType \<Rightarrow> GVariantType option" where
  "variant_type_for G_TYPE_STRING = Some G_VARIANT_TYPE_STRING"
| "variant_type_for G_TYPE_INT = Some G_VARIANT_TYPE_INT32"
| "variant_type_for G_TYPE_INT64 = Some G_VARIANT_TYPE_INT64"
| "variant_type_for G_TYPE_UINT = Some G_VARIANT_TYPE_UINT32"
| "variant_type_for G_TYPE_UCHAR = Some G_VARIANT_TYPE_BYTE"
| "variant_type_for G_TYPE_UINT64 = Some G_VARIANT_TYPE_UINT64"
| "variant_type_for G_TYPE_BOOLEAN = Some G_VARIANT_TYPE_BOOLEAN"
| "variant_type_for G_TYPE_DOUBLE = Some G_VARIANT_TYPE_DOUBLE"
| "variant_type_for G_TYPE_STRV = Some G_VARIANT_TYPE_STRING_ARRAY"
| "variant_type_for DBUS_TYPE_G_OBJECT_PATH = Some G_VARIANT_TYPE_OBJECT_PATH"
| "variant_type_for TP_ARRAY_TYPE_OBJECT_PATH_LIST = Some G_VARIANT_TYPE_OBJECT_PATH_ARRAY"
| "variant_type_for TP_STRUCT_TYPE_SIMPLE_PRESENCE = Some G_VARIANT_TYPE_USS"
| "variant_type_for _ = None"

definition mcd_keyfile_get_value ::
  "platform \<Rightarrow> GKeyFile \<Rightarrow> string \<Rightarrow> string \<Rightarrow> GValue \<Rightarrow> bool \<times> GError option \<times> GValue" where
  "mcd_keyfile_get_value P keyfile group_name key v =
     (case variant_type_for (G_VALUE_TYPE v) of
        None \<Rightarrow>
          (False,
           Some (GError MCD_ACCOUNT_ERROR_GET_PARAMETER
                  (unknown_type_message key group_name (g_type_name (G_VALUE_TYPE v)))),
           v)
      | Some type \<Rightarrow>
          (case mcd_keyfile_get_variant P keyfile group_name key type of
             Inl e \<Rightarrow> (False, Some e, v)
           | Inr variant \<Rightarrow> (True, None, dbus_g_value_parse_g_variant variant)))"

text \<open>
  \<^verbatim>\<open>mcd_keyfile_unescape_value\<close>; a \<^verbatim>\<open>NULL\<close> text fails the check at its start, which
  returns \<^verbatim>\<open>FALSE\<close> and sets no error.
\<close>

definition mcd_keyfile_unescape_value ::
  "platform \<Rightarrow> string option \<Rightarrow> GValue \<Rightarrow> bool \<times> GError option \<times> GValue" where
  "mcd_keyfile_unescape_value P escaped v =
     (case escaped of
        None \<Rightarrow> (False, None, v)
      | Some e \<Rightarrow>
          mcd_keyfile_get_value P (g_key_file_set_value g_key_file_new ''g'' ''k'' e) ''g'' ''k'' v)"

definition mcd_storage_coerce_variant_to_value ::
  "platform \<Rightarrow> GVariant \<Rightarrow> GValue \<Rightarrow> bool \<times> GError option \<times> GValue" where
  "mcd_storage_coerce_variant_to_value P variant v =
     (let tmp = dbus_g_value_parse_g_variant variant in
      if G_VALUE_TYPE tmp = G_VALUE_TYPE v then (True, None, tmp)
      else mcd_keyfile_unescape_value P (mcd_keyfile_escape_variant P variant) v)"

subsection \<open>The values of the round trip\<close>

text \<open>
  The typed values for which the codec is compared with itself: booleans, the 32-bit
  and 64-bit integers of either sign, bytes, strings, string arrays and the presence
  structure. A \<^verbatim>\<open>GVariant\<close> string is UTF-8 by construction
  (\<^verbatim>\<open>g_variant_new_string\<close> checks it with \<^verbatim>\<open>g_utf8_validate\<close>), which the
  embedding's plain byte lists do not enforce, so it is asked for here.
\<close>

definition valid_schema_value :: "GVariant \<Rightarrow> bool" where
  "valid_schema_value v =
     (case v of
        VBoolean _ \<Rightarrow> True
      | VInt32 _ \<Rightarrow> True
      | VInt64 _ \<Rightarrow> True
      | VUInt32 _ \<Rightarrow> True
      | VUInt64 _ \<Rightarrow> True
      | VByte _ \<Rightarrow> True
      | VString s \<Rightarrow> g_utf8_validate s
      | VStrv xs \<Rightarrow> list_all g_utf8_validate xs
      | VPresence _ status message \<Rightarrow> g_utf8_validate status \<and> g_utf8_validate message
      | _ \<Rightarrow> False)"

subsection \<open>The account cache\<close>

text \<open>
  \<^verbatim>\<open>McdStorageAccount\<close> is the struct of the source. \<^verbatim>\<open>McdStorage\<close> holds the
  \<^verbatim>\<open>accounts\<close> table of the struct and two histories of what the functions do outside
  it: \<open>g_log\<close>, the checks of \<^verbatim>\<open>g_return_if_fail\<close>, \<^verbatim>\<open>g_return_val_if_fail\<close> and
  \<^verbatim>\<open>g_warn_if_reached\<close> that failed (each logs, and the function returns and the
  caller goes on), and \<open>plugin_calls\<close>, the calls made to storage plugins with the
  plugin's name first and the plugin's answer last, oldest first.
\<close>

record McdStorageAccount =
  attributes :: "(string, GVariant) fmap"
  parameters :: "(string, GVariant) fmap"
  escaped_parameters :: "(string, string) fmap"
  storage :: McpAccountStorage

datatype McpCall =
    Call_delete string string "string option"
  | Call_set_attribute string string string GVariant bool
  | Call_set_parameter string string string GVariant bool
  | Call_set string string string string bool
  | Call_create string string string string "GError + string"
  | Call_list string
  | Call_get string string

record McdStorage =
  accounts :: "(string, McdStorageAccount) fmap"
  g_log :: "string list"
  plugin_calls :: "McpCall list"

definition mcd_storage_account_new :: "McpAccountStorage \<Rightarrow> McdStorageAccount" where
  "mcd_storage_account_new plugin =
     \<lparr>attributes = fmempty, parameters = fmempty, escaped_parameters = fmempty, storage = plugin\<rparr>"

definition mcd_storage_init :: McdStorage where
  "mcd_storage_init = \<lparr>accounts = fmempty, g_log = [], plugin_calls = []\<rparr>"

definition g_return_if_fail_warning :: "string \<Rightarrow> McdStorage \<Rightarrow> McdStorage" where
  "g_return_if_fail_warning check self = self\<lparr>g_log := g_log self @ [check]\<rparr>"

definition plugin_called :: "McpCall \<Rightarrow> McdStorage \<Rightarrow> McdStorage" where
  "plugin_called c self = self\<lparr>plugin_calls := plugin_calls self @ [c]\<rparr>"

definition lookup_account :: "McdStorage \<Rightarrow> string \<Rightarrow> McdStorageAccount option" where
  "lookup_account self account = fmlookup (accounts self) account"

definition g_str_has_prefix :: "string \<Rightarrow> string \<Rightarrow> bool" where
  "g_str_has_prefix str pre = (take (length pre) str = pre)"

definition mcd_storage_get_attribute_type :: "platform \<Rightarrow> string \<Rightarrow> string option" where
  "mcd_storage_get_attribute_type P attribute =
     (case find (\<lambda>entry. snd entry = attribute) (known_attributes P) of
        None \<Rightarrow> None
      | Some entry \<Rightarrow> Some (fst entry))"

text \<open>
  \<^verbatim>\<open>mcd_storage_init_value_for_attribute\<close>: the \<^verbatim>\<open>GType\<close> the value is initialised
  with, or \<open>None\<close> for \<^verbatim>\<open>FALSE\<close>. A \<^verbatim>\<open>u\<close> attribute gets \<^verbatim>\<open>G_TYPE_INT\<close>, as the
  source says it always did.
\<close>

definition mcd_storage_init_value_for_attribute :: "platform \<Rightarrow> string \<Rightarrow> GType option" where
  "mcd_storage_init_value_for_attribute P attribute =
     (case mcd_storage_get_attribute_type P attribute of
        None \<Rightarrow> None
      | Some s \<Rightarrow>
          (case s of
             [] \<Rightarrow> None
           | c # r \<Rightarrow>
               if c = CHR ''s'' then Some G_TYPE_STRING
               else if c = CHR ''b'' then Some G_TYPE_BOOLEAN
               else if c = CHR ''u'' then Some G_TYPE_INT
               else if c = CHR ''a'' then
                 (case r of
                    [] \<Rightarrow> None
                  | d # _ \<Rightarrow>
                      if d = CHR ''o'' then Some TP_ARRAY_TYPE_OBJECT_PATH_LIST
                      else if d = CHR ''s'' then Some G_TYPE_STRV
                      else None)
               else if c = CHR ''('' then
                 (if \<not> tp_strdiff (Some s) (Some ''(uss)'') then Some TP_STRUCT_TYPE_SIMPLE_PRESENCE
                  else None)
               else None))"

definition mcpa_set_attribute :: "McdStorage \<Rightarrow> string \<Rightarrow> string \<Rightarrow> GVariant option \<Rightarrow> McdStorage" where
  "mcpa_set_attribute self account attribute v =
     (case lookup_account self account of
        None \<Rightarrow> g_return_if_fail_warning ''sa != NULL'' self
      | Some sa \<Rightarrow>
          (case v of
             Some variant \<Rightarrow>
               self\<lparr>accounts :=
                 fmupd account (sa\<lparr>attributes := fmupd attribute variant (attributes sa)\<rparr>) (accounts self)\<rparr>
           | None \<Rightarrow>
               self\<lparr>accounts :=
                 fmupd account (sa\<lparr>attributes := fmdrop attribute (attributes sa)\<rparr>) (accounts self)\<rparr>))"

definition mcpa_set_parameter :: "McdStorage \<Rightarrow> string \<Rightarrow> string \<Rightarrow> GVariant option \<Rightarrow> McdStorage" where
  "mcpa_set_parameter self account parameter v =
     (case lookup_account self account of
        None \<Rightarrow> g_return_if_fail_warning ''sa != NULL'' self
      | Some sa \<Rightarrow>
          (let sa1 = sa\<lparr>parameters := fmdrop parameter (parameters sa),
                         escaped_parameters := fmdrop parameter (escaped_parameters sa)\<rparr>;
               sa2 = (case v of
                        None \<Rightarrow> sa1
                      | Some variant \<Rightarrow> sa1\<lparr>parameters := fmupd parameter variant (parameters sa1)\<rparr>)
           in self\<lparr>accounts := fmupd account sa2 (accounts self)\<rparr>))"

text \<open>
  \<^verbatim>\<open>set_value\<close>, the escaped write-back: a \<^verbatim>\<open>param-\<close> key goes to
  \<^verbatim>\<open>escaped_parameters\<close>; an attribute is decoded at the type of its name (a string
  when the name is not known) and dropped when the text does not decode.
\<close>

definition set_value :: "platform \<Rightarrow> McdStorage \<Rightarrow> string \<Rightarrow> string \<Rightarrow> string option \<Rightarrow> McdStorage" where
  "set_value P self account key v =
     (case lookup_account self account of
        None \<Rightarrow> g_return_if_fail_warning ''sa != NULL'' self
      | Some sa \<Rightarrow>
          if g_str_has_prefix key ''param-'' then
            (let sa1 = sa\<lparr>parameters := fmdrop (drop 6 key) (parameters sa),
                           escaped_parameters := fmdrop (drop 6 key) (escaped_parameters sa)\<rparr>;
                 sa2 = (case v of
                          None \<Rightarrow> sa1
                        | Some x \<Rightarrow>
                            sa1\<lparr>escaped_parameters := fmupd (drop 6 key) x (escaped_parameters sa1)\<rparr>)
             in self\<lparr>accounts := fmupd account sa2 (accounts self)\<rparr>)
          else
            (case v of
               Some x \<Rightarrow>
                 (let tmp = (case mcd_storage_init_value_for_attribute P key of
                               None \<Rightarrow> GValue G_TYPE_STRING None
                             | Some t \<Rightarrow> GValue t None)
                  in case mcd_keyfile_unescape_value P (Some x) tmp of
                       (True, _, tmp') \<Rightarrow>
                         (case dbus_g_value_build_g_variant tmp' of
                            Some variant \<Rightarrow>
                              self\<lparr>accounts :=
                                fmupd account (sa\<lparr>attributes := fmupd key variant (attributes sa)\<rparr>)
                                  (accounts self)\<rparr>
                          | None \<Rightarrow> self)
                     | (False, _, _) \<Rightarrow>
                         self\<lparr>accounts :=
                           fmupd account (sa\<lparr>attributes := fmdrop key (attributes sa)\<rparr>) (accounts self)\<rparr>)
             | None \<Rightarrow>
                 self\<lparr>accounts :=
                   fmupd account (sa\<lparr>attributes := fmdrop key (attributes sa)\<rparr>) (accounts self)\<rparr>))"

definition list_keys :: "McdStorage \<Rightarrow> string \<Rightarrow> string fset" where
  "list_keys self account =
     (case lookup_account self account of
        None \<Rightarrow> {||}
      | Some sa \<Rightarrow> fmdom (attributes sa) |\<union>| (\<lambda>k. ''param-'' @ k) |`| fmdom (parameters sa))"

subsection \<open>Identifier normalisation\<close>

text \<open>
  \<^verbatim>\<open>identify_account_cb\<close> gets the peer's answer (an identification, or an error) and
  the task data, and returns the task's result. \<^verbatim>\<open>identify_account_async\<close> computes
  the task data from the \<^verbatim>\<open>account\<close> entry of the parameters (read as a string, as
  \<^verbatim>\<open>g_variant_lookup\<close> with \<^verbatim>\<open>&s\<close> does) and fails at once when
  \<^verbatim>\<open>tp_protocol_new\<close> does; \<open>protocol_error\<close> and \<open>reply\<close> are what the D-Bus side
  answers. \<^verbatim>\<open>identify_account_finish\<close> propagates the task's result; a task made with
  a cancellable that was cancelled propagates the cancellation instead.
\<close>

definition identify_account_cb :: "string \<Rightarrow> GError option \<Rightarrow> string \<Rightarrow> GError + string" where
  "identify_account_cb identification error task_data =
     (case error of
        None \<Rightarrow> Inr identification
      | Some e \<Rightarrow>
          if error_code e = TP_ERROR_NOT_IMPLEMENTED \<or> error_code e = DBUS_GERROR_SERVICE_UNKNOWN
          then Inr task_data
          else Inl e)"

definition identify_account_async ::
  "(string, GVariant) fmap \<Rightarrow> GError option \<Rightarrow> GError + string \<Rightarrow> GError + string" where
  "identify_account_async params protocol_error reply =
     (let base = (case fmlookup params ''account'' of Some (VString x) \<Rightarrow> x | _ \<Rightarrow> ''account'') in
      case protocol_error of
        Some e \<Rightarrow> Inl e
      | None \<Rightarrow>
          (case reply of
             Inr identification \<Rightarrow> identify_account_cb identification None base
           | Inl e \<Rightarrow> identify_account_cb [] (Some e) base))"

definition identify_account_finish :: "bool \<Rightarrow> GError + string \<Rightarrow> GError + string" where
  "identify_account_finish cancelled result =
     (if cancelled then Inl (GError G_IO_ERROR_CANCELLED []) else result)"

subsection \<open>Absorbing accounts from plugins\<close>

fun run_callback :: "platform \<Rightarrow> McdStorage \<Rightarrow> McpCallback \<Rightarrow> McdStorage" where
  "run_callback P self (Mcp_set_value account key v) = set_value P self account key v"
| "run_callback P self (Mcp_set_attribute account attribute v) = mcpa_set_attribute self account attribute v"
| "run_callback P self (Mcp_set_parameter account parameter v) = mcpa_set_parameter self account parameter v"

text \<open>
  \<^verbatim>\<open>mcd_storage_add_account_from_plugin\<close>: two of its four checks can fail here (the
  account name is \<^verbatim>\<open>NULL\<close>; the name is in the table already). A failed check logs
  and returns. Otherwise a fresh record bound to the plugin is inserted, and the
  plugin's \<^verbatim>\<open>get\<close> fills it through the write-back functions.
\<close>

definition mcd_storage_add_account_from_plugin ::
  "platform \<Rightarrow> McdStorage \<Rightarrow> McpAccountStorage \<Rightarrow> string option \<Rightarrow> McdStorage" where
  "mcd_storage_add_account_from_plugin P self plugin account =
     (case account of
        None \<Rightarrow> g_return_if_fail_warning ''account != NULL'' self
      | Some a \<Rightarrow>
          if a |\<in>| fmdom (accounts self)
          then g_return_if_fail_warning ''!g_hash_table_contains (self->accounts, account)'' self
          else
            foldl (run_callback P)
              (plugin_called (Call_get (mcp_account_storage_name plugin) a)
                 (self\<lparr>accounts := fmupd a (mcd_storage_account_new plugin) (accounts self)\<rparr>))
              (mcp_account_storage_get plugin a))"

text \<open>
  \<^verbatim>\<open>mcd_storage_load\<close> walks \<^verbatim>\<open>stores\<close> from its last element to its first, and for
  each plugin absorbs the accounts it lists, in the order of the list.
\<close>

definition load_from_plugin :: "platform \<Rightarrow> McdStorage \<Rightarrow> McpAccountStorage \<Rightarrow> McdStorage" where
  "load_from_plugin P self plugin =
     foldl (\<lambda>s account. mcd_storage_add_account_from_plugin P s plugin (Some account))
       (plugin_called (Call_list (mcp_account_storage_name plugin)) self)
       (mcp_account_storage_list plugin)"

definition mcd_storage_load :: "platform \<Rightarrow> McdStorage \<Rightarrow> McpAccountStorage list \<Rightarrow> McdStorage" where
  "mcd_storage_load P self stores = foldl (load_from_plugin P) self (rev stores)"

definition mcd_storage_dup_accounts :: "McdStorage \<Rightarrow> string fset" where
  "mcd_storage_dup_accounts self =
     ffilter
       (\<lambda>k. case fmlookup (accounts self) k of
               None \<Rightarrow> False
             | Some sa \<Rightarrow> 0 < fcard (fmdom (attributes sa)))
       (fmdom (accounts self))"

definition mcd_storage_dup_attributes :: "McdStorage \<Rightarrow> string \<Rightarrow> string fset" where
  "mcd_storage_dup_attributes self account =
     (case lookup_account self account of
        None \<Rightarrow> {||}
      | Some sa \<Rightarrow> fmdom (attributes sa))"

definition mcd_storage_get_plugin :: "McdStorage \<Rightarrow> string \<Rightarrow> McpAccountStorage option" where
  "mcd_storage_get_plugin self account =
     (case lookup_account self account of
        None \<Rightarrow> None
      | Some sa \<Rightarrow> Some (storage sa))"

text \<open>
  The account a write-back call names, and the plugins whose \<^verbatim>\<open>get\<close> pushes data
  only for the account it was asked for.
\<close>

fun callback_account :: "McpCallback \<Rightarrow> string" where
  "callback_account (Mcp_set_value account _ _) = account"
| "callback_account (Mcp_set_attribute account _ _) = account"
| "callback_account (Mcp_set_parameter account _ _) = account"

definition pushes_own_account :: "McpAccountStorage \<Rightarrow> bool" where
  "pushes_own_account plugin =
     (\<forall>account. list_all (\<lambda>cb. callback_account cb = account) (mcp_account_storage_get plugin account))"

subsection \<open>Reading the cache\<close>

definition mcd_storage_get_attribute ::
  "platform \<Rightarrow> McdStorage \<Rightarrow> string \<Rightarrow> string \<Rightarrow> GValue \<Rightarrow> bool \<times> GError option \<times> GValue" where
  "mcd_storage_get_attribute P self account attribute v =
     (if g_str_has_prefix attribute ''param-'' then (False, None, v)
      else
        (case lookup_account self account of
           None \<Rightarrow>
             (False,
              Some (GError TP_ERROR_NOT_AVAILABLE (''Account '' @ account @ '' does not exist'')),
              v)
         | Some sa \<Rightarrow>
             (case fmlookup (attributes sa) attribute of
                None \<Rightarrow>
                  (False,
                   Some (GError TP_ERROR_NOT_AVAILABLE
                          (''Setting '' @ [CHR 0x27] @ attribute @ [CHR 0x27] @
                           '' not stored by account '' @ account)),
                   v)
              | Some variant \<Rightarrow> mcd_storage_coerce_variant_to_value P variant v)))"

definition mcd_storage_get_parameter ::
  "platform \<Rightarrow> McdStorage \<Rightarrow> string \<Rightarrow> string \<Rightarrow> GValue \<Rightarrow> bool \<times> GError option \<times> GValue" where
  "mcd_storage_get_parameter P self account parameter v =
     (case lookup_account self account of
        None \<Rightarrow>
          (False,
           Some (GError TP_ERROR_NOT_AVAILABLE (''Account '' @ account @ '' does not exist'')),
           v)
      | Some sa \<Rightarrow>
          (case fmlookup (parameters sa) parameter of
             Some variant \<Rightarrow> mcd_storage_coerce_variant_to_value P variant v
           | None \<Rightarrow>
               (case fmlookup (escaped_parameters sa) parameter of
                  None \<Rightarrow>
                    (False,
                     Some (GError TP_ERROR_NOT_AVAILABLE
                            (''Parameter '' @ [CHR 0x27] @ parameter @ [CHR 0x27] @
                             '' not stored by account '' @ account)),
                     v)
                | Some escaped \<Rightarrow> mcd_keyfile_unescape_value P (Some escaped) v)))"

subsection \<open>Writing the cache and the owning plugin\<close>

text \<open>
  Modelled from the spec: \<^verbatim>\<open>mcd_nullable_variant_equal\<close> is defined in
  \<^verbatim>\<open>mcd-misc.c\<close>, which is not among the sources; the spec's "typed comparison when
  both sides are typed" is the equality of the two nullable variants.
\<close>

definition mcd_nullable_variant_equal :: "GVariant option \<Rightarrow> GVariant option \<Rightarrow> bool" where
  "mcd_nullable_variant_equal a b = (a = b)"

text \<open>
  \<^verbatim>\<open>update_storage\<close>. The chain of conditions of the source short-circuits: a
  typed call is made only behind \<^verbatim>\<open>variant != NULL\<close> and the test of the key's
  prefix, so an attribute never reaches the plugin's \<^verbatim>\<open>set_parameter\<close> and a
  parameter never its \<^verbatim>\<open>set_attribute\<close>; the last branch is the untyped
  \<^verbatim>\<open>set\<close>. A parameter goes to \<^verbatim>\<open>set_parameter\<close> without its prefix
  (\<^verbatim>\<open>key + 6\<close>).
\<close>

definition update_storage ::
  "McdStorage \<Rightarrow> string \<Rightarrow> string \<Rightarrow> GVariant option \<Rightarrow> string option \<Rightarrow> McdStorage" where
  "update_storage self account key variant escaped =
     (let parameter = g_str_has_prefix key ''param-'' in
      case lookup_account self account of
        None \<Rightarrow> g_return_if_fail_warning ''sa != NULL'' self
      | Some sa \<Rightarrow>
          (let plugin = storage sa; pn = mcp_account_storage_name plugin in
           case escaped of
             None \<Rightarrow> plugin_called (Call_delete pn account (Some key)) self
           | Some e \<Rightarrow>
               (case variant of
                  None \<Rightarrow>
                    plugin_called
                      (Call_set pn account key e (mcp_account_storage_set plugin account key e)) self
                | Some x \<Rightarrow>
                    if \<not> parameter then
                      (let stored = mcp_account_storage_set_attribute plugin account key x;
                           self1 = plugin_called (Call_set_attribute pn account key x stored) self
                       in if stored then self1
                          else plugin_called
                                 (Call_set pn account key e (mcp_account_storage_set plugin account key e))
                                 self1)
                    else
                      (let stored = mcp_account_storage_set_parameter plugin account (drop 6 key) x;
                           self1 = plugin_called (Call_set_parameter pn account (drop 6 key) x stored) self
                       in if stored then self1
                          else plugin_called
                                 (Call_set pn account key e (mcp_account_storage_set plugin account key e))
                                 self1))))"

definition mcd_storage_set_attribute ::
  "platform \<Rightarrow> McdStorage \<Rightarrow> string \<Rightarrow> string \<Rightarrow> GValue option \<Rightarrow> bool \<times> McdStorage" where
  "mcd_storage_set_attribute P self account attribute v =
     (if g_str_has_prefix attribute ''param-''
      then (False, g_return_if_fail_warning ''!g_str_has_prefix (attribute, param-)'' self)
      else
        (case lookup_account self account of
           None \<Rightarrow> (False, g_return_if_fail_warning ''sa != NULL'' self)
         | Some sa \<Rightarrow>
             (let new_v = (case v of None \<Rightarrow> None | Some gv \<Rightarrow> dbus_g_value_build_g_variant gv);
                  old_v = fmlookup (attributes sa) attribute
              in if \<not> mcd_nullable_variant_equal old_v new_v then
                   (let sa' = (case new_v of
                                 None \<Rightarrow> sa\<lparr>attributes := fmdrop attribute (attributes sa)\<rparr>
                               | Some x \<Rightarrow> sa\<lparr>attributes := fmupd attribute x (attributes sa)\<rparr>);
                        escaped = (case v of None \<Rightarrow> None | Some gv \<Rightarrow> mcd_keyfile_escape_value P gv)
                    in (True,
                        update_storage (self\<lparr>accounts := fmupd account sa' (accounts self)\<rparr>)
                          account attribute new_v escaped))
                 else (False, self))))"

text \<open>
  \<^verbatim>\<open>MAX_KEY_LENGTH\<close> is \<^verbatim>\<open>DBUS_MAXIMUM_NAME_LENGTH + 6\<close>, and D-Bus names have at
  most 255 bytes; \<^verbatim>\<open>g_snprintf\<close> into \<^verbatim>\<open>key\<close> keeps one byte for the NUL.
\<close>

definition MAX_KEY_LENGTH :: nat where
  "MAX_KEY_LENGTH = 255 + 6"

definition mcd_storage_set_parameter ::
  "platform \<Rightarrow> McdStorage \<Rightarrow> string \<Rightarrow> string \<Rightarrow> GValue option \<Rightarrow> bool \<times> McdStorage" where
  "mcd_storage_set_parameter P self account parameter v =
     (case lookup_account self account of
        None \<Rightarrow> (False, g_return_if_fail_warning ''sa != NULL'' self)
      | Some sa \<Rightarrow>
          (let new_escaped = (case v of None \<Rightarrow> None | Some gv \<Rightarrow> mcd_keyfile_escape_value P gv);
               new_v = (case v of None \<Rightarrow> None | Some gv \<Rightarrow> dbus_g_value_build_g_variant gv);
               old_v = fmlookup (parameters sa) parameter;
               old_escaped = fmlookup (escaped_parameters sa) parameter;
               updated =
                 (if old_v \<noteq> None then \<not> mcd_nullable_variant_equal old_v new_v
                  else if old_escaped \<noteq> None then tp_strdiff old_escaped new_escaped
                  else v \<noteq> None)
           in if updated then
                (let sa1 = sa\<lparr>parameters := fmdrop parameter (parameters sa),
                               escaped_parameters := fmdrop parameter (escaped_parameters sa)\<rparr>;
                     sa2 = (case new_v of
                              None \<Rightarrow> sa1
                            | Some x \<Rightarrow> sa1\<lparr>parameters := fmupd parameter x (parameters sa1)\<rparr>);
                     key = take (MAX_KEY_LENGTH - 1) (''param-'' @ parameter)
                 in (True,
                     update_storage (self\<lparr>accounts := fmupd account sa2 (accounts self)\<rparr>)
                       account key new_v new_escaped))
              else (False, self)))"

subsection \<open>Creating and deleting accounts\<close>

text \<open>
  \<^verbatim>\<open>mcd_storage_create_account\<close> returns the account name or \<^verbatim>\<open>NULL\<close>, and the
  error set. With a provider only the first plugin of that provider is asked. Without
  one, the loop over \<^verbatim>\<open>stores\<close> asks each plugin in turn, clears the error of a plugin
  that gave no name, and stops at the first name.
\<close>

fun create_account_loop ::
  "platform \<Rightarrow> McdStorage \<Rightarrow> McpAccountStorage list \<Rightarrow> string \<Rightarrow> string \<Rightarrow> string
     \<Rightarrow> (string option \<times> GError option) \<times> McdStorage" where
  "create_account_loop P self [] manager protocol identification =
     ((None,
       Some (GError TP_ERROR_INVALID_ARGUMENT
              ''None of the storage provider are able to create the account'')),
      g_return_if_fail_warning ''g_warn_if_reached'' self)"
| "create_account_loop P self (plugin # rest) manager protocol identification =
     (let r = mcp_account_storage_create plugin (fmdom (accounts self)) manager protocol identification;
          self1 = plugin_called
                    (Call_create (mcp_account_storage_name plugin) manager protocol identification r) self
      in case r of
           Inr account \<Rightarrow>
             ((Some account, None), mcd_storage_add_account_from_plugin P self1 plugin (Some account))
         | Inl _ \<Rightarrow> create_account_loop P self1 rest manager protocol identification)"

definition mcd_storage_create_account ::
  "platform \<Rightarrow> McdStorage \<Rightarrow> McpAccountStorage list \<Rightarrow> string option \<Rightarrow> string \<Rightarrow> string \<Rightarrow> string
     \<Rightarrow> (string option \<times> GError option) \<times> McdStorage" where
  "mcd_storage_create_account P self stores provider manager protocol identification =
     (if manager = [] then ((None, None), g_return_if_fail_warning ''!tp_str_empty (manager)'' self)
      else if protocol = [] then ((None, None), g_return_if_fail_warning ''!tp_str_empty (protocol)'' self)
      else
        (case provider of
           Some pr \<Rightarrow>
             (case find (\<lambda>plugin. \<not> tp_strdiff (Some (mcp_account_storage_provider plugin)) (Some pr)) stores of
                Some plugin \<Rightarrow>
                  (let r = mcp_account_storage_create plugin (fmdom (accounts self))
                             manager protocol identification;
                       self1 = plugin_called
                                 (Call_create (mcp_account_storage_name plugin)
                                    manager protocol identification r) self
                   in case r of
                        Inr account \<Rightarrow>
                          ((Some account, None),
                           mcd_storage_add_account_from_plugin P self1 plugin (Some account))
                      | Inl e \<Rightarrow>
                          ((None, Some e), mcd_storage_add_account_from_plugin P self1 plugin None))
              | None \<Rightarrow>
                  ((None,
                    Some (GError TP_ERROR_INVALID_ARGUMENT
                           (''Storage provider '' @ [CHR 0x27] @ pr @ [CHR 0x27] @ '' does not exist''))),
                   self))
         | None \<Rightarrow> create_account_loop P self stores manager protocol identification))"

definition mcd_storage_delete_account :: "McdStorage \<Rightarrow> string \<Rightarrow> McdStorage" where
  "mcd_storage_delete_account self account =
     (case lookup_account self account of
        None \<Rightarrow> g_return_if_fail_warning ''sa != NULL'' self
      | Some sa \<Rightarrow>
          (let self1 = plugin_called (Call_delete (mcp_account_storage_name (storage sa)) account None) self
           in self1\<lparr>accounts := fmdrop account (accounts self1)\<rparr>))"

subsection \<open>The dispatch order in the spec's words\<close>

text \<open>
  The spec (4.1 step 4 and 4.3) words the dispatch of a write as a preference order:
  delete when the new value is null; otherwise the typed call (\<^verbatim>\<open>set_attribute\<close> for
  an attribute, \<^verbatim>\<open>set_parameter\<close> for a key with the \<^verbatim>\<open>param-\<close> prefix), and the
  untyped \<^verbatim>\<open>set\<close> with the escaped text after it exactly when the typed call
  answered false. \<open>spec_write_dispatch\<close> is that order as a list of plugin calls; it is
  compared with \<open>update_storage\<close> below.
\<close>

definition spec_write_dispatch ::
  "McpAccountStorage \<Rightarrow> string \<Rightarrow> string \<Rightarrow> GVariant option \<Rightarrow> string option \<Rightarrow> McpCall list" where
  "spec_write_dispatch plugin account key new_value escaped =
     (let pn = mcp_account_storage_name plugin;
          untyped = (case escaped of
                       None \<Rightarrow> []
                     | Some e \<Rightarrow> [Call_set pn account key e (mcp_account_storage_set plugin account key e)])
      in case new_value of
           None \<Rightarrow> [Call_delete pn account (Some key)]
         | Some x \<Rightarrow>
             if g_str_has_prefix key ''param-'' then
               (if mcp_account_storage_set_parameter plugin account (drop 6 key) x
                then [Call_set_parameter pn account (drop 6 key) x True]
                else Call_set_parameter pn account (drop 6 key) x False # untyped)
             else
               (if mcp_account_storage_set_attribute plugin account key x
                then [Call_set_attribute pn account key x True]
                else Call_set_attribute pn account key x False # untyped))"

subsection \<open>Reachable caches and the parameter invariant\<close>

text \<open>
  The comment in the struct says that the keys of \<^verbatim>\<open>parameters\<close> and
  \<^verbatim>\<open>escaped_parameters\<close> are disjoint. \<open>reachable\<close> are the caches that the functions
  of this file make out of the empty one.
\<close>

definition parameters_disjoint :: "McdStorageAccount \<Rightarrow> bool" where
  "parameters_disjoint sa = (fmdom (parameters sa) |\<inter>| fmdom (escaped_parameters sa) = {||})"

definition cache_disjoint :: "McdStorage \<Rightarrow> bool" where
  "cache_disjoint self = fmpred (\<lambda>_. parameters_disjoint) (accounts self)"

inductive reachable :: "platform \<Rightarrow> McdStorage \<Rightarrow> bool" for P :: platform where
  reachable_init: "reachable P mcd_storage_init"
| reachable_set_attribute:
    "reachable P self \<Longrightarrow> reachable P (snd (mcd_storage_set_attribute P self account attribute v))"
| reachable_set_parameter:
    "reachable P self \<Longrightarrow> reachable P (snd (mcd_storage_set_parameter P self account parameter v))"
| reachable_mcpa_set_attribute:
    "reachable P self \<Longrightarrow> reachable P (mcpa_set_attribute self account attribute variant)"
| reachable_mcpa_set_parameter:
    "reachable P self \<Longrightarrow> reachable P (mcpa_set_parameter self account parameter variant)"
| reachable_set_value:
    "reachable P self \<Longrightarrow> reachable P (set_value P self account key escaped)"
| reachable_add_account:
    "reachable P self \<Longrightarrow> reachable P (mcd_storage_add_account_from_plugin P self plugin name)"
| reachable_load:
    "reachable P self \<Longrightarrow> reachable P (mcd_storage_load P self stores)"
| reachable_create_account:
    "reachable P self \<Longrightarrow>
     reachable P (snd (mcd_storage_create_account P self stores provider manager protocol identification))"
| reachable_delete_account:
    "reachable P self \<Longrightarrow> reachable P (mcd_storage_delete_account self account)"

subsection \<open>Example inputs\<close>

text \<open>
  A plugin with a name and a priority that lists no account, pushes nothing, creates
  nothing and declines every typed call; and a platform with an empty attribute table.
\<close>

definition plain_plugin :: "string \<Rightarrow> int \<Rightarrow> McpAccountStorage" where
  "plain_plugin n prio =
     \<lparr>mcp_account_storage_name = n,
      mcp_account_storage_priority = prio,
      mcp_account_storage_provider = [],
      mcp_account_storage_list = [],
      mcp_account_storage_get = (\<lambda>_. []),
      mcp_account_storage_create = (\<lambda>_ _ _ _. Inl (GError TP_ERROR_INVALID_ARGUMENT [])),
      mcp_account_storage_set_attribute = (\<lambda>_ _ _. False),
      mcp_account_storage_set_parameter = (\<lambda>_ _ _. False),
      mcp_account_storage_set = (\<lambda>_ _ _. True)\<rparr>"

definition plain_platform :: platform where
  "plain_platform =
     \<lparr>known_attributes = [],
      g_ascii_dtostr = (\<lambda>_. ''0''),
      g_ascii_strtod = (\<lambda>s. (0, s))\<rparr>"

text \<open>
  A plugin that lists the given accounts, and a plugin whose \<open>create\<close> always gives
  the given name.
\<close>

definition listing_plugin :: "string \<Rightarrow> int \<Rightarrow> string list \<Rightarrow> McpAccountStorage" where
  "listing_plugin n prio names = (plain_plugin n prio)\<lparr>mcp_account_storage_list := names\<rparr>"

definition creating_plugin :: "string \<Rightarrow> int \<Rightarrow> string \<Rightarrow> McpAccountStorage" where
  "creating_plugin n prio account =
     (plain_plugin n prio)\<lparr>mcp_account_storage_create := (\<lambda>_ _ _ _. Inr account)\<rparr>"

text \<open>
  A plugin that lists the given accounts and, asked for the values of any account,
  pushes the given write-backs.
\<close>

definition pushing_plugin :: "string \<Rightarrow> int \<Rightarrow> string list \<Rightarrow> McpCallback list \<Rightarrow> McpAccountStorage" where
  "pushing_plugin n prio names cbs =
     (listing_plugin n prio names)\<lparr>mcp_account_storage_get := (\<lambda>_. cbs)\<rparr>"

text \<open>
  The cache after the account \<open>fred\<close> was absorbed from the plugin \<open>gabble\<close>.
\<close>

definition example_cache :: McdStorage where
  "example_cache =
     mcd_storage_add_account_from_plugin plain_platform mcd_storage_init
       (plain_plugin ''gabble'' 0) (Some ''fred'')"

section \<open>Properties\<close>

subsection \<open>The registry\<close>

lemma g_list_insert_sorted_insort:
  "g_list_insert_sorted xs p account_storage_cmp =
     insort_key (\<lambda>q. - mcp_account_storage_priority q) p xs"
  by (induction xs) (auto simp: account_storage_cmp_def Let_def)

lemma foldl_insort_rev:
  "foldl (\<lambda>acc x. insort_key f x acc) acc xs = foldr (insort_key f) (rev xs) acc"
  by (induction xs arbitrary: acc) auto

lemma register_plugins_sort:
  "register_plugins ps = sort_key (\<lambda>q. - mcp_account_storage_priority q) (rev ps)"
  by (simp add: register_plugins_def add_storage_plugin_def g_list_insert_sorted_insort
      foldl_insort_rev sort_key_def)

lemma sorted_desc_register_plugins:
  "sorted_wrt (\<lambda>a b. mcp_account_storage_priority a \<ge> mcp_account_storage_priority b)
     (register_plugins ps)"
proof -
  have "sorted (map (\<lambda>q. - mcp_account_storage_priority q) (register_plugins ps))"
    by (simp add: register_plugins_sort)
  then show ?thesis
    by (simp add: sorted_wrt_map)
qed

text \<open>
  C5. The registry built by registering the plugins \<open>ps\<close> one after the other holds
  exactly the registered plugins, in descending order of priority. Plugins of the same
  priority stand in the reverse of their registration order (the one registered later
  comes first): \<^verbatim>\<open>g_list_insert_sorted\<close> links a new element in front of the elements
  it compares equal to.
\<close>

theorem registry_descending_ties_reversed:
  "sorted_wrt (\<lambda>a b. mcp_account_storage_priority a \<ge> mcp_account_storage_priority b)
     (register_plugins ps)
   \<and> set (register_plugins ps) = set ps
   \<and> length (register_plugins ps) = length ps
   \<and> filter (\<lambda>p. mcp_account_storage_priority p = k) (register_plugins ps)
       = rev (filter (\<lambda>p. mcp_account_storage_priority p = k) ps)"
proof -
  have "filter (\<lambda>p. - mcp_account_storage_priority p = - k) (register_plugins ps)
          = filter (\<lambda>p. - mcp_account_storage_priority p = - k) (rev ps)"
    unfolding register_plugins_sort by (rule sort_key_stable)
  then have "filter (\<lambda>p. mcp_account_storage_priority p = k) (register_plugins ps)
          = rev (filter (\<lambda>p. mcp_account_storage_priority p = k) ps)"
    by (simp add: rev_filter)
  then show ?thesis
    using sorted_desc_register_plugins [of ps]
    by (simp add: register_plugins_sort)
qed

theorem registry_descending_ties_reversed_witness:
  "register_plugins [plain_plugin ''low'' 50, plain_plugin ''first'' 100, plain_plugin ''second'' 100]
     = [plain_plugin ''second'' 100, plain_plugin ''first'' 100, plain_plugin ''low'' 50]
   \<and> filter (\<lambda>p. mcp_account_storage_priority p = 100)
        (register_plugins [plain_plugin ''low'' 50, plain_plugin ''first'' 100, plain_plugin ''second'' 100])
       = rev (filter (\<lambda>p. mcp_account_storage_priority p = 100)
               [plain_plugin ''low'' 50, plain_plugin ''first'' 100, plain_plugin ''second'' 100])"
  using registry_descending_ties_reversed
    [of "[plain_plugin ''low'' 50, plain_plugin ''first'' 100, plain_plugin ''second'' 100]" 100]
  by (simp add: register_plugins_def add_storage_plugin_def account_storage_cmp_def plain_plugin_def)

text \<open>
  The claim as the spec words it (equal priorities keep their registration order) fails
  for two plugins of priority 0 registered as \<open>a\<close>, then \<open>b\<close>: the registry is \<open>b\<close>, \<open>a\<close>.
\<close>

theorem registry_ties_counterexample:
  "register_plugins [plain_plugin ''a'' 0, plain_plugin ''b'' 0]
     = [plain_plugin ''b'' 0, plain_plugin ''a'' 0]
   \<and> register_plugins [plain_plugin ''a'' 0, plain_plugin ''b'' 0]
     \<noteq> [plain_plugin ''a'' 0, plain_plugin ''b'' 0]"
  by (simp add: register_plugins_def add_storage_plugin_def account_storage_cmp_def plain_plugin_def)

subsection \<open>The cache and its ghost histories\<close>

lemma accounts_g_return_if_fail_warning [simp]:
  "accounts (g_return_if_fail_warning c self) = accounts self"
  "plugin_calls (g_return_if_fail_warning c self) = plugin_calls self"
  "g_log (g_return_if_fail_warning c self) = g_log self @ [c]"
  by (simp_all add: g_return_if_fail_warning_def)

lemma accounts_plugin_called [simp]:
  "accounts (plugin_called c self) = accounts self"
  "plugin_calls (plugin_called c self) = plugin_calls self @ [c]"
  "g_log (plugin_called c self) = g_log self"
  by (simp_all add: plugin_called_def)

lemma lookup_account_simps [simp]:
  "lookup_account (g_return_if_fail_warning c self) a = lookup_account self a"
  "lookup_account (plugin_called d self) a = lookup_account self a"
  "lookup_account (self\<lparr>accounts := m\<rparr>) a = fmlookup m a"
  by (simp_all add: lookup_account_def)

lemma accounts_update_storage [simp]:
  "accounts (update_storage self account key variant escaped) = accounts self"
  by (simp add: update_storage_def Let_def split: option.splits)

lemma lookup_update_storage [simp]:
  "lookup_account (update_storage self account key variant escaped) a = lookup_account self a"
  by (simp add: lookup_account_def)

lemma fmdom_empty_iff: "fmdom m = {||} \<longleftrightarrow> m = fmempty"
  by (metis fmdom_empty fmrestrict_fset_dom fmrestrict_fset_null)

lemma fcard_fmdom_pos: "0 < fcard (fmdom m) \<longleftrightarrow> m \<noteq> fmempty"
proof -
  have "(0 < fcard (fmdom m)) = (fcard (fmdom m) \<noteq> 0)" by (simp only: neq0_conv)
  also have "\<dots> = (fmdom m \<noteq> {||})" by simp
  also have "\<dots> = (m \<noteq> fmempty)" by (simp add: fmdom_empty_iff)
  finally show ?thesis .
qed

lemma dup_accounts_iff:
  "k |\<in>| mcd_storage_dup_accounts self \<longleftrightarrow>
     (\<exists>sa. lookup_account self k = Some sa \<and> attributes sa \<noteq> fmempty)"
  by (auto simp: mcd_storage_dup_accounts_def lookup_account_def fcard_fmdom_pos fmlookup_dom_iff
      split: option.splits)

lemma parameters_disjoint_iff:
  "parameters_disjoint sa \<longleftrightarrow>
     (\<forall>k. fmlookup (parameters sa) k = None \<or> fmlookup (escaped_parameters sa) k = None)"
proof -
  have "parameters_disjoint sa \<longleftrightarrow>
          (\<forall>k. \<not> (k |\<in>| fmdom (parameters sa) \<and> k |\<in>| fmdom (escaped_parameters sa)))"
    unfolding parameters_disjoint_def by auto
  then show ?thesis
    by (auto simp: fmlookup_dom_iff)
qed

lemma cache_disjoint_iff:
  "cache_disjoint self \<longleftrightarrow> (\<forall>a sa. fmlookup (accounts self) a = Some sa \<longrightarrow> parameters_disjoint sa)"
  by (simp add: cache_disjoint_def lookup_account_def fmpred_iff)

lemma cache_disjoint_mcpa_set_parameter:
  "cache_disjoint self \<Longrightarrow> cache_disjoint (mcpa_set_parameter self a p v)"
  by (auto simp: mcpa_set_parameter_def Let_def cache_disjoint_iff parameters_disjoint_iff lookup_account_def
      split: option.splits if_splits)

lemma cache_disjoint_set_value:
  "cache_disjoint self \<Longrightarrow> cache_disjoint (set_value P self a k v)"
  by (auto simp: set_value_def Let_def cache_disjoint_iff parameters_disjoint_iff lookup_account_def
      split: option.splits if_splits bool.splits prod.splits)

lemma cache_disjoint_set_parameter:
  "cache_disjoint self \<Longrightarrow> cache_disjoint (snd (mcd_storage_set_parameter P self a p v))"
  by (auto simp: mcd_storage_set_parameter_def Let_def cache_disjoint_iff parameters_disjoint_iff lookup_account_def
      split: option.splits if_splits)

lemma cache_disjoint_mcpa_set_attribute:
  "cache_disjoint self \<Longrightarrow> cache_disjoint (mcpa_set_attribute self a p v)"
  by (auto simp: mcpa_set_attribute_def Let_def cache_disjoint_iff parameters_disjoint_iff lookup_account_def
      split: option.splits if_splits)

lemma cache_disjoint_accounts_eq:
  "accounts s' = accounts s \<Longrightarrow> cache_disjoint s' = cache_disjoint s"
  by (simp add: cache_disjoint_def)

lemma cache_disjoint_set_attribute:
  "cache_disjoint self \<Longrightarrow> cache_disjoint (snd (mcd_storage_set_attribute P self a p v))"
  by (auto simp: mcd_storage_set_attribute_def Let_def cache_disjoint_iff parameters_disjoint_iff lookup_account_def
      split: option.splits if_splits)

lemma cache_disjoint_run_callback:
  "cache_disjoint self \<Longrightarrow> cache_disjoint (run_callback P self cb)"
  by (cases cb) (simp_all add: cache_disjoint_set_value cache_disjoint_mcpa_set_attribute
      cache_disjoint_mcpa_set_parameter)

lemma cache_disjoint_run_callbacks:
  "cache_disjoint self \<Longrightarrow> cache_disjoint (foldl (run_callback P) self cbs)"
  by (induction cbs arbitrary: self) (simp_all add: cache_disjoint_run_callback)

lemma cache_disjoint_add_account:
  "cache_disjoint self \<Longrightarrow> cache_disjoint (mcd_storage_add_account_from_plugin P self plugin name)"
proof (cases name)
  case None
  assume "cache_disjoint self"
  with None show ?thesis
    by (simp add: mcd_storage_add_account_from_plugin_def cache_disjoint_def)
next
  case (Some a)
  assume d: "cache_disjoint self"
  have "cache_disjoint
          (plugin_called (Call_get (mcp_account_storage_name plugin) a)
             (self\<lparr>accounts := fmupd a (mcd_storage_account_new plugin) (accounts self)\<rparr>))"
    using d by (auto simp: cache_disjoint_iff parameters_disjoint_iff mcd_storage_account_new_def)
  then show ?thesis
    using d Some
    by (simp add: mcd_storage_add_account_from_plugin_def cache_disjoint_run_callbacks)
      (simp add: cache_disjoint_def)
qed

lemma cache_disjoint_load_from_plugin:
  "cache_disjoint self \<Longrightarrow> cache_disjoint (load_from_plugin P self plugin)"
proof -
  have "cache_disjoint s \<Longrightarrow>
        cache_disjoint (foldl (\<lambda>s account. mcd_storage_add_account_from_plugin P s plugin (Some account)) s xs)"
    for s xs
    by (induction xs arbitrary: s) (simp_all add: cache_disjoint_add_account)
  moreover assume "cache_disjoint self"
  ultimately show ?thesis
    by (simp add: load_from_plugin_def cache_disjoint_def)
qed

lemma cache_disjoint_load:
  "cache_disjoint self \<Longrightarrow> cache_disjoint (mcd_storage_load P self stores)"
proof -
  have "cache_disjoint s \<Longrightarrow> cache_disjoint (foldl (load_from_plugin P) s xs)" for s xs
    by (induction xs arbitrary: s) (simp_all add: cache_disjoint_load_from_plugin)
  then show "cache_disjoint self \<Longrightarrow> ?thesis"
    by (simp add: mcd_storage_load_def)
qed

lemma cache_disjoint_create_account_loop:
  "cache_disjoint self \<Longrightarrow>
   cache_disjoint (snd (create_account_loop P self stores manager protocol identification))"
proof (induction stores arbitrary: self)
  case Nil
  then show ?case by (simp add: cache_disjoint_def)
next
  case (Cons plugin rest)
  have d: "cache_disjoint (plugin_called c self)" for c
    using Cons.prems by (simp add: cache_disjoint_def)
  show ?case
    by (simp add: Let_def d Cons.IH cache_disjoint_add_account split: sum.splits)
qed

lemma cache_disjoint_create_account:
  "cache_disjoint self \<Longrightarrow>
   cache_disjoint (snd (mcd_storage_create_account P self stores provider manager protocol identification))"
proof -
  assume d: "cache_disjoint self"
  have d': "cache_disjoint (plugin_called c self)" "cache_disjoint (g_return_if_fail_warning w self)" for c w
    using d by (simp_all add: cache_disjoint_def)
  show ?thesis
    by (simp add: mcd_storage_create_account_def Let_def d d' cache_disjoint_add_account
        cache_disjoint_create_account_loop split: option.splits sum.splits)
qed

lemma cache_disjoint_delete_account:
  "cache_disjoint self \<Longrightarrow> cache_disjoint (mcd_storage_delete_account self account)"
  by (auto simp: mcd_storage_delete_account_def Let_def cache_disjoint_iff lookup_account_def
      split: option.splits if_splits)

lemma reachable_cache_disjoint: "reachable P self \<Longrightarrow> cache_disjoint self"
proof (induction rule: reachable.induct)
  case reachable_init
  show ?case by (simp add: cache_disjoint_def mcd_storage_init_def)
qed (simp_all add: cache_disjoint_set_attribute cache_disjoint_set_parameter
      cache_disjoint_mcpa_set_attribute cache_disjoint_mcpa_set_parameter cache_disjoint_set_value
      cache_disjoint_add_account cache_disjoint_load cache_disjoint_create_account
      cache_disjoint_delete_account)

text \<open>
  C8. In every cache that the operations of this file can reach from the empty one, and
  so after every write of a parameter (\<^verbatim>\<open>mcd_storage_set_parameter\<close>, the plugin's
  typed write-back \<^verbatim>\<open>mcpa_set_parameter\<close>, the plugin's escaped write-back
  \<^verbatim>\<open>set_value\<close>), no account holds a parameter key in both \<^verbatim>\<open>parameters\<close> and
  \<^verbatim>\<open>escaped_parameters\<close>. Deleting a parameter through any of the three (a null
  value) leaves its key in neither map.
\<close>

theorem parameter_maps_stay_disjoint:
  assumes "reachable P self"
  shows "cache_disjoint self
    \<and> (\<forall>sa. lookup_account (snd (mcd_storage_set_parameter P self account parameter None)) account = Some sa
          \<longrightarrow> fmlookup (parameters sa) parameter = None \<and> fmlookup (escaped_parameters sa) parameter = None)
    \<and> (\<forall>sa. lookup_account (mcpa_set_parameter self account parameter None) account = Some sa
          \<longrightarrow> fmlookup (parameters sa) parameter = None \<and> fmlookup (escaped_parameters sa) parameter = None)
    \<and> (\<forall>sa. lookup_account (set_value P self account (''param-'' @ parameter) None) account = Some sa
          \<longrightarrow> fmlookup (parameters sa) parameter = None \<and> fmlookup (escaped_parameters sa) parameter = None)"
proof -
  have a: "cache_disjoint self"
    using assms by (rule reachable_cache_disjoint)
  have b: "\<forall>sa. lookup_account (snd (mcd_storage_set_parameter P self account parameter None)) account = Some sa
          \<longrightarrow> fmlookup (parameters sa) parameter = None \<and> fmlookup (escaped_parameters sa) parameter = None"
    by (auto simp: mcd_storage_set_parameter_def Let_def lookup_account_def tp_strdiff_def
        mcd_nullable_variant_equal_def split: option.splits if_splits)
  have c: "\<forall>sa. lookup_account (mcpa_set_parameter self account parameter None) account = Some sa
          \<longrightarrow> fmlookup (parameters sa) parameter = None \<and> fmlookup (escaped_parameters sa) parameter = None"
    by (auto simp: mcpa_set_parameter_def Let_def lookup_account_def split: option.splits)
  have d: "\<forall>sa. lookup_account (set_value P self account (''param-'' @ parameter) None) account = Some sa
          \<longrightarrow> fmlookup (parameters sa) parameter = None \<and> fmlookup (escaped_parameters sa) parameter = None"
    by (auto simp: set_value_def Let_def lookup_account_def g_str_has_prefix_def split: option.splits)
  from a b c d show ?thesis by blast
qed

lemma example_cache_reachable:
  "reachable plain_platform
     (set_value plain_platform
        (mcd_storage_add_account_from_plugin plain_platform mcd_storage_init
           (plain_plugin ''gabble'' 0) (Some ''fred''))
        ''fred'' ''param-account'' (Some ''fred@example.com''))"
  by (intro reachable_set_value reachable_add_account reachable_init)

theorem parameter_maps_stay_disjoint_witness:
  "cache_disjoint
     (set_value plain_platform
        (mcd_storage_add_account_from_plugin plain_platform mcd_storage_init
           (plain_plugin ''gabble'' 0) (Some ''fred''))
        ''fred'' ''param-account'' (Some ''fred@example.com''))
   \<and> lookup_account
       (set_value plain_platform
          (mcd_storage_add_account_from_plugin plain_platform mcd_storage_init
             (plain_plugin ''gabble'' 0) (Some ''fred''))
          ''fred'' ''param-account'' (Some ''fred@example.com'')) ''fred''
     = Some \<lparr>attributes = fmempty, parameters = fmempty,
             escaped_parameters = fmupd ''account'' ''fred@example.com'' fmempty,
             storage = plain_plugin ''gabble'' 0\<rparr>
   \<and> lookup_account
       (snd (mcd_storage_set_parameter plain_platform
          (set_value plain_platform
            (mcd_storage_add_account_from_plugin plain_platform mcd_storage_init
               (plain_plugin ''gabble'' 0) (Some ''fred''))
            ''fred'' ''param-account'' (Some ''fred@example.com'')) ''fred'' ''account'' None)) ''fred''
     = Some \<lparr>attributes = fmempty, parameters = fmempty,
             escaped_parameters = fmempty,
             storage = plain_plugin ''gabble'' 0\<rparr>"
  using parameter_maps_stay_disjoint [OF example_cache_reachable, of "''fred''" "''account''"]
  by (simp add: set_value_def mcd_storage_add_account_from_plugin_def mcd_storage_init_def
      lookup_account_def plugin_called_def g_str_has_prefix_def mcd_storage_account_new_def
      mcd_storage_set_parameter_def Let_def tp_strdiff_def update_storage_def plain_plugin_def
      fmdrop_fmupd_same)

subsection \<open>Enumerating accounts\<close>

text \<open>
  C10. \<^verbatim>\<open>mcd_storage_dup_accounts\<close> returns exactly the names of the cached accounts
  whose attribute table is not empty. A cached account without attributes is left out,
  although a parameter it holds is read with success and an attribute is written to it
  with success; so is an account that was just absorbed from a plugin that pushed nothing.
\<close>

theorem dup_accounts_only_with_attributes:
  "(k |\<in>| mcd_storage_dup_accounts self \<longleftrightarrow>
      (\<exists>sa. lookup_account self k = Some sa \<and> attributes sa \<noteq> fmempty))
   \<and> (lookup_account self k = Some sa \<and> attributes sa = fmempty \<longrightarrow>
        k |\<notin>| mcd_storage_dup_accounts self
        \<and> (fmlookup (parameters sa) p = Some x \<longrightarrow>
             mcd_storage_get_parameter P self k p
               (GValue (G_VALUE_TYPE (dbus_g_value_parse_g_variant x)) c)
             = (True, None, dbus_g_value_parse_g_variant x))
        \<and> (\<not> g_str_has_prefix a ''param-'' \<longrightarrow>
             fst (mcd_storage_set_attribute P self k a (Some (GValue t (Some y)))) = True))
   \<and> (k |\<notin>| fmdom (accounts self) \<and> mcp_account_storage_get plugin k = [] \<longrightarrow>
        lookup_account (mcd_storage_add_account_from_plugin P self plugin (Some k)) k
          = Some (mcd_storage_account_new plugin)
        \<and> k |\<notin>| mcd_storage_dup_accounts (mcd_storage_add_account_from_plugin P self plugin (Some k)))"
proof -
  have a: "k |\<in>| mcd_storage_dup_accounts self \<longleftrightarrow>
      (\<exists>sa. lookup_account self k = Some sa \<and> attributes sa \<noteq> fmempty)" for k self
    by (rule dup_accounts_iff)
  have b: "mcd_storage_get_parameter P self k p
               (GValue (G_VALUE_TYPE (dbus_g_value_parse_g_variant x)) c)
             = (True, None, dbus_g_value_parse_g_variant x)"
    if "lookup_account self k = Some sa" "fmlookup (parameters sa) p = Some x"
    using that by (simp add: mcd_storage_get_parameter_def mcd_storage_coerce_variant_to_value_def)
  have c: "fst (mcd_storage_set_attribute P self k a (Some (GValue t (Some y)))) = True"
    if "lookup_account self k = Some sa" "attributes sa = fmempty" "\<not> g_str_has_prefix a ''param-''"
    using that
    by (simp add: mcd_storage_set_attribute_def Let_def dbus_g_value_build_g_variant_def
        mcd_nullable_variant_equal_def)
  have d: "lookup_account (mcd_storage_add_account_from_plugin P self plugin (Some k)) k
          = Some (mcd_storage_account_new plugin)"
    if "k |\<notin>| fmdom (accounts self)" "mcp_account_storage_get plugin k = []"
    using that by (simp add: mcd_storage_add_account_from_plugin_def)
  have e: "k |\<notin>| mcd_storage_dup_accounts (mcd_storage_add_account_from_plugin P self plugin (Some k))"
    if "k |\<notin>| fmdom (accounts self)" "mcp_account_storage_get plugin k = []"
    using d [OF that] by (simp add: a mcd_storage_account_new_def)
  show ?thesis
    using a b c d e by auto
qed

theorem dup_accounts_only_with_attributes_witness:
  "''fred'' |\<notin>| mcd_storage_dup_accounts
       (mcd_storage_add_account_from_plugin plain_platform mcd_storage_init
          (plain_plugin ''gabble'' 0) (Some ''fred''))
   \<and> lookup_account
        (mcd_storage_add_account_from_plugin plain_platform mcd_storage_init
           (plain_plugin ''gabble'' 0) (Some ''fred'')) ''fred''
       = Some (mcd_storage_account_new (plain_plugin ''gabble'' 0))
   \<and> ''fred'' |\<in>| mcd_storage_dup_accounts
        (snd (mcd_storage_set_attribute plain_platform
           (mcd_storage_add_account_from_plugin plain_platform mcd_storage_init
              (plain_plugin ''gabble'' 0) (Some ''fred''))
           ''fred'' ''DisplayName'' (Some (GValue G_TYPE_STRING (Some (VString ''Fred''))))))"
proof -
  have "''fred'' |\<notin>| fmdom (accounts mcd_storage_init)"
    and "mcp_account_storage_get (plain_plugin ''gabble'' 0) ''fred'' = []"
    by (simp_all add: mcd_storage_init_def plain_plugin_def)
  then have "''fred'' |\<notin>| mcd_storage_dup_accounts
       (mcd_storage_add_account_from_plugin plain_platform mcd_storage_init
          (plain_plugin ''gabble'' 0) (Some ''fred''))
   \<and> lookup_account
        (mcd_storage_add_account_from_plugin plain_platform mcd_storage_init
           (plain_plugin ''gabble'' 0) (Some ''fred'')) ''fred''
       = Some (mcd_storage_account_new (plain_plugin ''gabble'' 0))"
    using dup_accounts_only_with_attributes
      [where k = "''fred''" and self = mcd_storage_init and plugin = "plain_plugin ''gabble'' 0"
         and P = plain_platform]
    by blast
  moreover have "''fred'' |\<in>| mcd_storage_dup_accounts
        (snd (mcd_storage_set_attribute plain_platform
           (mcd_storage_add_account_from_plugin plain_platform mcd_storage_init
              (plain_plugin ''gabble'' 0) (Some ''fred''))
           ''fred'' ''DisplayName'' (Some (GValue G_TYPE_STRING (Some (VString ''Fred''))))))"
    by (simp add: dup_accounts_iff mcd_storage_set_attribute_def
        mcd_storage_add_account_from_plugin_def mcd_storage_init_def plain_plugin_def
        g_str_has_prefix_def Let_def mcd_storage_account_new_def dbus_g_value_build_g_variant_def
        mcd_nullable_variant_equal_def lookup_account_def)
  ultimately show ?thesis by blast
qed

subsection \<open>The example cache\<close>

lemma example_cache_eq:
  "example_cache =
     \<lparr>accounts = fmupd ''fred'' (mcd_storage_account_new (plain_plugin ''gabble'' 0)) fmempty,
      g_log = [], plugin_calls = [Call_get ''gabble'' ''fred'']\<rparr>"
  by (simp add: example_cache_def mcd_storage_add_account_from_plugin_def mcd_storage_init_def
      plugin_called_def plain_plugin_def)

lemma example_cache_fields:
  "accounts example_cache = fmupd ''fred'' (mcd_storage_account_new (plain_plugin ''gabble'' 0)) fmempty"
  "g_log example_cache = []"
  "plugin_calls example_cache = [Call_get ''gabble'' ''fred'']"
  by (simp_all add: example_cache_eq)

lemma example_cache_fred:
  "lookup_account example_cache ''fred'' = Some (mcd_storage_account_new (plain_plugin ''gabble'' 0))"
  by (simp add: example_cache_eq lookup_account_def)

lemma escape_value_Fred:
  "mcd_keyfile_escape_value P (GValue G_TYPE_STRING (Some (VString ''Fred''))) = Some ''Fred''"
  by (simp add: mcd_keyfile_escape_value_def dbus_g_value_build_g_variant_def
      mcd_keyfile_escape_variant_def mcd_keyfile_set_variant_def g_key_file_set_string_def
      g_key_file_set_value_def g_key_file_get_value_def g_key_file_new_def Let_def list_separator_def)

lemma escape_value_other:
  "mcd_keyfile_escape_value P (GValue (G_TYPE_OTHER t) (Some (VOther t bs))) = None"
  by (simp add: mcd_keyfile_escape_value_def dbus_g_value_build_g_variant_def
      mcd_keyfile_escape_variant_def mcd_keyfile_set_variant_def
      g_key_file_get_value_def g_key_file_new_def Let_def)

subsection \<open>Writing twice\<close>








subsection \<open>The dispatch of a write to the owning plugin\<close>

lemma update_storage_spec_dispatch:
  assumes "lookup_account self account = Some sa" "(variant = None) = (escaped = None)"
  shows "update_storage self account key variant escaped
           = self\<lparr>plugin_calls := plugin_calls self
                 @ spec_write_dispatch (storage sa) account key variant escaped\<rparr>"
  using assms
  by (auto simp: update_storage_def spec_write_dispatch_def Let_def plugin_called_def
      split: option.splits)

lemma g_str_has_prefix_param_key:
  "g_str_has_prefix (take (MAX_KEY_LENGTH - 1) (''param-'' @ parameter)) ''param-''"
  by (simp add: g_str_has_prefix_def MAX_KEY_LENGTH_def)

text \<open>
  C7, as amended: for a write whose new value is null or has an escaped form.
  \<^verbatim>\<open>update_storage\<close> called with a variant and an escaped text that are both null or
  both present makes exactly the plugin calls of the spec's preference order, and
  touches neither the cache nor the log. So does every cache-changing
  \<^verbatim>\<open>mcd_storage_set_attribute\<close> and \<^verbatim>\<open>mcd_storage_set_parameter\<close> (the parameter's
  key is \<^verbatim>\<open>param-\<close> and the name, cut to the key buffer) whose value, when not null,
  has a variant and an escaped form: delete for a null value; otherwise the typed call,
  followed by the untyped \<^verbatim>\<open>set\<close> exactly when the typed call answered false. No
  failed check is logged, and the caller gets "changed" whatever the typed call answered.
\<close>

theorem write_dispatch_preference:
  assumes acc: "lookup_account self account = Some sa"
    and esc: "\<forall>gv. v = Some gv \<longrightarrow>
               dbus_g_value_build_g_variant gv \<noteq> None \<and> mcd_keyfile_escape_value P gv \<noteq> None"
  shows "((variant = None) = (escaped = None) \<longrightarrow>
            update_storage self account key variant escaped
              = self\<lparr>plugin_calls := plugin_calls self
                    @ spec_write_dispatch (storage sa) account key variant escaped\<rparr>)
    \<and> (\<not> g_str_has_prefix attribute ''param-''
          \<and> fst (mcd_storage_set_attribute P self account attribute v) \<longrightarrow>
         plugin_calls (snd (mcd_storage_set_attribute P self account attribute v))
           = plugin_calls self
               @ spec_write_dispatch (storage sa) account attribute
                   (case v of None \<Rightarrow> None | Some gv \<Rightarrow> dbus_g_value_build_g_variant gv)
                   (case v of None \<Rightarrow> None | Some gv \<Rightarrow> mcd_keyfile_escape_value P gv)
         \<and> g_log (snd (mcd_storage_set_attribute P self account attribute v)) = g_log self)
    \<and> (fst (mcd_storage_set_parameter P self account parameter v) \<longrightarrow>
         plugin_calls (snd (mcd_storage_set_parameter P self account parameter v))
           = plugin_calls self
               @ spec_write_dispatch (storage sa) account
                   (take (MAX_KEY_LENGTH - 1) (''param-'' @ parameter))
                   (case v of None \<Rightarrow> None | Some gv \<Rightarrow> dbus_g_value_build_g_variant gv)
                   (case v of None \<Rightarrow> None | Some gv \<Rightarrow> mcd_keyfile_escape_value P gv)
         \<and> g_log (snd (mcd_storage_set_parameter P self account parameter v)) = g_log self)"
proof -
  have rel: "((case v of None \<Rightarrow> None | Some gv \<Rightarrow> dbus_g_value_build_g_variant gv) = None)
           = ((case v of None \<Rightarrow> None | Some gv \<Rightarrow> mcd_keyfile_escape_value P gv) = None)"
    using esc by (cases v) auto
  have a: "(variant = None) = (escaped = None) \<longrightarrow>
            update_storage self account key variant escaped
              = self\<lparr>plugin_calls := plugin_calls self
                    @ spec_write_dispatch (storage sa) account key variant escaped\<rparr>"
    using update_storage_spec_dispatch [OF acc] by blast
  have sd: "spec_write_dispatch (storage (sa\<lparr>attributes := m\<rparr>)) = spec_write_dispatch (storage sa)"
    "spec_write_dispatch (storage (sa\<lparr>parameters := m, escaped_parameters := e\<rparr>)) = spec_write_dispatch (storage sa)"
    "spec_write_dispatch (storage (sa\<lparr>parameters := m', escaped_parameters := e, parameters := m\<rparr>))
       = spec_write_dispatch (storage sa)"
    for m m' e
    by simp_all
  have b: "\<not> g_str_has_prefix attribute ''param-''
          \<and> fst (mcd_storage_set_attribute P self account attribute v) \<longrightarrow>
         plugin_calls (snd (mcd_storage_set_attribute P self account attribute v))
           = plugin_calls self
               @ spec_write_dispatch (storage sa) account attribute
                   (case v of None \<Rightarrow> None | Some gv \<Rightarrow> dbus_g_value_build_g_variant gv)
                   (case v of None \<Rightarrow> None | Some gv \<Rightarrow> mcd_keyfile_escape_value P gv)
         \<and> g_log (snd (mcd_storage_set_attribute P self account attribute v)) = g_log self"
    using acc rel
    by (auto simp: mcd_storage_set_attribute_def Let_def update_storage_spec_dispatch
        split: option.splits)
  have c: "fst (mcd_storage_set_parameter P self account parameter v) \<longrightarrow>
         plugin_calls (snd (mcd_storage_set_parameter P self account parameter v))
           = plugin_calls self
               @ spec_write_dispatch (storage sa) account
                   (take (MAX_KEY_LENGTH - 1) (''param-'' @ parameter))
                   (case v of None \<Rightarrow> None | Some gv \<Rightarrow> dbus_g_value_build_g_variant gv)
                   (case v of None \<Rightarrow> None | Some gv \<Rightarrow> mcd_keyfile_escape_value P gv)
         \<and> g_log (snd (mcd_storage_set_parameter P self account parameter v)) = g_log self"
    using acc rel
    by (auto simp: mcd_storage_set_parameter_def Let_def update_storage_spec_dispatch
        split: option.splits)
  from a b c show ?thesis by blast
qed

theorem write_dispatch_preference_witness:
  "mcd_storage_set_attribute plain_platform example_cache ''fred'' ''DisplayName''
     (Some (GValue G_TYPE_STRING (Some (VString ''Fred''))))
   = (True,
      \<lparr>accounts = fmupd ''fred''
          ((mcd_storage_account_new (plain_plugin ''gabble'' 0))
             \<lparr>attributes := fmupd ''DisplayName'' (VString ''Fred'') fmempty\<rparr>) fmempty,
       g_log = [],
       plugin_calls =
         [Call_get ''gabble'' ''fred'',
          Call_set_attribute ''gabble'' ''fred'' ''DisplayName'' (VString ''Fred'') False,
          Call_set ''gabble'' ''fred'' ''DisplayName'' ''Fred'' True]\<rparr>)"
proof -
  have esc: "\<forall>gv. Some (GValue G_TYPE_STRING (Some (VString ''Fred''))) = Some gv \<longrightarrow>
               dbus_g_value_build_g_variant gv \<noteq> None
               \<and> mcd_keyfile_escape_value plain_platform gv \<noteq> None"
    by (simp add: escape_value_Fred dbus_g_value_build_g_variant_def)
  have r: "fst (mcd_storage_set_attribute plain_platform example_cache ''fred'' ''DisplayName''
     (Some (GValue G_TYPE_STRING (Some (VString ''Fred''))))) = True"
   and a: "accounts (snd (mcd_storage_set_attribute plain_platform example_cache ''fred'' ''DisplayName''
     (Some (GValue G_TYPE_STRING (Some (VString ''Fred''))))))
      = fmupd ''fred''
          ((mcd_storage_account_new (plain_plugin ''gabble'' 0))
             \<lparr>attributes := fmupd ''DisplayName'' (VString ''Fred'') fmempty\<rparr>) fmempty"
    by (simp_all add: mcd_storage_set_attribute_def example_cache_fred g_str_has_prefix_def Let_def
        dbus_g_value_build_g_variant_def mcd_nullable_variant_equal_def mcd_storage_account_new_def
        example_cache_fields)
  have np: "\<not> g_str_has_prefix ''DisplayName'' ''param-''"
    by (simp add: g_str_has_prefix_def)
  have "plugin_calls (snd (mcd_storage_set_attribute plain_platform example_cache ''fred'' ''DisplayName''
     (Some (GValue G_TYPE_STRING (Some (VString ''Fred''))))))
      = [Call_get ''gabble'' ''fred'',
          Call_set_attribute ''gabble'' ''fred'' ''DisplayName'' (VString ''Fred'') False,
          Call_set ''gabble'' ''fred'' ''DisplayName'' ''Fred'' True]
     \<and> g_log (snd (mcd_storage_set_attribute plain_platform example_cache ''fred'' ''DisplayName''
     (Some (GValue G_TYPE_STRING (Some (VString ''Fred'')))))) = []"
    using write_dispatch_preference [OF example_cache_fred esc, of _ _ _ "''DisplayName''"] r np
    by (simp add: spec_write_dispatch_def escape_value_Fred dbus_g_value_build_g_variant_def
        g_str_has_prefix_def mcd_storage_account_new_def plain_plugin_def example_cache_fields Let_def)
  with r a show ?thesis
    by (cases "mcd_storage_set_attribute plain_platform example_cache ''fred'' ''DisplayName''
     (Some (GValue G_TYPE_STRING (Some (VString ''Fred''))))")
       (auto intro: McdStorage.equality)
qed

text \<open>
  The claim as the spec words it fails for a value that has no escaped form: a parameter
  whose value is a byte array (type \<^verbatim>\<open>ay\<close>) is stored in the cache, and the plugin is
  asked to delete the key, since \<^verbatim>\<open>update_storage\<close> tests the escaped text, not the
  value.
\<close>

theorem write_dispatch_counterexample:
  "mcd_storage_set_parameter plain_platform example_cache ''fred'' ''blob''
     (Some (GValue (G_TYPE_OTHER ''ay'') (Some (VOther ''ay'' [1, 2]))))
   = (True,
      \<lparr>accounts = fmupd ''fred''
          ((mcd_storage_account_new (plain_plugin ''gabble'' 0))
             \<lparr>parameters := fmupd ''blob'' (VOther ''ay'' [1, 2]) fmempty\<rparr>) fmempty,
       g_log = [],
       plugin_calls =
         [Call_get ''gabble'' ''fred'', Call_delete ''gabble'' ''fred'' (Some ''param-blob'')]\<rparr>)"
  by (simp add: mcd_storage_set_parameter_def example_cache_fred Let_def escape_value_other
      dbus_g_value_build_g_variant_def mcd_storage_account_new_def update_storage_def
      MAX_KEY_LENGTH_def plugin_called_def example_cache_fields plain_plugin_def
      g_str_has_prefix_def)

subsection \<open>Reading the cache\<close>

lemma read_failure_keeps_value:
  "\<not> fst (mcd_keyfile_get_value P keyfile g k v) \<Longrightarrow> snd (snd (mcd_keyfile_get_value P keyfile g k v)) = v"
  "\<not> fst (mcd_keyfile_unescape_value P e v) \<Longrightarrow> snd (snd (mcd_keyfile_unescape_value P e v)) = v"
  "\<not> fst (mcd_storage_coerce_variant_to_value P variant v) \<Longrightarrow>
     snd (snd (mcd_storage_coerce_variant_to_value P variant v)) = v"
  by (auto simp: mcd_keyfile_get_value_def mcd_keyfile_unescape_value_def
      mcd_storage_coerce_variant_to_value_def Let_def split: option.splits sum.splits if_splits)

text \<open>
  C3, as amended. Without a record for the account, \<^verbatim>\<open>mcd_storage_get_parameter\<close>
  and \<^verbatim>\<open>mcd_storage_get_attribute\<close> (on an attribute name, one without the
  \<^verbatim>\<open>param-\<close> prefix) fail with the error "Account ... does not exist" and leave the
  caller's value as it was. With a record, \<^verbatim>\<open>mcd_storage_get_parameter\<close> takes the
  typed cached value when there is one and coerces it to the type of the caller's value
  (it returns the cached value itself when the types agree, and otherwise decodes its
  escaped form at the wanted type, which can fail); without a typed value it decodes the
  escaped cached text; without either it fails with "Parameter ... not stored by
  account ...". Every failed read leaves the caller's value as it was.
\<close>

theorem get_lookup_order:
  "(lookup_account self account = None \<longrightarrow>
      mcd_storage_get_parameter P self account parameter v
        = (False, Some (GError TP_ERROR_NOT_AVAILABLE (''Account '' @ account @ '' does not exist'')), v)
      \<and> (\<not> g_str_has_prefix attribute ''param-'' \<longrightarrow>
           mcd_storage_get_attribute P self account attribute v
             = (False, Some (GError TP_ERROR_NOT_AVAILABLE (''Account '' @ account @ '' does not exist'')), v)))
   \<and> (lookup_account self account = Some sa \<longrightarrow>
        (case fmlookup (parameters sa) parameter of
           Some variant \<Rightarrow>
             mcd_storage_get_parameter P self account parameter v
               = mcd_storage_coerce_variant_to_value P variant v
             \<and> (G_VALUE_TYPE (dbus_g_value_parse_g_variant variant) = G_VALUE_TYPE v \<longrightarrow>
                  mcd_storage_get_parameter P self account parameter v
                    = (True, None, dbus_g_value_parse_g_variant variant))
         | None \<Rightarrow>
             (case fmlookup (escaped_parameters sa) parameter of
                Some escaped \<Rightarrow>
                  mcd_storage_get_parameter P self account parameter v
                    = mcd_keyfile_unescape_value P (Some escaped) v
              | None \<Rightarrow>
                  mcd_storage_get_parameter P self account parameter v
                    = (False,
                       Some (GError TP_ERROR_NOT_AVAILABLE
                              (''Parameter '' @ [CHR 0x27] @ parameter @ [CHR 0x27] @
                               '' not stored by account '' @ account)),
                       v))))
   \<and> (\<not> fst (mcd_storage_get_parameter P self account parameter v) \<longrightarrow>
        snd (snd (mcd_storage_get_parameter P self account parameter v)) = v)
   \<and> (\<not> fst (mcd_storage_get_attribute P self account attribute v) \<longrightarrow>
        snd (snd (mcd_storage_get_attribute P self account attribute v)) = v)"
proof -
  have a: "\<not> fst (mcd_storage_get_parameter P self account parameter v) \<longrightarrow>
        snd (snd (mcd_storage_get_parameter P self account parameter v)) = v"
    by (auto simp: mcd_storage_get_parameter_def read_failure_keeps_value split: option.splits)
  have b: "\<not> fst (mcd_storage_get_attribute P self account attribute v) \<longrightarrow>
        snd (snd (mcd_storage_get_attribute P self account attribute v)) = v"
    by (auto simp: mcd_storage_get_attribute_def read_failure_keeps_value split: option.splits)
  show ?thesis
    using a b
    by (auto simp: mcd_storage_get_parameter_def mcd_storage_get_attribute_def
        mcd_storage_coerce_variant_to_value_def Let_def split: option.splits)
qed

theorem get_lookup_order_witness:
  "mcd_storage_get_parameter plain_platform example_cache ''wilma'' ''account'' (GValue G_TYPE_STRING None)
     = (False, Some (GError TP_ERROR_NOT_AVAILABLE ''Account wilma does not exist''),
        GValue G_TYPE_STRING None)
   \<and> mcd_storage_get_attribute plain_platform example_cache ''wilma'' ''DisplayName''
       (GValue G_TYPE_STRING None)
     = (False, Some (GError TP_ERROR_NOT_AVAILABLE ''Account wilma does not exist''),
        GValue G_TYPE_STRING None)
   \<and> mcd_storage_get_parameter plain_platform example_cache ''fred'' ''account'' (GValue G_TYPE_STRING None)
     = (False, Some (GError TP_ERROR_NOT_AVAILABLE
          (''Parameter '' @ [CHR 0x27] @ ''account'' @ [CHR 0x27] @ '' not stored by account fred'')),
        GValue G_TYPE_STRING None)"
proof -
  have w: "lookup_account example_cache ''wilma'' = None"
    by (simp add: lookup_account_def example_cache_fields)
  have np: "\<not> g_str_has_prefix ''DisplayName'' ''param-''"
    by (simp add: g_str_has_prefix_def)
  show ?thesis
    using get_lookup_order [where self = example_cache and account = "''wilma''"
        and P = plain_platform and parameter = "''account''" and attribute = "''DisplayName''"
        and v = "GValue G_TYPE_STRING None"]
      get_lookup_order [where self = example_cache and account = "''fred''"
        and P = plain_platform and parameter = "''account''" and attribute = "''DisplayName''"
        and v = "GValue G_TYPE_STRING None"
        and sa = "mcd_storage_account_new (plain_plugin ''gabble'' 0)"]
      w np example_cache_fred
    by (simp add: mcd_storage_account_new_def)
qed

text \<open>
  The claim as the spec words it (the typed cached value is returned when one exists)
  fails when the caller wants another type than the cached one and the text does not
  decode: the parameter \<open>account\<close> is cached as the string \<open>abc\<close> and read as a
  \<^verbatim>\<open>G_TYPE_INT\<close>.
\<close>

theorem get_parameter_counterexample:
  "mcd_storage_get_parameter plain_platform
     (mcpa_set_parameter example_cache ''fred'' ''account'' (Some (VString ''abc'')))
     ''fred'' ''account'' (GValue G_TYPE_INT None)
   = (False, Some (GError G_KEY_FILE_ERROR_INVALID_VALUE []), GValue G_TYPE_INT None)"
  by (simp add: mcd_storage_get_parameter_def mcpa_set_parameter_def example_cache_fred Let_def
      mcd_storage_coerce_variant_to_value_def mcd_keyfile_escape_variant_def
      mcd_keyfile_set_variant_def g_key_file_set_string_def g_key_file_set_value_def
      g_key_file_get_value_def g_key_file_new_def list_separator_def
      mcd_keyfile_unescape_value_def mcd_keyfile_get_value_def mcd_keyfile_get_variant_def
      g_key_file_get_integer_def strtol_def g_ascii_strtoll_def g_parse_long_long_def
      ISSPACE_def is_digit_def g_ascii_isspace_def)

subsection \<open>Identifier normalisation\<close>

text \<open>
  C9. With a task that is not cancelled: when the peer answers with an identification,
  that is the result; when it answers with the error "not implemented" or "service
  unknown", the result is the string under \<open>account\<close> in the parameters, or the text
  \<open>account\<close> when there is no such entry; every other error of the peer, and the
  error of \<^verbatim>\<open>tp_protocol_new\<close>, is the result as it is.
\<close>

theorem identify_account_outcomes:
  "identify_account_finish False (identify_account_async params None (Inr identification))
     = Inr identification
   \<and> (error_code e = TP_ERROR_NOT_IMPLEMENTED \<or> error_code e = DBUS_GERROR_SERVICE_UNKNOWN \<longrightarrow>
        (fmlookup params ''account'' = Some (VString base) \<longrightarrow>
           identify_account_finish False (identify_account_async params None (Inl e)) = Inr base)
        \<and> (fmlookup params ''account'' = None \<longrightarrow>
           identify_account_finish False (identify_account_async params None (Inl e)) = Inr ''account''))
   \<and> (error_code e \<noteq> TP_ERROR_NOT_IMPLEMENTED \<and> error_code e \<noteq> DBUS_GERROR_SERVICE_UNKNOWN \<longrightarrow>
        identify_account_finish False (identify_account_async params None (Inl e)) = Inl e)
   \<and> identify_account_finish False (identify_account_async params (Some e) reply) = Inl e"
  by (auto simp: identify_account_finish_def identify_account_async_def identify_account_cb_def)

theorem identify_account_outcomes_witness:
  "identify_account_finish False
     (identify_account_async (fmupd ''account'' (VString ''fred@example.com'') fmempty) None
        (Inl (GError TP_ERROR_NOT_IMPLEMENTED ''no IdentifyAccount''))) = Inr ''fred@example.com''
   \<and> identify_account_finish False
     (identify_account_async fmempty None
        (Inl (GError DBUS_GERROR_SERVICE_UNKNOWN ''no such service''))) = Inr ''account''
   \<and> identify_account_finish False
     (identify_account_async fmempty None
        (Inl (GError TP_ERROR_INVALID_ARGUMENT ''bad parameters'')))
      = Inl (GError TP_ERROR_INVALID_ARGUMENT ''bad parameters'')"
  using identify_account_outcomes
      [where params = "fmupd ''account'' (VString ''fred@example.com'') fmempty"
         and e = "GError TP_ERROR_NOT_IMPLEMENTED ''no IdentifyAccount''"
         and base = "''fred@example.com''"]
    identify_account_outcomes
      [where params = fmempty and e = "GError DBUS_GERROR_SERVICE_UNKNOWN ''no such service''"]
    identify_account_outcomes
      [where params = fmempty and e = "GError TP_ERROR_INVALID_ARGUMENT ''bad parameters''"]
  by simp

subsection \<open>Creating an account without a provider\<close>

lemma create_account_loop_first:
  assumes "\<exists>q \<in> set stores. \<not> isl (mcp_account_storage_create q (fmdom (accounts self)) manager protocol identification)"
  shows "\<exists>pre plugin post account.
      stores = pre @ plugin # post
    \<and> (\<forall>q \<in> set pre. isl (mcp_account_storage_create q (fmdom (accounts self)) manager protocol identification))
    \<and> mcp_account_storage_create plugin (fmdom (accounts self)) manager protocol identification = Inr account
    \<and> create_account_loop P self stores manager protocol identification
        = ((Some account, None),
           mcd_storage_add_account_from_plugin P
             (self\<lparr>plugin_calls := plugin_calls self
                @ map (\<lambda>q. Call_create (mcp_account_storage_name q) manager protocol identification
                         (mcp_account_storage_create q (fmdom (accounts self)) manager protocol identification))
                    (pre @ [plugin])\<rparr>)
             plugin (Some account))"
  using assms
proof (induction stores arbitrary: self)
  case Nil
  then show ?case by simp
next
  case (Cons q rest)
  let ?N = "fmdom (accounts self)"
  let ?F = "\<lambda>q. Call_create (mcp_account_storage_name q) manager protocol identification
                         (mcp_account_storage_create q ?N manager protocol identification)"
  show ?case
  proof (cases "mcp_account_storage_create q ?N manager protocol identification")
    case (Inr account)
    have "create_account_loop P self (q # rest) manager protocol identification
        = ((Some account, None),
           mcd_storage_add_account_from_plugin P
             (self\<lparr>plugin_calls := plugin_calls self @ map ?F ([] @ [q])\<rparr>) q (Some account))"
      using Inr by (simp add: Let_def plugin_called_def)
    moreover have "q # rest = [] @ q # rest" by simp
    ultimately show ?thesis
      using Inr
      apply -
      apply (rule exI [of _ "[]"])
      apply (rule exI [of _ q])
      apply (rule exI [of _ rest])
      apply (rule exI [of _ account])
      apply simp
      done
  next
    case (Inl e)
    let ?self1 = "plugin_called (?F q) self"
    have acc: "fmdom (accounts ?self1) = ?N" by simp
    have "\<exists>q \<in> set rest. \<not> isl (mcp_account_storage_create q (fmdom (accounts ?self1)) manager protocol identification)"
      using Cons.prems Inl by auto
    from Cons.IH [OF this] obtain pre plugin post account where
      r: "rest = pre @ plugin # post"
      and f: "\<forall>q \<in> set pre. isl (mcp_account_storage_create q ?N manager protocol identification)"
      and c: "mcp_account_storage_create plugin ?N manager protocol identification = Inr account"
      and l: "create_account_loop P ?self1 rest manager protocol identification
        = ((Some account, None),
           mcd_storage_add_account_from_plugin P
             (?self1\<lparr>plugin_calls := plugin_calls ?self1 @ map ?F (pre @ [plugin])\<rparr>)
             plugin (Some account))"
      unfolding acc by blast
    have s: "?self1\<lparr>plugin_calls := plugin_calls ?self1 @ map ?F (pre @ [plugin])\<rparr>
           = self\<lparr>plugin_calls := plugin_calls self @ map ?F ((q # pre) @ [plugin])\<rparr>"
      by (simp add: plugin_called_def)
    have "create_account_loop P self (q # rest) manager protocol identification
        = ((Some account, None),
           mcd_storage_add_account_from_plugin P
             (self\<lparr>plugin_calls := plugin_calls self @ map ?F ((q # pre) @ [plugin])\<rparr>)
             plugin (Some account))"
      using Inl l unfolding s by (simp add: Let_def)
    moreover have "q # rest = (q # pre) @ plugin # post" using r by simp
    moreover have "\<forall>x \<in> set (q # pre). isl (mcp_account_storage_create x ?N manager protocol identification)"
      using f Inl by simp
    ultimately show ?thesis using c
      apply -
      apply (rule exI [of _ "q # pre"])
      apply (rule exI [of _ plugin])
      apply (rule exI [of _ post])
      apply (rule exI [of _ account])
      apply (simp only: simp_thms)
      done
  qed
qed

text \<open>
  C6. Let the registry be the one \<^verbatim>\<open>sort_and_cache_plugins\<close> builds from the default
  plugin and the loaded plugins, let the default plugin's \<open>create\<close> always give a name,
  and let the manager and the protocol be non-empty (the function's own checks). Then the
  registry is in descending order of priority, and \<^verbatim>\<open>mcd_storage_create_account\<close>
  without a provider asks the plugins in that order: the registry splits into the
  plugins that were asked and gave no name, the first plugin that gave one, and the
  plugins never asked. The result is that plugin's name with no error left from the
  plugins before it, the calls made are exactly these \<open>create\<close> calls in order, and
  the account is absorbed from that plugin.
\<close>

theorem create_account_first_able_plugin:
  assumes "manager \<noteq> []" and "protocol \<noteq> []"
    and "stores = sort_and_cache_plugins dflt loaded"
    and "\<forall>names. \<not> isl (mcp_account_storage_create dflt names manager protocol identification)"
  shows "sorted_wrt (\<lambda>a b. mcp_account_storage_priority a \<ge> mcp_account_storage_priority b) stores
    \<and> (\<exists>pre plugin post account.
      stores = pre @ plugin # post
    \<and> (\<forall>q \<in> set pre. isl (mcp_account_storage_create q (fmdom (accounts self)) manager protocol identification))
    \<and> mcp_account_storage_create plugin (fmdom (accounts self)) manager protocol identification = Inr account
    \<and> mcd_storage_create_account P self stores None manager protocol identification
        = ((Some account, None),
           mcd_storage_add_account_from_plugin P
             (self\<lparr>plugin_calls := plugin_calls self
                @ map (\<lambda>q. Call_create (mcp_account_storage_name q) manager protocol identification
                         (mcp_account_storage_create q (fmdom (accounts self)) manager protocol identification))
                    (pre @ [plugin])\<rparr>)
             plugin (Some account)))"
proof -
  have "dflt \<in> set stores"
    using assms(3) by (simp add: sort_and_cache_plugins_def register_plugins_sort)
  then have "\<exists>q \<in> set stores. \<not> isl (mcp_account_storage_create q (fmdom (accounts self)) manager protocol identification)"
    using assms(4) by blast
  from create_account_loop_first [OF this, of P]
  have "\<exists>pre plugin post account.
      stores = pre @ plugin # post
    \<and> (\<forall>q \<in> set pre. isl (mcp_account_storage_create q (fmdom (accounts self)) manager protocol identification))
    \<and> mcp_account_storage_create plugin (fmdom (accounts self)) manager protocol identification = Inr account
    \<and> mcd_storage_create_account P self stores None manager protocol identification
        = ((Some account, None),
           mcd_storage_add_account_from_plugin P
             (self\<lparr>plugin_calls := plugin_calls self
                @ map (\<lambda>q. Call_create (mcp_account_storage_name q) manager protocol identification
                         (mcp_account_storage_create q (fmdom (accounts self)) manager protocol identification))
                    (pre @ [plugin])\<rparr>)
             plugin (Some account))"
    using assms(1,2) by (simp add: mcd_storage_create_account_def)
  moreover have "sorted_wrt (\<lambda>a b. mcp_account_storage_priority a \<ge> mcp_account_storage_priority b) stores"
    using assms(3) by (simp add: sort_and_cache_plugins_def sorted_desc_register_plugins)
  ultimately show ?thesis by blast
qed

theorem create_account_first_able_plugin_witness:
  "mcd_storage_create_account plain_platform mcd_storage_init
     (sort_and_cache_plugins (creating_plugin ''default'' 0 ''gabble/jabber/fred0'')
        [plain_plugin ''low'' 50, plain_plugin ''high'' 100])
     None ''gabble'' ''jabber'' ''fred''
   = ((Some ''gabble/jabber/fred0'', None),
      \<lparr>accounts = fmupd ''gabble/jabber/fred0''
          (mcd_storage_account_new (creating_plugin ''default'' 0 ''gabble/jabber/fred0'')) fmempty,
       g_log = [],
       plugin_calls =
         [Call_create ''high'' ''gabble'' ''jabber'' ''fred'' (Inl (GError TP_ERROR_INVALID_ARGUMENT [])),
          Call_create ''low'' ''gabble'' ''jabber'' ''fred'' (Inl (GError TP_ERROR_INVALID_ARGUMENT [])),
          Call_create ''default'' ''gabble'' ''jabber'' ''fred'' (Inr ''gabble/jabber/fred0''),
          Call_get ''default'' ''gabble/jabber/fred0'']\<rparr>)"
proof -
  have d: "\<forall>names. \<not> isl (mcp_account_storage_create (creating_plugin ''default'' 0 ''gabble/jabber/fred0'')
              names ''gabble'' ''jabber'' ''fred'')"
    by (simp add: creating_plugin_def)
  have m: "''gabble'' \<noteq> []" "''jabber'' \<noteq> []" by simp_all
  show ?thesis
    using create_account_first_able_plugin [OF m refl d, of "[plain_plugin ''low'' 50, plain_plugin ''high'' 100]"
        mcd_storage_init plain_platform]
    by (simp add: sort_and_cache_plugins_def register_plugins_def add_storage_plugin_def
        account_storage_cmp_def mcd_storage_create_account_def Let_def plugin_called_def
        mcd_storage_add_account_from_plugin_def mcd_storage_init_def
        creating_plugin_def plain_plugin_def)
qed

subsection \<open>An account name reported twice\<close>

lemma get_plugin_set_value:
  "mcd_storage_get_plugin self a = Some owner \<Longrightarrow>
   mcd_storage_get_plugin (set_value P self account key v) a = Some owner"
  by (auto simp: mcd_storage_get_plugin_def set_value_def Let_def lookup_account_def
      split: option.splits if_splits bool.splits prod.splits)

lemma get_plugin_mcpa_set_attribute:
  "mcd_storage_get_plugin self a = Some owner \<Longrightarrow>
   mcd_storage_get_plugin (mcpa_set_attribute self account key v) a = Some owner"
  by (auto simp: mcd_storage_get_plugin_def mcpa_set_attribute_def Let_def lookup_account_def
      split: option.splits if_splits)

lemma get_plugin_mcpa_set_parameter:
  "mcd_storage_get_plugin self a = Some owner \<Longrightarrow>
   mcd_storage_get_plugin (mcpa_set_parameter self account key v) a = Some owner"
  by (auto simp: mcd_storage_get_plugin_def mcpa_set_parameter_def Let_def lookup_account_def
      split: option.splits if_splits)

lemma get_plugin_run_callbacks:
  "mcd_storage_get_plugin self a = Some owner \<Longrightarrow>
   mcd_storage_get_plugin (foldl (run_callback P) self cbs) a = Some owner"
proof (induction cbs arbitrary: self)
  case Nil
  then show ?case by simp
next
  case (Cons cb cbs)
  have "mcd_storage_get_plugin (run_callback P self cb) a = Some owner"
    using Cons.prems
    by (cases cb) (simp_all add: get_plugin_set_value get_plugin_mcpa_set_attribute
        get_plugin_mcpa_set_parameter)
  then show ?case by (simp add: Cons.IH)
qed

lemma add_account_present:
  "a |\<in>| fmdom (accounts self) \<Longrightarrow>
   mcd_storage_add_account_from_plugin P self plugin (Some a)
     = g_return_if_fail_warning ''!g_hash_table_contains (self->accounts, account)'' self"
  by (simp add: mcd_storage_add_account_from_plugin_def)

lemma get_plugin_ghost [simp]:
  "mcd_storage_get_plugin (g_return_if_fail_warning c self) a = mcd_storage_get_plugin self a"
  "mcd_storage_get_plugin (plugin_called d self) a = mcd_storage_get_plugin self a"
  by (simp_all add: mcd_storage_get_plugin_def)

lemma get_plugin_add_account:
  assumes "mcd_storage_get_plugin self a = Some owner"
  shows "mcd_storage_get_plugin (mcd_storage_add_account_from_plugin P self plugin name) a = Some owner"
proof (cases name)
  case None
  then show ?thesis using assms by (simp add: mcd_storage_add_account_from_plugin_def)
next
  case (Some n)
  show ?thesis
  proof (cases "n |\<in>| fmdom (accounts self)")
    case True
    then show ?thesis using assms Some by (simp add: add_account_present)
  next
    case False
    then have "n \<noteq> a"
      using assms by (auto simp: mcd_storage_get_plugin_def lookup_account_def fmlookup_dom_iff
          split: option.splits)
    then have "mcd_storage_get_plugin
            (plugin_called (Call_get (mcp_account_storage_name plugin) n)
               (self\<lparr>accounts := fmupd n (mcd_storage_account_new plugin) (accounts self)\<rparr>)) a
          = Some owner"
      using assms by (simp add: mcd_storage_get_plugin_def lookup_account_def)
    then show ?thesis
      using False Some
      by (simp add: mcd_storage_add_account_from_plugin_def get_plugin_run_callbacks)
  qed
qed

lemma get_plugin_load_from_plugin:
  assumes "mcd_storage_get_plugin self a = Some owner"
  shows "mcd_storage_get_plugin (load_from_plugin P self plugin) a = Some owner"
proof -
  have "mcd_storage_get_plugin s a = Some owner \<Longrightarrow>
        mcd_storage_get_plugin
          (foldl (\<lambda>s account. mcd_storage_add_account_from_plugin P s plugin (Some account)) s xs) a
        = Some owner" for s xs
    by (induction xs arbitrary: s) (simp_all add: get_plugin_add_account)
  then show ?thesis
    using assms by (simp add: load_from_plugin_def)
qed

lemma get_plugin_load:
  assumes "mcd_storage_get_plugin self a = Some owner"
  shows "mcd_storage_get_plugin (mcd_storage_load P self stores) a = Some owner"
proof -
  have "mcd_storage_get_plugin s a = Some owner \<Longrightarrow>
        mcd_storage_get_plugin (foldl (load_from_plugin P) s xs) a = Some owner" for s xs
    by (induction xs arbitrary: s) (simp_all add: get_plugin_load_from_plugin)
  then show ?thesis
    using assms by (simp add: mcd_storage_load_def)
qed

lemma get_plugin_create_account_loop:
  "mcd_storage_get_plugin self a = Some owner \<Longrightarrow>
   mcd_storage_get_plugin (snd (create_account_loop P self stores manager protocol identification)) a
     = Some owner"
proof (induction stores arbitrary: self)
  case Nil
  then show ?case by simp
next
  case (Cons plugin rest)
  show ?case
    using Cons.prems
    by (simp add: Let_def Cons.IH get_plugin_add_account split: sum.splits)
qed

lemma get_plugin_create_account:
  "mcd_storage_get_plugin self a = Some owner \<Longrightarrow>
   mcd_storage_get_plugin
     (snd (mcd_storage_create_account P self stores provider manager protocol identification)) a
     = Some owner"
  by (simp add: mcd_storage_create_account_def Let_def get_plugin_add_account
      get_plugin_create_account_loop split: option.splits sum.splits)

lemma run_callback_other:
  "callback_account cb \<noteq> a \<Longrightarrow> lookup_account (run_callback P self cb) a = lookup_account self a"
  by (cases cb)
    (auto simp: set_value_def mcpa_set_attribute_def mcpa_set_parameter_def Let_def lookup_account_def
      split: option.splits if_splits bool.splits prod.splits)

lemma run_callbacks_other:
  "list_all (\<lambda>cb. callback_account cb = n) cbs \<Longrightarrow> n \<noteq> a \<Longrightarrow>
   lookup_account (foldl (run_callback P) self cbs) a = lookup_account self a"
  by (induction cbs arbitrary: self) (simp_all add: run_callback_other)

lemma add_account_keeps_record:
  assumes "lookup_account self a = Some sa" "pushes_own_account plugin"
  shows "lookup_account (mcd_storage_add_account_from_plugin P self plugin name) a = Some sa"
proof (cases name)
  case None
  then show ?thesis using assms by (simp add: mcd_storage_add_account_from_plugin_def)
next
  case (Some n)
  show ?thesis
  proof (cases "n |\<in>| fmdom (accounts self)")
    case True
    then show ?thesis using assms Some by (simp add: add_account_present)
  next
    case False
    then have ne: "n \<noteq> a"
      using assms by (auto simp: lookup_account_def fmlookup_dom_iff)
    have "list_all (\<lambda>cb. callback_account cb = n) (mcp_account_storage_get plugin n)"
      using assms(2) by (simp add: pushes_own_account_def)
    from run_callbacks_other [OF this ne]
    show ?thesis
      using False Some ne assms(1)
      by (simp add: mcd_storage_add_account_from_plugin_def lookup_account_def)
  qed
qed

lemma load_from_plugin_keeps_record:
  assumes "lookup_account self a = Some sa" "pushes_own_account plugin"
  shows "lookup_account (load_from_plugin P self plugin) a = Some sa"
proof -
  have "lookup_account s a = Some sa \<Longrightarrow>
        lookup_account
          (foldl (\<lambda>s account. mcd_storage_add_account_from_plugin P s plugin (Some account)) s xs) a
        = Some sa" for s xs
    by (induction xs arbitrary: s) (simp_all add: add_account_keeps_record assms(2))
  then show ?thesis
    using assms(1) by (simp add: load_from_plugin_def)
qed

lemma load_keeps_record:
  assumes "lookup_account self a = Some sa" "list_all pushes_own_account stores"
  shows "lookup_account (mcd_storage_load P self stores) a = Some sa"
proof -
  have "lookup_account s a = Some sa \<Longrightarrow> list_all pushes_own_account xs \<Longrightarrow>
        lookup_account (foldl (load_from_plugin P) s xs) a = Some sa" for s xs
    by (induction xs arbitrary: s) (simp_all add: load_from_plugin_keeps_record)
  then show ?thesis
    using assms by (simp add: mcd_storage_load_def)
qed

lemma create_account_loop_keeps_record:
  "lookup_account self a = Some sa \<Longrightarrow> list_all pushes_own_account stores \<Longrightarrow>
   lookup_account (snd (create_account_loop P self stores manager protocol identification)) a = Some sa"
proof (induction stores arbitrary: self)
  case Nil
  then show ?case by simp
next
  case (Cons plugin rest)
  show ?case
    using Cons.prems
    by (simp add: Let_def Cons.IH add_account_keeps_record split: sum.splits)
qed

lemma find_list_all: "find Q xs = Some x \<Longrightarrow> list_all R xs \<Longrightarrow> R x"
  by (induction xs) (auto split: if_splits)

lemma create_account_keeps_record:
  assumes "lookup_account self a = Some sa" "list_all pushes_own_account stores"
  shows "lookup_account
     (snd (mcd_storage_create_account P self stores provider manager protocol identification)) a
     = Some sa"
  using assms
  by (auto simp: mcd_storage_create_account_def Let_def add_account_keeps_record
      create_account_loop_keeps_record split: option.splits sum.splits
      dest: find_list_all [where R = pushes_own_account])

lemma in_dom_get_plugin:
  "(a |\<in>| fmdom (accounts self)) = (\<exists>owner. mcd_storage_get_plugin self a = Some owner)"
  by (auto simp: mcd_storage_get_plugin_def lookup_account_def fmlookup_dom_iff split: option.splits)

lemma add_account_dom_mono:
  "a |\<in>| fmdom (accounts self) \<Longrightarrow>
   a |\<in>| fmdom (accounts (mcd_storage_add_account_from_plugin P self plugin name))"
  unfolding in_dom_get_plugin using get_plugin_add_account by blast

lemma add_account_in_dom:
  "n |\<in>| fmdom (accounts (mcd_storage_add_account_from_plugin P self plugin (Some n)))"
proof (cases "n |\<in>| fmdom (accounts self)")
  case True
  then show ?thesis by (rule add_account_dom_mono)
next
  case False
  have "mcd_storage_get_plugin
          (plugin_called (Call_get (mcp_account_storage_name plugin) n)
             (self\<lparr>accounts := fmupd n (mcd_storage_account_new plugin) (accounts self)\<rparr>)) n
        = Some plugin"
    by (simp add: mcd_storage_get_plugin_def lookup_account_def mcd_storage_account_new_def)
  then have "mcd_storage_get_plugin (mcd_storage_add_account_from_plugin P self plugin (Some n)) n
        = Some plugin"
    using False by (simp add: mcd_storage_add_account_from_plugin_def get_plugin_run_callbacks)
  then show ?thesis unfolding in_dom_get_plugin by blast
qed

lemma absorb_in_dom:
  "n \<in> set xs \<or> n |\<in>| fmdom (accounts s) \<Longrightarrow>
   n |\<in>| fmdom (accounts
       (foldl (\<lambda>s account. mcd_storage_add_account_from_plugin P s plugin (Some account)) s xs))"
proof (induction xs arbitrary: s)
  case Nil
  then show ?case by simp
next
  case (Cons x xs)
  have "n \<in> set xs \<or> n |\<in>| fmdom (accounts (mcd_storage_add_account_from_plugin P s plugin (Some x)))"
    using Cons.prems add_account_in_dom [of x P s plugin]
      add_account_dom_mono [of n s P plugin "Some x"] by auto
  then show ?case using Cons.IH by simp
qed

lemma load_from_plugin_in_dom:
  "n \<in> set (mcp_account_storage_list plugin) \<or> n |\<in>| fmdom (accounts self) \<Longrightarrow>
   n |\<in>| fmdom (accounts (load_from_plugin P self plugin))"
  unfolding load_from_plugin_def by (rule absorb_in_dom) (simp add: plugin_called_def)

lemma load_lists_in_dom:
  assumes "plugin \<in> set stores" "n \<in> set (mcp_account_storage_list plugin)"
  shows "n |\<in>| fmdom (accounts (mcd_storage_load P self stores))"
proof -
  have "(\<exists>q \<in> set xs. n \<in> set (mcp_account_storage_list q)) \<or> n |\<in>| fmdom (accounts s) \<Longrightarrow>
        n |\<in>| fmdom (accounts (foldl (load_from_plugin P) s xs))" for s xs
  proof (induction xs arbitrary: s)
    case Nil
    then show ?case by simp
  next
    case (Cons x xs)
    have "(\<exists>q \<in> set xs. n \<in> set (mcp_account_storage_list q))
          \<or> n |\<in>| fmdom (accounts (load_from_plugin P s x))"
      using Cons.prems load_from_plugin_in_dom [of n x s P] by auto
    then show ?case using Cons.IH by simp
  qed
  from this [of "rev stores" self] show ?thesis
    using assms by (auto simp: mcd_storage_load_def)
qed

lemma load_from_plugin_continues:
  assumes "mcp_account_storage_list plugin = pre @ a # post"
    and "a |\<in>| fmdom (accounts
           (foldl (\<lambda>s account. mcd_storage_add_account_from_plugin P s plugin (Some account))
              (plugin_called (Call_list (mcp_account_storage_name plugin)) self) pre))"
  shows "load_from_plugin P self plugin
         = foldl (\<lambda>s account. mcd_storage_add_account_from_plugin P s plugin (Some account))
             (g_return_if_fail_warning ''!g_hash_table_contains (self->accounts, account)''
                (foldl (\<lambda>s account. mcd_storage_add_account_from_plugin P s plugin (Some account))
                   (plugin_called (Call_list (mcp_account_storage_name plugin)) self) pre))
             post"
  using assms by (simp add: load_from_plugin_def add_account_present)

lemma create_account_loop_prefix:
  "\<forall>q \<in> set pre. isl (mcp_account_storage_create q (fmdom (accounts self)) manager protocol identification)
   \<Longrightarrow> create_account_loop P self (pre @ rest) manager protocol identification
     = create_account_loop P
         (self\<lparr>plugin_calls := plugin_calls self
            @ map (\<lambda>q. Call_create (mcp_account_storage_name q) manager protocol identification
                     (mcp_account_storage_create q (fmdom (accounts self)) manager protocol identification))
                pre\<rparr>)
         rest manager protocol identification"
proof (induction pre arbitrary: self)
  case Nil
  then show ?case by simp
next
  case (Cons q pre)
  then show ?case
    by (auto simp: Let_def plugin_called_def isl_def)
qed

lemma create_account_duplicate:
  assumes "manager \<noteq> []" "protocol \<noteq> []" "stores = pre @ plugin # post"
    and "\<forall>q \<in> set pre. isl (mcp_account_storage_create q (fmdom (accounts self)) manager protocol identification)"
    and "mcp_account_storage_create plugin (fmdom (accounts self)) manager protocol identification = Inr a"
    and "a |\<in>| fmdom (accounts self)"
  shows "mcd_storage_create_account P self stores None manager protocol identification
         = ((Some a, None),
            g_return_if_fail_warning ''!g_hash_table_contains (self->accounts, account)''
              (self\<lparr>plugin_calls := plugin_calls self
                 @ map (\<lambda>q. Call_create (mcp_account_storage_name q) manager protocol identification
                          (mcp_account_storage_create q (fmdom (accounts self)) manager protocol identification))
                     (pre @ [plugin])\<rparr>))"
  using assms
  by (simp add: mcd_storage_create_account_def create_account_loop_prefix Let_def plugin_called_def
      add_account_present)

lemma create_account_duplicate_provider:
  assumes "manager \<noteq> []" "protocol \<noteq> []"
    and "find (\<lambda>plugin. \<not> tp_strdiff (Some (mcp_account_storage_provider plugin)) (Some pr)) stores
           = Some plugin"
    and "mcp_account_storage_create plugin (fmdom (accounts self)) manager protocol identification = Inr a"
    and "a |\<in>| fmdom (accounts self)"
  shows "mcd_storage_create_account P self stores (Some pr) manager protocol identification
         = ((Some a, None),
            g_return_if_fail_warning ''!g_hash_table_contains (self->accounts, account)''
              (plugin_called
                 (Call_create (mcp_account_storage_name plugin) manager protocol identification (Inr a))
                 self))"
  using assms
  by (simp add: mcd_storage_create_account_def Let_def add_account_present plugin_called_def)

text \<open>
  C4, as amended. When a plugin reports an account name that is in the cache already,
  \<^verbatim>\<open>mcd_storage_add_account_from_plugin\<close> logs the failed check and returns: nothing
  else changes, the plugin is not asked for the account's values, and the caller goes
  on. A load goes on with the accounts the plugin lists after the duplicate and with
  the remaining plugins, and every name that a plugin lists is in the cache when the
  load ends. A creation whose plugin gives a name in use (the first plugin able to
  create, or the plugin of the provider asked for) still returns that name with no
  error. Through absorbing one report, a whole \<^verbatim>\<open>mcd_storage_load\<close> and a
  \<^verbatim>\<open>mcd_storage_create_account\<close>, every account that was cached keeps its owning
  plugin. The write-back functions do not check which account is being absorbed, so the
  record itself is kept under a condition: when the plugins push data only for the
  account they are asked for, it is unchanged through a whole load and a creation.
\<close>

theorem duplicate_account_never_reassigned:
  "(a |\<in>| fmdom (accounts self) \<longrightarrow>
      mcd_storage_add_account_from_plugin P self plugin (Some a)
        = g_return_if_fail_warning ''!g_hash_table_contains (self->accounts, account)'' self)
   \<and> (mcd_storage_get_plugin self a = Some owner \<longrightarrow>
        mcd_storage_get_plugin (mcd_storage_add_account_from_plugin P self plugin name) a = Some owner
        \<and> mcd_storage_get_plugin (mcd_storage_load P self stores) a = Some owner
        \<and> mcd_storage_get_plugin
            (snd (mcd_storage_create_account P self stores provider manager protocol identification)) a
            = Some owner)
   \<and> (lookup_account self a = Some sa \<and> list_all pushes_own_account stores \<longrightarrow>
        lookup_account (mcd_storage_load P self stores) a = Some sa
        \<and> lookup_account
            (snd (mcd_storage_create_account P self stores provider manager protocol identification)) a
            = Some sa)
   \<and> (mcp_account_storage_list plugin = pre @ a # post
        \<and> a |\<in>| fmdom (accounts
             (foldl (\<lambda>s account. mcd_storage_add_account_from_plugin P s plugin (Some account))
                (plugin_called (Call_list (mcp_account_storage_name plugin)) self) pre)) \<longrightarrow>
        load_from_plugin P self plugin
          = foldl (\<lambda>s account. mcd_storage_add_account_from_plugin P s plugin (Some account))
              (g_return_if_fail_warning ''!g_hash_table_contains (self->accounts, account)''
                 (foldl (\<lambda>s account. mcd_storage_add_account_from_plugin P s plugin (Some account))
                    (plugin_called (Call_list (mcp_account_storage_name plugin)) self) pre))
              post)
   \<and> (\<forall>q \<in> set stores. \<forall>n \<in> set (mcp_account_storage_list q).
         n |\<in>| fmdom (accounts (mcd_storage_load P self stores)))
   \<and> (manager \<noteq> [] \<and> protocol \<noteq> [] \<and> stores = before @ creator # rest
        \<and> (\<forall>q \<in> set before.
              isl (mcp_account_storage_create q (fmdom (accounts self)) manager protocol identification))
        \<and> mcp_account_storage_create creator (fmdom (accounts self)) manager protocol identification
            = Inr a
        \<and> a |\<in>| fmdom (accounts self) \<longrightarrow>
        mcd_storage_create_account P self stores None manager protocol identification
          = ((Some a, None),
             g_return_if_fail_warning ''!g_hash_table_contains (self->accounts, account)''
               (self\<lparr>plugin_calls := plugin_calls self
                  @ map (\<lambda>q. Call_create (mcp_account_storage_name q) manager protocol identification
                           (mcp_account_storage_create q (fmdom (accounts self))
                              manager protocol identification))
                      (before @ [creator])\<rparr>)))
   \<and> (manager \<noteq> [] \<and> protocol \<noteq> []
        \<and> find (\<lambda>plugin. \<not> tp_strdiff (Some (mcp_account_storage_provider plugin)) (Some pr)) stores
            = Some creator
        \<and> mcp_account_storage_create creator (fmdom (accounts self)) manager protocol identification
            = Inr a
        \<and> a |\<in>| fmdom (accounts self) \<longrightarrow>
        mcd_storage_create_account P self stores (Some pr) manager protocol identification
          = ((Some a, None),
             g_return_if_fail_warning ''!g_hash_table_contains (self->accounts, account)''
               (plugin_called
                  (Call_create (mcp_account_storage_name creator) manager protocol identification (Inr a))
                  self)))"
proof -
  have c1: "a |\<in>| fmdom (accounts self) \<longrightarrow>
      mcd_storage_add_account_from_plugin P self plugin (Some a)
        = g_return_if_fail_warning ''!g_hash_table_contains (self->accounts, account)'' self"
    using add_account_present [of a self P plugin] by blast
  have c2: "mcd_storage_get_plugin self a = Some owner \<longrightarrow>
        mcd_storage_get_plugin (mcd_storage_add_account_from_plugin P self plugin name) a = Some owner
        \<and> mcd_storage_get_plugin (mcd_storage_load P self stores) a = Some owner
        \<and> mcd_storage_get_plugin
            (snd (mcd_storage_create_account P self stores provider manager protocol identification)) a
            = Some owner"
    using get_plugin_add_account [of self a owner P plugin name]
      get_plugin_load [of self a owner P stores]
      get_plugin_create_account [of self a owner P stores provider manager protocol identification]
    by blast
  have c3: "lookup_account self a = Some sa \<and> list_all pushes_own_account stores \<longrightarrow>
        lookup_account (mcd_storage_load P self stores) a = Some sa
        \<and> lookup_account
            (snd (mcd_storage_create_account P self stores provider manager protocol identification)) a
            = Some sa"
    using load_keeps_record [of self a sa stores P]
      create_account_keeps_record [of self a sa stores P provider manager protocol identification]
    by blast
  have c4: "mcp_account_storage_list plugin = pre @ a # post
        \<and> a |\<in>| fmdom (accounts
             (foldl (\<lambda>s account. mcd_storage_add_account_from_plugin P s plugin (Some account))
                (plugin_called (Call_list (mcp_account_storage_name plugin)) self) pre)) \<longrightarrow>
        load_from_plugin P self plugin
          = foldl (\<lambda>s account. mcd_storage_add_account_from_plugin P s plugin (Some account))
              (g_return_if_fail_warning ''!g_hash_table_contains (self->accounts, account)''
                 (foldl (\<lambda>s account. mcd_storage_add_account_from_plugin P s plugin (Some account))
                    (plugin_called (Call_list (mcp_account_storage_name plugin)) self) pre))
              post"
    using load_from_plugin_continues [of plugin pre a post P self] by blast
  have c5: "\<forall>q \<in> set stores. \<forall>n \<in> set (mcp_account_storage_list q).
         n |\<in>| fmdom (accounts (mcd_storage_load P self stores))"
    using load_lists_in_dom [of _ stores _ P self] by blast
  have c6: "manager \<noteq> [] \<and> protocol \<noteq> [] \<and> stores = before @ creator # rest
        \<and> (\<forall>q \<in> set before.
              isl (mcp_account_storage_create q (fmdom (accounts self)) manager protocol identification))
        \<and> mcp_account_storage_create creator (fmdom (accounts self)) manager protocol identification
            = Inr a
        \<and> a |\<in>| fmdom (accounts self) \<longrightarrow>
        mcd_storage_create_account P self stores None manager protocol identification
          = ((Some a, None),
             g_return_if_fail_warning ''!g_hash_table_contains (self->accounts, account)''
               (self\<lparr>plugin_calls := plugin_calls self
                  @ map (\<lambda>q. Call_create (mcp_account_storage_name q) manager protocol identification
                           (mcp_account_storage_create q (fmdom (accounts self))
                              manager protocol identification))
                      (before @ [creator])\<rparr>))"
    using create_account_duplicate
      [of manager protocol stores before creator rest self identification a P]
    by blast
  have c7: "manager \<noteq> [] \<and> protocol \<noteq> []
        \<and> find (\<lambda>plugin. \<not> tp_strdiff (Some (mcp_account_storage_provider plugin)) (Some pr)) stores
            = Some creator
        \<and> mcp_account_storage_create creator (fmdom (accounts self)) manager protocol identification
            = Inr a
        \<and> a |\<in>| fmdom (accounts self) \<longrightarrow>
        mcd_storage_create_account P self stores (Some pr) manager protocol identification
          = ((Some a, None),
             g_return_if_fail_warning ''!g_hash_table_contains (self->accounts, account)''
               (plugin_called
                  (Call_create (mcp_account_storage_name creator) manager protocol identification (Inr a))
                  self))"
    using create_account_duplicate_provider
      [of manager protocol pr stores creator self identification a P]
    by blast
  show ?thesis
    by (intro conjI) (rule c1, rule c2, rule c3, rule c4, rule c5, rule c6, rule c7)
qed

theorem duplicate_account_never_reassigned_witness:
  "lookup_account
     (mcd_storage_load plain_platform example_cache [listing_plugin ''haze'' 10 [''fred'', ''wilma'']])
     ''fred''
     = Some (mcd_storage_account_new (plain_plugin ''gabble'' 0))
   \<and> mcd_storage_get_plugin
     (mcd_storage_load plain_platform example_cache [listing_plugin ''haze'' 10 [''fred'', ''wilma'']])
     ''fred''
     = Some (plain_plugin ''gabble'' 0)
   \<and> mcd_storage_add_account_from_plugin plain_platform example_cache
       (listing_plugin ''haze'' 10 [''fred'', ''wilma'']) (Some ''fred'')
     = g_return_if_fail_warning ''!g_hash_table_contains (self->accounts, account)'' example_cache
   \<and> ''wilma'' |\<in>| fmdom (accounts
       (mcd_storage_load plain_platform example_cache [listing_plugin ''haze'' 10 [''fred'', ''wilma'']]))
   \<and> load_from_plugin plain_platform example_cache (listing_plugin ''haze'' 10 [''fred'', ''wilma''])
     = mcd_storage_add_account_from_plugin plain_platform
         (g_return_if_fail_warning ''!g_hash_table_contains (self->accounts, account)''
            (plugin_called (Call_list ''haze'') example_cache))
         (listing_plugin ''haze'' 10 [''fred'', ''wilma'']) (Some ''wilma'')
   \<and> mcd_storage_create_account plain_platform example_cache
       [plain_plugin ''salut'' 20, creating_plugin ''haze'' 10 ''fred''] None ''haze'' ''jabber'' ''fred''
     = ((Some ''fred'', None),
        g_return_if_fail_warning ''!g_hash_table_contains (self->accounts, account)''
          (example_cache\<lparr>plugin_calls := plugin_calls example_cache
             @ [Call_create ''salut'' ''haze'' ''jabber'' ''fred'' (Inl (GError TP_ERROR_INVALID_ARGUMENT [])),
                Call_create ''haze'' ''haze'' ''jabber'' ''fred'' (Inr ''fred'')]\<rparr>))
   \<and> mcd_storage_create_account plain_platform example_cache
       [creating_plugin ''haze'' 10 ''fred''] (Some []) ''haze'' ''jabber'' ''fred''
     = ((Some ''fred'', None),
        g_return_if_fail_warning ''!g_hash_table_contains (self->accounts, account)''
          (plugin_called (Call_create ''haze'' ''haze'' ''jabber'' ''fred'' (Inr ''fred'')) example_cache))"
proof -
  have p: "list_all pushes_own_account [listing_plugin ''haze'' 10 [''fred'', ''wilma'']]"
    by (simp add: pushes_own_account_def listing_plugin_def plain_plugin_def)
  have o: "mcd_storage_get_plugin example_cache ''fred'' = Some (plain_plugin ''gabble'' 0)"
    by (simp add: mcd_storage_get_plugin_def example_cache_fred mcd_storage_account_new_def)
  have d: "''fred'' |\<in>| fmdom (accounts example_cache)"
    by (simp add: example_cache_fields)
  have w1: "lookup_account
     (mcd_storage_load plain_platform example_cache [listing_plugin ''haze'' 10 [''fred'', ''wilma'']])
     ''fred''
     = Some (mcd_storage_account_new (plain_plugin ''gabble'' 0))
   \<and> mcd_storage_get_plugin
     (mcd_storage_load plain_platform example_cache [listing_plugin ''haze'' 10 [''fred'', ''wilma'']])
     ''fred''
     = Some (plain_plugin ''gabble'' 0)
   \<and> mcd_storage_add_account_from_plugin plain_platform example_cache
       (listing_plugin ''haze'' 10 [''fred'', ''wilma'']) (Some ''fred'')
     = g_return_if_fail_warning ''!g_hash_table_contains (self->accounts, account)'' example_cache"
    using duplicate_account_never_reassigned
      [where a = "''fred''" and self = example_cache and P = plain_platform
         and plugin = "listing_plugin ''haze'' 10 [''fred'', ''wilma'']"
         and stores = "[listing_plugin ''haze'' 10 [''fred'', ''wilma'']]"
         and owner = "plain_plugin ''gabble'' 0"
         and sa = "mcd_storage_account_new (plain_plugin ''gabble'' 0)"]
      p o d example_cache_fred
    by blast
  have w4: "''wilma'' |\<in>| fmdom (accounts
       (mcd_storage_load plain_platform example_cache [listing_plugin ''haze'' 10 [''fred'', ''wilma'']]))"
    using duplicate_account_never_reassigned
      [where self = example_cache and P = plain_platform
         and stores = "[listing_plugin ''haze'' 10 [''fred'', ''wilma'']]",
       THEN conjunct2, THEN conjunct2, THEN conjunct2, THEN conjunct2, THEN conjunct1,
       THEN bspec, THEN bspec,
       of "listing_plugin ''haze'' 10 [''fred'', ''wilma'']" "''wilma''"]
    by (simp add: listing_plugin_def plain_plugin_def)
  have w5: "load_from_plugin plain_platform example_cache (listing_plugin ''haze'' 10 [''fred'', ''wilma''])
     = mcd_storage_add_account_from_plugin plain_platform
         (g_return_if_fail_warning ''!g_hash_table_contains (self->accounts, account)''
            (plugin_called (Call_list ''haze'') example_cache))
         (listing_plugin ''haze'' 10 [''fred'', ''wilma'']) (Some ''wilma'')"
    using duplicate_account_never_reassigned
      [where self = example_cache and P = plain_platform and a = "''fred''"
         and plugin = "listing_plugin ''haze'' 10 [''fred'', ''wilma'']"
         and pre = "[]" and post = "[''wilma'']",
       THEN conjunct2, THEN conjunct2, THEN conjunct2, THEN conjunct1] d
    by (simp add: listing_plugin_def plain_plugin_def)
  have w6: "mcd_storage_create_account plain_platform example_cache
       [plain_plugin ''salut'' 20, creating_plugin ''haze'' 10 ''fred''] None ''haze'' ''jabber'' ''fred''
     = ((Some ''fred'', None),
        g_return_if_fail_warning ''!g_hash_table_contains (self->accounts, account)''
          (example_cache\<lparr>plugin_calls := plugin_calls example_cache
             @ [Call_create ''salut'' ''haze'' ''jabber'' ''fred'' (Inl (GError TP_ERROR_INVALID_ARGUMENT [])),
                Call_create ''haze'' ''haze'' ''jabber'' ''fred'' (Inr ''fred'')]\<rparr>))"
    using duplicate_account_never_reassigned
      [where self = example_cache and P = plain_platform and a = "''fred''"
         and stores = "[plain_plugin ''salut'' 20, creating_plugin ''haze'' 10 ''fred'']"
         and before = "[plain_plugin ''salut'' 20]" and creator = "creating_plugin ''haze'' 10 ''fred''"
         and rest = "[]" and manager = "''haze''" and protocol = "''jabber''"
         and identification = "''fred''",
       THEN conjunct2, THEN conjunct2, THEN conjunct2, THEN conjunct2, THEN conjunct2, THEN conjunct1] d
    by (simp add: creating_plugin_def plain_plugin_def)
  have w7: "mcd_storage_create_account plain_platform example_cache
       [creating_plugin ''haze'' 10 ''fred''] (Some []) ''haze'' ''jabber'' ''fred''
     = ((Some ''fred'', None),
        g_return_if_fail_warning ''!g_hash_table_contains (self->accounts, account)''
          (plugin_called (Call_create ''haze'' ''haze'' ''jabber'' ''fred'' (Inr ''fred'')) example_cache))"
    using duplicate_account_never_reassigned
      [where self = example_cache and P = plain_platform and a = "''fred''"
         and stores = "[creating_plugin ''haze'' 10 ''fred'']"
         and creator = "creating_plugin ''haze'' 10 ''fred''" and pr = "[]"
         and manager = "''haze''" and protocol = "''jabber''"
         and identification = "''fred''",
       THEN conjunct2, THEN conjunct2, THEN conjunct2, THEN conjunct2, THEN conjunct2, THEN conjunct2] d
    by (simp add: creating_plugin_def plain_plugin_def tp_strdiff_def)
  show ?thesis
    using w1 w4 w5 w6 w7 by blast
qed

text \<open>
  The claim as the spec words it fails twice. The violation is not fatal: the failed
  check of \<^verbatim>\<open>g_return_if_fail\<close> is logged and the work goes on. Two plugins both
  list \<open>x\<close>; the load runs to its end, keeps \<open>x\<close> with the plugin that reported it first
  and, after the duplicate, absorbs \<open>y\<close> from the plugin that reported \<open>x\<close> second. A
  plugin that creates an account under a name in use makes
  \<^verbatim>\<open>mcd_storage_create_account\<close> return that name as a success. And the cached record
  can be overwritten: the plugin \<open>haze\<close> reports \<open>fred\<close>, which \<open>gabble\<close> owns, and
  \<open>wilma\<close>; its report of \<open>fred\<close> is rejected, and while \<open>wilma\<close> is absorbed it pushes
  a display name for \<open>fred\<close>, which \<^verbatim>\<open>mcpa_set_attribute\<close> writes into the record of
  \<open>fred\<close>.
\<close>

theorem duplicate_account_counterexample:
  "mcd_storage_load plain_platform mcd_storage_init
     (register_plugins [listing_plugin ''low'' 0 [''x''], listing_plugin ''high'' 10 [''x'', ''y'']])
   = \<lparr>accounts =
        fmupd ''y'' (mcd_storage_account_new (listing_plugin ''high'' 10 [''x'', ''y'']))
          (fmupd ''x'' (mcd_storage_account_new (listing_plugin ''low'' 0 [''x''])) fmempty),
      g_log = [''!g_hash_table_contains (self->accounts, account)''],
      plugin_calls =
        [Call_list ''low'', Call_get ''low'' ''x'', Call_list ''high'', Call_get ''high'' ''y'']\<rparr>
   \<and> mcd_storage_create_account plain_platform example_cache [creating_plugin ''haze'' 10 ''fred'']
       None ''haze'' ''jabber'' ''fred''
     = ((Some ''fred'', None),
        \<lparr>accounts = fmupd ''fred'' (mcd_storage_account_new (plain_plugin ''gabble'' 0)) fmempty,
         g_log = [''!g_hash_table_contains (self->accounts, account)''],
         plugin_calls =
           [Call_get ''gabble'' ''fred'',
            Call_create ''haze'' ''haze'' ''jabber'' ''fred'' (Inr ''fred'')]\<rparr>)
   \<and> lookup_account example_cache ''fred'' = Some (mcd_storage_account_new (plain_plugin ''gabble'' 0))
   \<and> lookup_account
       (mcd_storage_load plain_platform example_cache
          [pushing_plugin ''haze'' 10 [''fred'', ''wilma'']
             [Mcp_set_attribute ''fred'' ''DisplayName'' (Some (VString ''evil''))]])
       ''fred''
     = Some ((mcd_storage_account_new (plain_plugin ''gabble'' 0))
               \<lparr>attributes := fmupd ''DisplayName'' (VString ''evil'') fmempty\<rparr>)
   \<and> g_log
       (mcd_storage_load plain_platform example_cache
          [pushing_plugin ''haze'' 10 [''fred'', ''wilma'']
             [Mcp_set_attribute ''fred'' ''DisplayName'' (Some (VString ''evil''))]])
     = [''!g_hash_table_contains (self->accounts, account)'']"
  by (simp add: mcd_storage_load_def register_plugins_def add_storage_plugin_def
      account_storage_cmp_def load_from_plugin_def mcd_storage_add_account_from_plugin_def
      mcd_storage_init_def plugin_called_def g_return_if_fail_warning_def
      listing_plugin_def plain_plugin_def creating_plugin_def pushing_plugin_def
      mcd_storage_create_account_def mcpa_set_attribute_def lookup_account_def
      mcd_storage_account_new_def Let_def example_cache_eq)

subsection \<open>Escaping and decoding\<close>

lemma is_digit_digit_char: "d < 10 \<Longrightarrow> is_digit (digit_char d)"
  by (simp add: is_digit_def digit_char_def)

lemma digit_value_digit_char: "d < 10 \<Longrightarrow> (of_char (digit_char d) :: nat) - 48 = d"
  by (simp add: digit_char_def)

lemma printf_u_digits: "list_all is_digit (printf_u n)"
proof (induction n rule: printf_u.induct)
  case (1 n)
  then show ?case
    by (subst printf_u.simps) (simp add: is_digit_digit_char)
qed

lemma printf_u_nonempty: "printf_u n \<noteq> []"
  by (subst printf_u.simps) simp

lemma digits_value_append:
  "digits_value (xs @ [c]) = 10 * digits_value xs + ((of_char c :: nat) - 48)"
  by (simp add: digits_value_def)

lemma digits_value_printf_u: "digits_value (printf_u n) = n"
proof (induction n rule: printf_u.induct)
  case (1 n)
  show ?case
  proof (cases "n < 10")
    case True
    then show ?thesis
      by (subst printf_u.simps) (simp add: digits_value_def digit_value_digit_char)
  next
    case False
    then show ?thesis
      using 1
      by (subst printf_u.simps) (simp add: digits_value_append digit_value_digit_char)
  qed
qed

lemma is_digit_not_special:
  "is_digit c \<Longrightarrow> \<not> ISSPACE c \<and> c \<noteq> CHR ''-'' \<and> c \<noteq> CHR ''+'' \<and> c \<noteq> CHR '' ''
     \<and> c \<noteq> CHR 0x09 \<and> c \<noteq> CHR 0x0A \<and> c \<noteq> CHR 0x0D \<and> c \<noteq> CHR 0x5C \<and> c \<noteq> list_separator"
  by (auto simp: is_digit_def ISSPACE_def list_separator_def)

lemma takeWhile_all: "list_all Q xs \<Longrightarrow> takeWhile Q xs = xs"
  by (induction xs) auto

lemma dropWhile_all: "list_all Q xs \<Longrightarrow> dropWhile Q xs = []"
  by (induction xs) auto

lemma g_parse_long_long_printf_u: "g_parse_long_long (printf_u n) = (n, False, [])"
proof -
  obtain c cs where p: "printf_u n = c # cs"
    using printf_u_nonempty [of n] by (cases "printf_u n") auto
  have d: "list_all is_digit (c # cs)"
    using printf_u_digits [of n] p by simp
  then have c: "is_digit c" by simp
  have "g_parse_long_long (c # cs) = (digits_value (c # cs), False, [])"
    using is_digit_not_special [OF c] d
    by (simp add: g_parse_long_long_def Let_def takeWhile_all dropWhile_all)
  then show ?thesis
    using p digits_value_printf_u [of n] by simp
qed

lemma g_parse_long_long_minus_printf_u:
  "g_parse_long_long (CHR ''-'' # printf_u n) = (n, True, [])"
proof -
  have d: "list_all is_digit (printf_u n)" by (rule printf_u_digits)
  have "\<not> ISSPACE (CHR ''-'')" by (simp add: ISSPACE_def)
  then show ?thesis
    using d printf_u_nonempty [of n]
    by (simp add: g_parse_long_long_def Let_def takeWhile_all dropWhile_all digits_value_printf_u)
qed

lemma escape_digits:
  "list_all is_digit xs \<Longrightarrow> g_key_file_parse_string_as_value esc ls xs = xs"
proof (induction xs arbitrary: ls)
  case Nil
  then show ?case by simp
next
  case (Cons c cs)
  then show ?case
    using is_digit_not_special [of c] by simp
qed

lemma escape_printf_u: "g_key_file_parse_string_as_value False True (printf_u n) = printf_u n"
  by (simp add: escape_digits printf_u_digits)

lemma escape_printf_d: "g_key_file_parse_string_as_value False True (printf_d i) = printf_d i"
  by (simp add: printf_d_def escape_digits printf_u_digits list_separator_def)

lemma g_key_file_get_set_value [simp]:
  "g_key_file_get_value (g_key_file_set_value keyfile g k x) g k = Inr x"
  by (simp add: g_key_file_get_value_def g_key_file_set_value_def)

lemma g_key_file_get_new:
  "g_key_file_get_value g_key_file_new g k = Inl (GError G_KEY_FILE_ERROR_GROUP_NOT_FOUND [])"
  by (simp add: g_key_file_get_value_def g_key_file_new_def)

lemma escape_variant_eq:
  "mcd_keyfile_escape_variant P variant
     = (case variant of
          VString x \<Rightarrow> Some (g_key_file_parse_string_as_value False True x)
        | VObjectPath x \<Rightarrow> Some (g_key_file_parse_string_as_value False True x)
        | VSignature x \<Rightarrow> Some (g_key_file_parse_string_as_value False True x)
        | VUInt16 w \<Rightarrow> Some (printf_u (unat w))
        | VUInt32 w \<Rightarrow> Some (printf_u (unat w))
        | VInt16 w \<Rightarrow> Some (printf_d (sint w))
        | VInt32 w \<Rightarrow> Some (printf_d (sint w))
        | VBoolean b \<Rightarrow> Some (if b then ''true'' else ''false'')
        | VByte w \<Rightarrow> Some (printf_u (unat w))
        | VUInt64 w \<Rightarrow> Some (printf_u (unat w))
        | VInt64 w \<Rightarrow> Some (printf_d (sint w))
        | VDouble d \<Rightarrow> Some (g_ascii_dtostr P d)
        | VStrv strings \<Rightarrow>
            Some (concat (map (\<lambda>x. g_key_file_parse_string_as_value True True x @ [list_separator]) strings))
        | VObjv strings \<Rightarrow>
            Some (concat (map (\<lambda>x. g_key_file_parse_string_as_value True True x @ [list_separator]) strings))
        | VPresence u status message \<Rightarrow>
            Some (concat (map (\<lambda>x. g_key_file_parse_string_as_value True True x @ [list_separator])
                    [take 10 (printf_u (unat u)), status, message]))
        | VOther _ _ \<Rightarrow> None)"
  by (cases variant)
    (simp_all add: mcd_keyfile_escape_variant_def mcd_keyfile_set_variant_def Let_def
      g_key_file_set_string_def g_key_file_set_boolean_def g_key_file_set_double_def
      g_key_file_set_string_list_def escape_printf_u escape_printf_d
      g_key_file_get_new)

lemma unat_lt_64: "unat (w :: 64 word) \<le> 2 ^ 64 - 1"
  using unsigned_less [of w, where 'a = nat] by simp

lemma roundtrip_uint64:
  "g_key_file_get_uint64 (g_key_file_set_value keyfile g k (printf_u (unat (w :: 64 word)))) g k = Inr w"
  using unat_lt_64 [of w]
  by (simp add: g_key_file_get_uint64_def g_ascii_strtoull_def g_parse_long_long_printf_u
      printf_u_nonempty)

lemma roundtrip_uint32:
  "g_key_file_get_uint64 (g_key_file_set_value keyfile g k (printf_u (unat (w :: 32 word)))) g k
     = Inr (ucast w)"
proof -
  have "unat w < 2 ^ 32" using unsigned_less [of w, where 'a = nat] by simp
  then have "\<not> unat w > 2 ^ 64 - 1" by simp
  then show ?thesis
    by (simp add: g_key_file_get_uint64_def g_ascii_strtoull_def g_parse_long_long_printf_u
      printf_u_nonempty)
qed

lemma word_of_nat_nat: "0 \<le> i \<Longrightarrow> (word_of_nat (nat i) :: 'a::len word) = word_of_int i"
  by (rule of_nat_nat)

lemma neg_word_of_nat_nat: "i < 0 \<Longrightarrow> - (word_of_nat (nat (- i)) :: 'a::len word) = word_of_int i"
proof -
  assume "i < 0"
  then have "0 \<le> - i" by simp
  then have "(word_of_nat (nat (- i)) :: 'a word) = word_of_int (- i)"
    by (rule of_nat_nat)
  then show ?thesis by simp
qed

lemma strtoll_printf_d:
  assumes "- (2 ^ 63) \<le> i" "i < 2 ^ 63"
  shows "g_ascii_strtoll (printf_d i) = (word_of_int i, False, [])"
proof (cases "i < 0")
  case True
  then have "\<not> nat (- i) > 2 ^ 63" using assms by auto
  then show ?thesis
    using True
    by (simp add: g_ascii_strtoll_def printf_d_def g_parse_long_long_minus_printf_u
        neg_word_of_nat_nat)
next
  case False
  then have "\<not> nat i > 2 ^ 63 - 1" using assms by auto
  then show ?thesis
    using False
    by (simp add: g_ascii_strtoll_def printf_d_def g_parse_long_long_printf_u word_of_nat_nat)
qed

lemma printf_d_nonempty: "printf_d i \<noteq> []"
  by (simp add: printf_d_def printf_u_nonempty)

lemma roundtrip_int64:
  "g_key_file_get_int64 (g_key_file_set_value keyfile g k (printf_d (sint (w :: 64 word)))) g k = Inr w"
proof -
  have "- (2 ^ 63) \<le> sint w" "sint w < 2 ^ 63"
    using sint_ge [of w] sint_lt [of w] by simp_all
  from strtoll_printf_d [OF this] show ?thesis
    by (simp add: g_key_file_get_int64_def printf_d_nonempty)
qed

lemma sint32_range: "- (2 ^ 63) \<le> sint (w :: 32 word)" "sint (w :: 32 word) < 2 ^ 63"
  using sint_ge [of w] sint_lt [of w] by simp_all

lemma ucast_scast_32_64: "(ucast (scast w :: 64 word) :: 32 word) = (w :: 32 word)"
  by (rule bit_word_eqI) (auto simp: bit_simps)

lemma sint_scast_32_64: "sint (scast (w :: 32 word) :: 64 word) = sint w"
  by (simp add: sint_up_scast is_up)

lemma ucast_ucast_8_64_32: "(ucast (ucast (w :: 8 word) :: 64 word) :: 32 word) = ucast w"
  by (rule bit_word_eqI) (auto simp: bit_simps)

lemma uint_byte_range:
  "- (2 ^ 31) \<le> uint (w :: 8 word)" "uint w < 2 ^ 31" "- (2 ^ 63) \<le> uint w" "uint w < 2 ^ 63"
  "uint w \<le> 255"
proof -
  have a: "uint w < 2 ^ 8" using uint_lt2p [of w] by simp
  have b: "(0::int) \<le> uint w" by simp
  show "- (2 ^ 31) \<le> uint w" using b by (rule order_trans [rotated]) simp
  show "- (2 ^ 63) \<le> uint w" using b by (rule order_trans [rotated]) simp
  show "uint w < 2 ^ 31" using a by simp
  show "uint w < 2 ^ 63" using a by simp
  show "uint w \<le> 255" using a by simp
qed

lemma sint_ucast_8_32: "sint (ucast (w :: 8 word) :: 32 word) = uint w"
  using uint_byte_range [of w] by (simp add: signed_ucast_eq signed_take_bit_int_eq_self)

lemma sint_ucast_8_64: "sint (ucast (w :: 8 word) :: 64 word) = uint w"
  using uint_byte_range [of w] by (simp add: signed_ucast_eq signed_take_bit_int_eq_self)

lemma ucast_ucast_8_32_8: "(ucast (ucast (w :: 8 word) :: 32 word) :: 8 word) = w"
  by (simp add: ucast_up_ucast_id is_up)

lemma ucast_ucast_32_64_32: "(ucast (ucast (w :: 32 word) :: 64 word) :: 32 word) = w"
  by (simp add: ucast_up_ucast_id is_up)

lemma ucast_32_64_le: "\<not> (ucast (w :: 32 word) :: 64 word) > 0xFFFFFFFF"
proof -
  have "uint (ucast w :: 64 word) = uint w"
    by (simp add: uint_up_ucast is_up)
  moreover have "uint w < 2 ^ 32" using uint_lt2p [of w] by simp
  ultimately show ?thesis
    by (simp add: word_less_def)
qed

lemma strtol_printf_d_32:
  "strtol (printf_d (sint (w :: 32 word))) = (scast w, False, [])"
  using strtoll_printf_d [OF sint32_range [of w]] by (simp add: strtol_def)

lemma roundtrip_int32:
  "g_key_file_get_integer (g_key_file_set_value keyfile g k (printf_d (sint (w :: 32 word)))) g k = Inr w"
  by (simp add: g_key_file_get_integer_def strtol_printf_d_32 printf_d_nonempty
      ucast_scast_32_64 sint_scast_32_64)

lemma strtol_printf_u_8:
  "strtol (printf_u (unat (w :: 8 word))) = (ucast w, False, [])"
proof -
  have "unat w < 2 ^ 8" using unsigned_less [of w, where 'a = nat] by simp
  then have "\<not> unat w > 2 ^ 63 - 1" by simp
  then show ?thesis
    by (simp add: strtol_def g_ascii_strtoll_def g_parse_long_long_printf_u)
qed

lemma roundtrip_byte:
  "g_key_file_get_integer (g_key_file_set_value keyfile g k (printf_u (unat (w :: 8 word)))) g k
     = Inr (ucast w)"
  by (simp add: g_key_file_get_integer_def strtol_printf_u_8 printf_u_nonempty
      ucast_ucast_8_64_32 sint_ucast_8_32 sint_ucast_8_64)

lemma roundtrip_boolean:
  "g_key_file_get_boolean (g_key_file_set_value keyfile g k (if b then ''true'' else ''false'')) g k
     = Inr b"
  by (simp add: g_key_file_get_boolean_def g_ascii_isspace_def)

lemma parse_plain_char:
  "c \<noteq> CHR 0x5C \<Longrightarrow> \<not> (pieces \<and> c = list_separator) \<Longrightarrow>
   g_key_file_parse_value_as_string pieces (c # X) sv cur ps err
     = g_key_file_parse_value_as_string pieces X (sv @ [c]) (cur @ [c]) ps err"
  by (cases X) auto

lemma parse_separator:
  "g_key_file_parse_value_as_string True (list_separator # X) sv cur ps err
     = g_key_file_parse_value_as_string True X (sv @ [list_separator]) [] (ps @ [cur]) err"
  by (cases X) (simp_all add: list_separator_def)

lemma parse_escaped:
  "g_key_file_parse_value_as_string esc (g_key_file_parse_string_as_value esc ls s @ X) sv cur ps err
     = g_key_file_parse_value_as_string esc X (sv @ s) (cur @ s) ps err"
proof (induction s arbitrary: ls sv cur)
  case Nil
  then show ?case by simp
next
  case (Cons c s)
  show ?case
    using Cons.IH by (auto simp: parse_plain_char list_separator_def)
qed

lemma parse_escaped_list:
  "g_key_file_parse_value_as_string True
     (concat (map (\<lambda>x. g_key_file_parse_string_as_value True True x @ [list_separator]) xs) @ X)
     sv [] ps err
   = g_key_file_parse_value_as_string True X
       (sv @ concat (map (\<lambda>x. x @ [list_separator]) xs)) [] (ps @ xs) err"
proof (induction xs arbitrary: sv ps)
  case Nil
  then show ?case by simp
next
  case (Cons x xs)
  show ?case
    using Cons.IH [of "sv @ x @ [list_separator]" "ps @ [x]"]
    by (simp add: parse_escaped parse_separator)
qed

lemma validate_ascii:
  "0 < (of_char c :: nat) \<Longrightarrow> (of_char c :: nat) < 128 \<Longrightarrow>
   g_utf8_validate (c # xs) = g_utf8_validate xs"
  by (cases xs rule: g_utf8_validate.cases) simp_all

lemma validate_two_bytes:
  "194 \<le> (of_char c :: nat) \<Longrightarrow> (of_char c :: nat) \<le> 223 \<Longrightarrow>
   g_utf8_validate (c # c1 # xs) = (utf8_cont c1 \<and> g_utf8_validate xs)"
  by (cases xs rule: g_utf8_validate.cases) simp_all

lemma validate_three_bytes:
  "224 \<le> (of_char c :: nat) \<Longrightarrow> (of_char c :: nat) \<le> 239 \<Longrightarrow>
   g_utf8_validate (c # c1 # c2 # xs)
     = (utf8_second (of_char c) c1 \<and> utf8_cont c2 \<and> g_utf8_validate xs)"
  by (cases xs rule: g_utf8_validate.cases) simp_all

lemma validate_four_bytes:
  "240 \<le> (of_char c :: nat) \<Longrightarrow> (of_char c :: nat) \<le> 244 \<Longrightarrow>
   g_utf8_validate (c # c1 # c2 # c3 # xs)
     = (utf8_second (of_char c) c1 \<and> utf8_cont c2 \<and> utf8_cont c3 \<and> g_utf8_validate xs)"
  by simp

lemma escape_high_byte:
  assumes "128 \<le> (of_char c :: nat)"
  shows "g_key_file_parse_string_as_value esc ls (c # cs) = c # g_key_file_parse_string_as_value esc False cs"
proof -
  have "c \<noteq> CHR '' ''" "c \<noteq> CHR 0x09" "c \<noteq> CHR 0x0A" "c \<noteq> CHR 0x0D" "c \<noteq> CHR 0x5C"
    "c \<noteq> list_separator"
    using assms by (auto simp: list_separator_def)
  then show ?thesis by simp
qed

lemma escape_ascii_step:
  assumes "0 < (of_char c :: nat)" "(of_char c :: nat) < 128"
  shows "g_utf8_validate (g_key_file_parse_string_as_value esc ls (c # cs) @ Y)
     = g_utf8_validate
         (g_key_file_parse_string_as_value esc
            (if c = CHR '' '' \<or> c = CHR 0x09 \<or> c = CHR 0x0A \<or> c = CHR 0x0D then ls
             else esc \<and> c = list_separator) cs @ Y)"
proof -
  consider "c = CHR '' ''" | "c = CHR 0x09" | "c = CHR 0x0A" | "c = CHR 0x0D" | "c = CHR 0x5C"
    | "c = list_separator"
    | "c \<noteq> CHR '' ''" "c \<noteq> CHR 0x09" "c \<noteq> CHR 0x0A" "c \<noteq> CHR 0x0D" "c \<noteq> CHR 0x5C"
      "c \<noteq> list_separator"
    by blast
  then show ?thesis
  proof cases
    case 1 then show ?thesis by (simp add: validate_ascii)
  next
    case 2 then show ?thesis by (simp add: validate_ascii)
  next
    case 3 then show ?thesis by (simp add: validate_ascii)
  next
    case 4 then show ?thesis by (simp add: validate_ascii)
  next
    case 5 then show ?thesis by (simp add: validate_ascii list_separator_def)
  next
    case 6 then show ?thesis by (simp add: validate_ascii list_separator_def)
  next
    case 7 then show ?thesis using assms by (simp add: validate_ascii)
  qed
qed

lemma utf8_cont_high: "utf8_cont c \<Longrightarrow> 128 \<le> (of_char c :: nat)"
  by (simp add: utf8_cont_def)

lemma utf8_second_high: "utf8_second b c \<Longrightarrow> 128 \<le> (of_char c :: nat)"
  by (auto simp: utf8_second_def Let_def split: if_splits)

lemma escape_keeps_utf8:
  "g_utf8_validate s \<Longrightarrow>
   g_utf8_validate (g_key_file_parse_string_as_value esc ls s @ Y) = g_utf8_validate Y"
proof (induction s arbitrary: ls rule: g_utf8_validate.induct)
  case 1
  then show ?case by simp
next
  case (2 c)
  then show ?case
    by (simp add: escape_ascii_step del: g_key_file_parse_string_as_value.simps(2))
next
  case (3 c c1)
  show ?case
  proof (cases "0 < (of_char c :: nat) \<and> (of_char c :: nat) < 128")
    case True
    then show ?thesis
      using 3 by (simp add: escape_ascii_step Let_def del: g_key_file_parse_string_as_value.simps(2) g_utf8_validate.simps)
        (simp add: Let_def)
  next
    case False
    then have h: "194 \<le> (of_char c :: nat)" "(of_char c :: nat) \<le> 223" "utf8_cont c1"
      using "3.prems" by (simp_all add: Let_def)
    then have "128 \<le> (of_char c :: nat)" by simp
    then show ?thesis
      using h by (simp add: escape_high_byte utf8_cont_high validate_two_bytes del: g_key_file_parse_string_as_value.simps(2) g_utf8_validate.simps)
  qed
next
  case (4 c c1 c2)
  consider (a) "0 < (of_char c :: nat) \<and> (of_char c :: nat) < 128"
    | (b) "194 \<le> (of_char c :: nat) \<and> (of_char c :: nat) \<le> 223"
    | (c) "224 \<le> (of_char c :: nat) \<and> (of_char c :: nat) \<le> 239"
    using "4.prems" by (auto simp: Let_def split: if_splits)
  then show ?case
  proof cases
    case a
    then have "g_utf8_validate [c1, c2]" using "4.prems" by (simp add: Let_def)
    then show ?thesis
      using a "4.IH"(1) by (simp add: escape_ascii_step del: g_key_file_parse_string_as_value.simps(2) g_utf8_validate.simps)
  next
    case b
    then have h: "utf8_cont c1" "g_utf8_validate [c2]" "\<not> (0 < (of_char c :: nat) \<and> (of_char c :: nat) < 128)"
      using "4.prems" by (simp_all add: Let_def)
    have "128 \<le> (of_char c :: nat)" using b by simp
    then show ?thesis
      using b h "4.IH"(2) [OF refl h(3)]
      by (simp add: escape_high_byte utf8_cont_high validate_two_bytes del: g_key_file_parse_string_as_value.simps(2) g_utf8_validate.simps)
  next
    case c
    then have h: "utf8_second (of_char c) c1" "utf8_cont c2"
      using "4.prems" by (simp_all add: Let_def)
    have "128 \<le> (of_char c :: nat)" using c by simp
    then show ?thesis
      using c h
      by (simp add: escape_high_byte utf8_cont_high utf8_second_high validate_three_bytes del: g_key_file_parse_string_as_value.simps(2) g_utf8_validate.simps)
  qed
next
  case (5 c c1 c2 c3 cs)
  consider (a) "0 < (of_char c :: nat) \<and> (of_char c :: nat) < 128"
    | (b) "194 \<le> (of_char c :: nat) \<and> (of_char c :: nat) \<le> 223"
    | (c) "224 \<le> (of_char c :: nat) \<and> (of_char c :: nat) \<le> 239"
    | (d) "240 \<le> (of_char c :: nat) \<and> (of_char c :: nat) \<le> 244"
    using "5.prems" by (auto simp: Let_def split: if_splits)
  then show ?case
  proof cases
    case a
    then have "g_utf8_validate (c1 # c2 # c3 # cs)" using "5.prems" by (simp add: Let_def)
    then show ?thesis
      using a "5.IH"(1) by (simp add: escape_ascii_step del: g_key_file_parse_string_as_value.simps(2) g_utf8_validate.simps)
  next
    case b
    then have h: "utf8_cont c1" "g_utf8_validate (c2 # c3 # cs)" "\<not> (0 < (of_char c :: nat) \<and> (of_char c :: nat) < 128)"
      using "5.prems" by (simp_all add: Let_def)
    have "128 \<le> (of_char c :: nat)" using b by simp
    then show ?thesis
      using b h "5.IH"(2) [OF refl h(3)]
      by (simp add: escape_high_byte utf8_cont_high validate_two_bytes del: g_key_file_parse_string_as_value.simps(2) g_utf8_validate.simps)
  next
    case c
    then have h: "utf8_second (of_char c) c1" "utf8_cont c2" "g_utf8_validate (c3 # cs)"
      "\<not> (0 < (of_char c :: nat) \<and> (of_char c :: nat) < 128)"
      "\<not> (194 \<le> (of_char c :: nat) \<and> (of_char c :: nat) \<le> 223)"
      using "5.prems" by (simp_all add: Let_def)
    have "128 \<le> (of_char c :: nat)" using c by simp
    then show ?thesis
      using c h "5.IH"(3) [OF refl h(4) h(5)]
      by (simp add: escape_high_byte utf8_cont_high utf8_second_high validate_three_bytes del: g_key_file_parse_string_as_value.simps(2) g_utf8_validate.simps)
  next
    case d
    then have h: "utf8_second (of_char c) c1" "utf8_cont c2" "utf8_cont c3" "g_utf8_validate cs"
      "\<not> (0 < (of_char c :: nat) \<and> (of_char c :: nat) < 128)"
      "\<not> (194 \<le> (of_char c :: nat) \<and> (of_char c :: nat) \<le> 223)"
      "\<not> (224 \<le> (of_char c :: nat) \<and> (of_char c :: nat) \<le> 239)"
      using "5.prems" by (simp_all add: Let_def)
    have "128 \<le> (of_char c :: nat)" using d by simp
    then show ?thesis
      using d h "5.IH"(4) [OF refl h(5) h(6) h(7)]
      by (simp add: escape_high_byte utf8_cont_high utf8_second_high validate_four_bytes del: g_key_file_parse_string_as_value.simps(2) g_utf8_validate.simps)
  qed
qed

lemma roundtrip_string:
  assumes "g_utf8_validate s"
  shows "g_key_file_get_string
           (g_key_file_set_value keyfile g k (g_key_file_parse_string_as_value False True s)) g k = Inr s"
proof -
  have v: "g_utf8_validate (g_key_file_parse_string_as_value False True s)"
    using escape_keeps_utf8 [OF assms, of False True "[]"] by simp
  have d: "g_key_file_parse_value_as_string False (g_key_file_parse_string_as_value False True s) [] [] [] None
             = (s, [], None)"
    using parse_escaped [of False True s "[]" "[]" "[]" "[]" None] by simp
  show ?thesis by (simp add: g_key_file_get_string_def v d)
qed

lemma escape_list_keeps_utf8:
  "list_all g_utf8_validate xs \<Longrightarrow>
   g_utf8_validate
     (concat (map (\<lambda>x. g_key_file_parse_string_as_value True True x @ [list_separator]) xs) @ Y)
     = g_utf8_validate Y"
proof (induction xs)
  case Nil
  then show ?case by simp
next
  case (Cons x xs)
  have "g_utf8_validate (list_separator # Z) = g_utf8_validate Z" for Z
    by (rule validate_ascii) (simp_all add: list_separator_def)
  then show ?case using Cons by (simp add: escape_keeps_utf8)
qed

lemma roundtrip_string_list:
  assumes "list_all g_utf8_validate xs"
  shows "g_key_file_get_string_list
           (g_key_file_set_value keyfile g k
              (concat (map (\<lambda>x. g_key_file_parse_string_as_value True True x @ [list_separator]) xs)))
           g k = Inr xs"
proof -
  have v: "g_utf8_validate
             (concat (map (\<lambda>x. g_key_file_parse_string_as_value True True x @ [list_separator]) xs))"
    using escape_list_keeps_utf8 [OF assms, of "[]"] by simp
  have d: "g_key_file_parse_value_as_string True
             (concat (map (\<lambda>x. g_key_file_parse_string_as_value True True x @ [list_separator]) xs))
             [] [] [] None
           = (concat (map (\<lambda>x. x @ [list_separator]) xs), xs, None)"
    using parse_escaped_list [of xs "[]" "[]" "[]" None] by simp
  show ?thesis by (simp add: g_key_file_get_string_list_def v d)
qed

lemma valid_digits: "list_all is_digit xs \<Longrightarrow> g_utf8_validate (xs @ Y) = g_utf8_validate Y"
  by (induction xs) (simp_all add: validate_ascii is_digit_def)

lemma printf_u_valid: "g_utf8_validate (printf_u n)"
  using valid_digits [OF printf_u_digits, of n "[]"] by simp

lemma printf_u_length: "0 < k \<Longrightarrow> n < 10 ^ k \<Longrightarrow> length (printf_u n) \<le> k"
proof (induction k arbitrary: n)
  case 0
  then show ?case by simp
next
  case (Suc k)
  show ?case
  proof (cases "n < 10")
    case True
    then show ?thesis by (subst printf_u.simps) simp
  next
    case False
    then have k: "0 < k" using Suc.prems(2) by (cases k) simp_all
    have "n div 10 < 10 ^ k" using Suc.prems(2) by simp
    then have "length (printf_u (n div 10)) \<le> k" using Suc.IH k by blast
    then show ?thesis using False by (subst printf_u.simps) simp
  qed
qed

lemma take_printf_u_32: "take 10 (printf_u (unat (u :: 32 word))) = printf_u (unat u)"
proof -
  have "unat u < 2 ^ 32" using unsigned_less [of u, where 'a = nat] by simp
  then have "unat u < 10 ^ 10" by simp
  then have "length (printf_u (unat u)) \<le> 10" by (intro printf_u_length) simp_all
  then show ?thesis by simp
qed

lemma strtoull_printf_u_32:
  "g_ascii_strtoull (printf_u (unat (u :: 32 word))) = (ucast u, False, [])"
proof -
  have "unat u < 2 ^ 32" using unsigned_less [of u, where 'a = nat] by simp
  then have "\<not> unat u > 2 ^ 64 - 1" by simp
  then show ?thesis
    by (simp add: g_ascii_strtoull_def g_parse_long_long_printf_u)
qed

lemma roundtrip_presence:
  assumes "g_utf8_validate s" "g_utf8_validate m"
  shows "mcd_keyfile_get_variant P
           (g_key_file_set_value keyfile g k
              (concat (map (\<lambda>x. g_key_file_parse_string_as_value True True x @ [list_separator])
                 [take 10 (printf_u (unat u)), s, m])))
           g k G_VARIANT_TYPE_USS = Inr (VPresence u s m)"
proof -
  have "list_all g_utf8_validate [printf_u (unat u), s, m]"
    using assms by (simp add: printf_u_valid)
  then have "g_key_file_get_string_list
           (g_key_file_set_value keyfile g k
              (concat (map (\<lambda>x. g_key_file_parse_string_as_value True True x @ [list_separator])
                 [take 10 (printf_u (unat u)), s, m]))) g k = Inr [printf_u (unat u), s, m]"
    unfolding take_printf_u_32 by (rule roundtrip_string_list)
  then show ?thesis
    using ucast_32_64_le [of u]
    by (simp add: mcd_keyfile_get_variant_def strtoull_printf_u_32 ucast_ucast_32_64_32)
qed

text \<open>
  C2. For every boolean, every 32-bit and 64-bit integer of either sign, every byte,
  every string, every string array and every presence structure (the strings being
  valid UTF-8, as \<^verbatim>\<open>GVariant\<close> strings are), \<^verbatim>\<open>mcd_keyfile_escape_variant\<close> gives
  an escaped text, and \<^verbatim>\<open>mcd_keyfile_get_variant\<close>, reading that text as the raw
  value of a key at the value's own type, gives the value back. Strings may hold the
  list separator, white space, backslashes and line breaks.
\<close>

theorem escape_decode_round_trip:
  assumes "valid_schema_value v"
  shows "\<exists>e. mcd_keyfile_escape_variant P v = Some e \<and>
           mcd_keyfile_get_variant P (g_key_file_set_value keyfile g k e) g k (g_variant_get_type v) = Inr v"
proof (cases v)
  case (VString x)
  then show ?thesis using assms
    by (simp add: escape_variant_eq valid_schema_value_def mcd_keyfile_get_variant_def roundtrip_string)
next
  case (VUInt32 w)
  then show ?thesis using ucast_32_64_le [of w]
    by (simp add: escape_variant_eq mcd_keyfile_get_variant_def roundtrip_uint32 ucast_ucast_32_64_32)
next
  case (VInt32 w)
  then show ?thesis
    by (simp add: escape_variant_eq mcd_keyfile_get_variant_def roundtrip_int32)
next
  case (VBoolean b)
  then show ?thesis
    by (simp add: escape_variant_eq mcd_keyfile_get_variant_def roundtrip_boolean)
next
  case (VByte w)
  then show ?thesis using uint_byte_range [of w]
    by (simp add: escape_variant_eq mcd_keyfile_get_variant_def roundtrip_byte sint_ucast_8_32
        ucast_ucast_8_32_8)
next
  case (VUInt64 w)
  then show ?thesis
    by (simp add: escape_variant_eq mcd_keyfile_get_variant_def roundtrip_uint64)
next
  case (VInt64 w)
  then show ?thesis
    by (simp add: escape_variant_eq mcd_keyfile_get_variant_def roundtrip_int64)
next
  case (VStrv xs)
  then show ?thesis using assms
    by (simp add: escape_variant_eq valid_schema_value_def mcd_keyfile_get_variant_def roundtrip_string_list)
next
  case (VPresence u s m)
  then show ?thesis using assms roundtrip_presence [of s m P keyfile g k u]
    by (simp add: escape_variant_eq valid_schema_value_def)
qed (use assms in \<open>simp_all add: valid_schema_value_def\<close>)

theorem escape_decode_round_trip_witness:
  "valid_schema_value (VStrv [''a;b'', '' c''])
   \<and> mcd_keyfile_escape_variant plain_platform (VStrv [''a;b'', '' c''])
       = Some ([CHR ''a'', CHR 0x5C] @ '';b;'' @ [CHR 0x5C] @ ''sc;'')
   \<and> mcd_keyfile_get_variant plain_platform
         (g_key_file_set_value g_key_file_new ''g'' ''k''
            ([CHR ''a'', CHR 0x5C] @ '';b;'' @ [CHR 0x5C] @ ''sc;''))
         ''g'' ''k'' G_VARIANT_TYPE_STRING_ARRAY
       = Inr (VStrv [''a;b'', '' c''])"
  using escape_decode_round_trip [of "VStrv [''a;b'', '' c'']" plain_platform g_key_file_new "''g''" "''k''"]
  by (simp add: valid_schema_value_def escape_variant_eq list_separator_def)

end
